theory Spec2Isabelle
  imports Main "HOL-Library.Multiset"
begin

section \<open>Gather, scatter, scatter-fill and scatter-add on strided tensors\<close>

text \<open>
  A shallow embedding of the DPCPP scatter/gather operator file (the four templates
  \<open>impl::Gather\<close>, \<open>impl::Scatter\<close>, \<open>impl::ScatterFill\<close>, \<open>impl::ScatterAdd\<close> and the
  entry points \<open>scatter_\<close>, \<open>scatter_add_\<close>, \<open>gather_out\<close>, \<open>gather\<close>).

  A tensor is a view: sizes, strides and the memory behind its data pointer, read as a
  function from element offsets to values. A call that fails leaves a value \<open>Some e\<close>
  next to the destination as it is at the moment of the raise; a call that returns leaves
  \<open>None\<close>. The source tensor and the index tensor are read-only values of the model: the
  memory of the destination is not shared with them.
\<close>

subsection \<open>Tensors\<close>

datatype ScalarType = kByte | kChar | kShort | kInt | kLong | kHalf | kFloat | kDouble | kBool

datatype error = InvalidArgument string | UnsupportedType string | ScalarOverflow

record 'a Tensor =
  sizes :: "nat list"
  strides :: "nat list"
  storage :: "nat \<Rightarrow> 'a"
  scalar_type :: ScalarType

text \<open>
  The constants and type-trait macros of headers that are not part of the operator file
  (\<open>MAX_DPCPPTORCH_DIMS\<close>, \<open>DPCPPTORCH_DIM_WARNING\<close>, \<open>IS_FLOAT32\<close>, \<open>IS_INT\<close>) are
  parameters of the model.
\<close>

record config =
  MAX_DPCPPTORCH_DIMS :: nat
  DPCPPTORCH_DIM_WARNING :: string
  IS_FLOAT32 :: "ScalarType \<Rightarrow> bool"
  IS_INT :: "ScalarType \<Rightarrow> bool"

definition numel :: "'a Tensor \<Rightarrow> nat" where
  "numel t = prod_list (sizes t)"

text \<open>
  Modelled from the spec: the helpers \<open>TensorImpl_nDimensionLegacyNoScalars\<close>,
  \<open>TensorImpl_nDimensionLegacyAll\<close> and \<open>TensorImpl_sizeLegacyNoScalars\<close> of
  \<open>core/TensorImplUtils.h\<close> are missing. The spec reads the first as the rank of the
  tensor, the second as a rank that is 0 for an empty tensor (``rank(index) == 0 (empty)''),
  the third as the size of a dimension.
\<close>

definition nDimensionLegacyNoScalars :: "'a Tensor \<Rightarrow> nat" where
  "nDimensionLegacyNoScalars t = length (sizes t)"

definition nDimensionLegacyAll :: "'a Tensor \<Rightarrow> nat" where
  "nDimensionLegacyAll t = (if numel t = 0 then 0 else length (sizes t))"

definition sizeLegacyNoScalars :: "'a Tensor \<Rightarrow> nat \<Rightarrow> nat" where
  "sizeLegacyNoScalars t d = sizes t ! d"

subsection \<open>Coordinates, offsets and the view operations of the array abstraction\<close>

text \<open>All coordinate tuples of a shape, in row-major order.\<close>

fun coords :: "nat list \<Rightarrow> nat list list" where
  "coords [] = [[]]"
| "coords (s # ss) = concat (map (\<lambda>i. map ((#) i) (coords ss)) [0..<s])"

text \<open>The element offset of a coordinate tuple under a stride list.\<close>

definition offset :: "nat list \<Rightarrow> nat list \<Rightarrow> nat" where
  "offset st c = sum_list (map2 (*) c st)"

definition read :: "'a Tensor \<Rightarrow> nat list \<Rightarrow> 'a" where
  "read t c = storage t (offset (strides t) c)"

fun contiguous_strides :: "nat list \<Rightarrow> nat list" where
  "contiguous_strides [] = []"
| "contiguous_strides (s # ss) = prod_list ss # contiguous_strides ss"

text \<open>
  \<open>Tensor::copy_\<close>: every element of the destination view is assigned the element of the
  source at the same coordinate, one coordinate after the other.
\<close>

definition copy_elem :: "'a Tensor \<Rightarrow> 'a Tensor \<Rightarrow> nat list \<Rightarrow> (nat \<Rightarrow> 'a) \<Rightarrow> (nat \<Rightarrow> 'a)" where
  "copy_elem dst src c m = m(offset (strides dst) c := read src c)"

definition copy_tensor :: "'a Tensor \<Rightarrow> 'a Tensor \<Rightarrow> 'a Tensor" where
  "copy_tensor dst src = dst\<lparr>storage := fold (copy_elem dst src) (coords (sizes dst)) (storage dst)\<rparr>"

text \<open>
  \<open>Tensor::contiguous\<close>: the tensor itself when its strides are the row-major ones,
  otherwise a new row-major tensor of the same shape that the values are copied into.
  What a new buffer holds before the copy is never read.
\<close>

definition contiguous :: "'a Tensor \<Rightarrow> 'a Tensor" where
  "contiguous t =
     (if strides t = contiguous_strides (sizes t) then t
      else copy_tensor (t\<lparr>strides := contiguous_strides (sizes t)\<rparr>) t)"

text \<open>\<open>Tensor::resize_\<close> to a shape: the tensor becomes row-major of that shape.\<close>

definition resize_tensor :: "'a Tensor \<Rightarrow> nat list \<Rightarrow> 'a Tensor" where
  "resize_tensor t new_sizes = t\<lparr>sizes := new_sizes, strides := contiguous_strides new_sizes\<rparr>"

text \<open>
  \<open>at::empty({0}, options)\<close>: a tensor of shape \<open>[0]\<close> of the requested element type over
  memory \<open>mem\<close> of unknown contents.
\<close>

definition empty_tensor :: "(nat \<Rightarrow> 'a) \<Rightarrow> ScalarType \<Rightarrow> 'a Tensor" where
  "empty_tensor mem st = \<lparr>sizes = [0], strides = [1], storage = mem, scalar_type = st\<rparr>"

text \<open>
  Modelled from the spec: \<open>maybeOverlappingIndices\<close> of \<open>core/detail/IndexUtils.h\<close> is
  missing. The spec: ``whether a tensor's stride pattern permits address aliasing across
  distinct coordinates''.
\<close>

definition maybeOverlappingIndices :: "'a Tensor \<Rightarrow> bool" where
  "maybeOverlappingIndices t = (\<not> distinct (map (offset (strides t)) (coords (sizes t))))"

text \<open>
  Modelled from the spec: \<open>canUse32BitIndexMath\<close> of \<open>core/detail/IndexUtils.h\<close> is
  missing. The spec: ``whether every element count is representable in an unsigned 32-bit
  integer''.
\<close>

definition canUse32BitIndexMath :: "'a Tensor \<Rightarrow> bool" where
  "canUse32BitIndexMath t = (numel t < 2 ^ 32)"

subsection \<open>The kernels\<close>

text \<open>
  Modelled from the spec: the kernel templates of \<open>ScatterGather.h\<close>
  (\<open>THDPCPPTensor_gatherKernel\<close>, \<open>THSyclTensor_scatterKernel\<close>,
  \<open>THSyclTensor_scatterFillKernel\<close>, \<open>THSyclTensor_scatterAddKernel\<close>) and
  \<open>getTensorInfo\<close> are missing. The spec gives them as one algorithm generic over the index
  integer type (32-bit or 64-bit arithmetic for computing flat offsets from coordinates),
  run once per coordinate of the index tensor, whose per-dimension coordinate computation is
  unrolled for rank 1, 2, 3 and loops over all dimensions otherwise:
  gather sets \<open>dest[c] = src[c with axis-component replaced by index[c]]\<close>, scatter sets
  \<open>dest[c with axis-component replaced by index[c]] = src[c]\<close>, scatter-fill stores the
  scalar there, scatter-add adds \<open>src[c]\<close> there.

  The index type of width \<open>w\<close> is the naturals below \<open>2 ^ w\<close>, every sum and product
  reduced modulo \<open>2 ^ w\<close>.
\<close>

record 'a TensorInfo =
  data :: "nat \<Rightarrow> 'a"
  info_sizes :: "nat list"
  info_strides :: "nat list"
  dims :: nat

definition getTensorInfo :: "nat \<Rightarrow> 'a Tensor \<Rightarrow> 'a TensorInfo" where
  "getTensorInfo w t =
     \<lparr>data = storage t,
      info_sizes = map (\<lambda>s. s mod 2 ^ w) (sizes t),
      info_strides = map (\<lambda>s. s mod 2 ^ w) (strides t),
      dims = length (sizes t)\<rparr>"

text \<open>A 64-bit index value converted to the index type.\<close>

definition to_IndexType :: "nat \<Rightarrow> int \<Rightarrow> nat" where
  "to_IndexType w i = nat (i mod 2 ^ w)"

text \<open>
  One dimension of the coordinate computation. The state is the rest of the linear id and
  the offsets into the index tensor, into the tensor addressed with the full coordinate
  (\<open>t1\<close>) and into the tensor addressed through the index along \<open>dim\<close> (\<open>t2\<close>).
\<close>

definition offset_step ::
  "nat \<Rightarrow> nat \<Rightarrow> nat \<Rightarrow> int TensorInfo \<Rightarrow> 'a TensorInfo \<Rightarrow> 'a TensorInfo \<Rightarrow>
   nat \<times> nat \<times> nat \<times> nat \<Rightarrow> nat \<times> nat \<times> nat \<times> nat" where
  "offset_step w dim d index t1 t2 = (\<lambda>(linearId, indexOffset, t1Offset, t2Offset).
     (let curDimIndex = linearId mod (info_sizes index ! d) in
        (linearId div (info_sizes index ! d),
         (indexOffset + curDimIndex * (info_strides index ! d)) mod 2 ^ w,
         (t1Offset + curDimIndex * (info_strides t1 ! d)) mod 2 ^ w,
         (if d \<noteq> dim then (t2Offset + curDimIndex * (info_strides t2 ! d)) mod 2 ^ w
          else t2Offset))))"

text \<open>The generic instantiation: a loop from the last dimension down to the first.\<close>

fun offsets_loop ::
  "nat \<Rightarrow> nat \<Rightarrow> nat \<Rightarrow> int TensorInfo \<Rightarrow> 'a TensorInfo \<Rightarrow> 'a TensorInfo \<Rightarrow>
   nat \<times> nat \<times> nat \<times> nat \<Rightarrow> nat \<times> nat \<times> nat \<times> nat" where
  "offsets_loop w dim 0 index t1 t2 acc = acc"
| "offsets_loop w dim (Suc d) index t1 t2 acc =
     offsets_loop w dim d index t1 t2 (offset_step w dim d index t1 t2 acc)"

text \<open>
  The template parameter \<open>DIMS\<close> is 1, 2 or 3 for the unrolled instantiations and \<open>-1\<close> for
  the generic one.
\<close>

definition IndexToScatterGatherOffsets ::
  "nat \<Rightarrow> int \<Rightarrow> nat \<Rightarrow> int TensorInfo \<Rightarrow> 'a TensorInfo \<Rightarrow> 'a TensorInfo \<Rightarrow> nat \<Rightarrow>
   nat \<times> nat \<times> nat \<times> nat" where
  "IndexToScatterGatherOffsets w DIMS dim index t1 t2 linearId =
     (if DIMS = 1 then
        offset_step w dim 0 index t1 t2 (linearId, 0, 0, 0)
      else if DIMS = 2 then
        offset_step w dim 0 index t1 t2 (offset_step w dim 1 index t1 t2 (linearId, 0, 0, 0))
      else if DIMS = 3 then
        offset_step w dim 0 index t1 t2
          (offset_step w dim 1 index t1 t2 (offset_step w dim 2 index t1 t2 (linearId, 0, 0, 0)))
      else offsets_loop w dim (dims index) index t1 t2 (linearId, 0, 0, 0))"

definition gather_element ::
  "nat \<Rightarrow> int \<Rightarrow> 'a TensorInfo \<Rightarrow> 'a TensorInfo \<Rightarrow> int TensorInfo \<Rightarrow> nat \<Rightarrow>
   nat \<Rightarrow> (nat \<Rightarrow> 'a) \<Rightarrow> (nat \<Rightarrow> 'a)" where
  "gather_element w DIMS tensor src index dim linearId mem =
     (case IndexToScatterGatherOffsets w DIMS dim index tensor src linearId of
        (rest, indexOffset, tensorOffset, srcOffset) \<Rightarrow>
          (let indexValue = data index indexOffset;
               srcOffset' = (srcOffset + to_IndexType w indexValue * (info_strides src ! dim)) mod 2 ^ w
           in mem(tensorOffset := data src srcOffset')))"

definition THDPCPPTensor_gatherKernel ::
  "nat \<Rightarrow> int \<Rightarrow> 'a TensorInfo \<Rightarrow> 'a TensorInfo \<Rightarrow> int TensorInfo \<Rightarrow> nat \<Rightarrow> nat \<Rightarrow> (nat \<Rightarrow> 'a)" where
  "THDPCPPTensor_gatherKernel w DIMS tensor src index dim totalElements =
     fold (gather_element w DIMS tensor src index dim) [0..<totalElements] (data tensor)"

definition scatter_target ::
  "nat \<Rightarrow> int \<Rightarrow> 'a TensorInfo \<Rightarrow> 'a TensorInfo \<Rightarrow> int TensorInfo \<Rightarrow> nat \<Rightarrow> nat \<Rightarrow> nat \<times> nat" where
  "scatter_target w DIMS tensor src index dim linearId =
     (case IndexToScatterGatherOffsets w DIMS dim index src tensor linearId of
        (rest, indexOffset, srcOffset, tensorOffset) \<Rightarrow>
          (let indexValue = data index indexOffset
           in ((tensorOffset + to_IndexType w indexValue * (info_strides tensor ! dim)) mod 2 ^ w,
               srcOffset)))"

definition scatter_element ::
  "nat \<Rightarrow> int \<Rightarrow> 'a TensorInfo \<Rightarrow> 'a TensorInfo \<Rightarrow> int TensorInfo \<Rightarrow> nat \<Rightarrow>
   nat \<Rightarrow> (nat \<Rightarrow> 'a) \<Rightarrow> (nat \<Rightarrow> 'a)" where
  "scatter_element w DIMS tensor src index dim linearId mem =
     (case scatter_target w DIMS tensor src index dim linearId of
        (tensorOffset, srcOffset) \<Rightarrow> mem(tensorOffset := data src srcOffset))"

definition THSyclTensor_scatterKernel ::
  "nat \<Rightarrow> int \<Rightarrow> 'a TensorInfo \<Rightarrow> 'a TensorInfo \<Rightarrow> int TensorInfo \<Rightarrow> nat \<Rightarrow> nat \<Rightarrow> (nat \<Rightarrow> 'a)" where
  "THSyclTensor_scatterKernel w DIMS tensor src index dim totalElements =
     fold (scatter_element w DIMS tensor src index dim) [0..<totalElements] (data tensor)"

definition scatterFill_element ::
  "nat \<Rightarrow> int \<Rightarrow> 'a TensorInfo \<Rightarrow> int TensorInfo \<Rightarrow> 'a \<Rightarrow> nat \<Rightarrow>
   nat \<Rightarrow> (nat \<Rightarrow> 'a) \<Rightarrow> (nat \<Rightarrow> 'a)" where
  "scatterFill_element w DIMS tensor index val dim linearId mem =
     (case scatter_target w DIMS tensor tensor index dim linearId of
        (tensorOffset, unused) \<Rightarrow> mem(tensorOffset := val))"

definition THSyclTensor_scatterFillKernel ::
  "nat \<Rightarrow> int \<Rightarrow> 'a TensorInfo \<Rightarrow> int TensorInfo \<Rightarrow> 'a \<Rightarrow> nat \<Rightarrow> nat \<Rightarrow> (nat \<Rightarrow> 'a)" where
  "THSyclTensor_scatterFillKernel w DIMS tensor index val dim totalElements =
     fold (scatterFill_element w DIMS tensor index val dim) [0..<totalElements] (data tensor)"

definition scatterAdd_element ::
  "nat \<Rightarrow> int \<Rightarrow> 'a TensorInfo \<Rightarrow> 'a TensorInfo \<Rightarrow> int TensorInfo \<Rightarrow> nat \<Rightarrow>
   nat \<Rightarrow> (nat \<Rightarrow> 'a) \<Rightarrow> (nat \<Rightarrow> 'a::comm_monoid_add)" where
  "scatterAdd_element w DIMS tensor src index dim linearId mem =
     (case scatter_target w DIMS tensor src index dim linearId of
        (tensorOffset, srcOffset) \<Rightarrow> mem(tensorOffset := mem tensorOffset + data src srcOffset))"

text \<open>
  The scatter-add kernel with the order in which the work items are processed made
  explicit; the kernel proper processes them in ascending order.
\<close>

definition scatterAdd_in_order ::
  "nat list \<Rightarrow> nat \<Rightarrow> int \<Rightarrow> 'a TensorInfo \<Rightarrow> 'a TensorInfo \<Rightarrow> int TensorInfo \<Rightarrow> nat \<Rightarrow>
   (nat \<Rightarrow> 'a::comm_monoid_add)" where
  "scatterAdd_in_order order w DIMS tensor src index dim =
     fold (scatterAdd_element w DIMS tensor src index dim) order (data tensor)"

definition THSyclTensor_scatterAddKernel ::
  "nat \<Rightarrow> int \<Rightarrow> 'a TensorInfo \<Rightarrow> 'a TensorInfo \<Rightarrow> int TensorInfo \<Rightarrow> nat \<Rightarrow> nat \<Rightarrow>
   (nat \<Rightarrow> 'a::comm_monoid_add)" where
  "THSyclTensor_scatterAddKernel w DIMS tensor src index dim totalElements =
     scatterAdd_in_order [0..<totalElements] w DIMS tensor src index dim"

subsection \<open>The operations\<close>

text \<open>
  What a call leaves behind: \<open>self\<close> is the tensor the caller's reference denotes after the
  call (the templates take the destination as \<open>Tensor&\<close> and may assign to it), \<open>passed\<close>
  is the tensor object that was passed in, over its own memory.
\<close>

record 'a dest =
  self :: "'a Tensor"
  passed :: "'a Tensor"

text \<open>
  The destination guard, written out in each of the four templates: when the destination
  may overlap, \<open>oldTensor = tensor; tensor = tensor.contiguous()\<close> before the kernel and
  \<open>oldTensor.copy_(tensor)\<close> after it.
\<close>

definition run_guarded :: "('a Tensor \<Rightarrow> 'a Tensor) \<Rightarrow> 'a Tensor \<Rightarrow> 'a dest" where
  "run_guarded body tensor =
     (if maybeOverlappingIndices tensor then
        (let oldTensor = tensor;
             tensor' = body (contiguous tensor)
         in \<lparr>self = tensor', passed = copy_tensor oldTensor tensor'\<rparr>)
      else
        (let tensor' = body tensor
         in \<lparr>self = tensor', passed = tensor'\<rparr>))"

text \<open>
  The choice of the kernel instantiation, written out in each template with its \<open>RUN\<close>
  macro: under 32-bit index math a switch on the rank of the index tensor, otherwise the
  generic 64-bit instantiation. \<open>RUN w DIMS\<close> is the macro at index width \<open>w\<close> and
  template parameter \<open>DIMS\<close>.
\<close>

definition select_instantiation :: "bool \<Rightarrow> nat \<Rightarrow> nat \<times> int" where
  "select_instantiation narrow index_dims =
     (if narrow then
        (if index_dims = 1 then (32, 1)
         else if index_dims = 2 then (32, 2)
         else if index_dims = 3 then (32, 3)
         else (32, - 1))
      else (64, - 1))"

definition launch :: "bool \<Rightarrow> nat \<Rightarrow> (nat \<Rightarrow> int \<Rightarrow> 'r) \<Rightarrow> 'r" where
  "launch narrow index_dims RUN =
     (case select_instantiation narrow index_dims of (w, DIMS) \<Rightarrow> RUN w DIMS)"

text \<open>
  The message of a failed \<open>TORCH_CHECK\<close> is made of its arguments after the condition,
  printed one after the other: a string literal as it is, an integer in decimal, a list of
  sizes as \<open>[s1, s2, ...]\<close>.
\<close>

fun str_nat :: "nat \<Rightarrow> string" where
  "str_nat n =
     (if n < 10 then [''0123456789'' ! n]
      else str_nat (n div 10) @ [''0123456789'' ! (n mod 10)])"

declare str_nat.simps [simp del]

definition str_int :: "int \<Rightarrow> string" where
  "str_int i = (if i < 0 then ''-'' @ str_nat (nat (- i)) else str_nat (nat i))"

fun str_elements :: "nat list \<Rightarrow> string" where
  "str_elements [] = []"
| "str_elements [s] = str_nat s"
| "str_elements (s # t # ss) = str_nat s @ '', '' @ str_elements (t # ss)"

definition str_sizes :: "nat list \<Rightarrow> string" where
  "str_sizes ss = ''['' @ str_elements ss @ '']''"

definition Gather_kernel :: "nat \<Rightarrow> int Tensor \<Rightarrow> 'a Tensor \<Rightarrow> 'a Tensor \<Rightarrow> 'a Tensor" where
  "Gather_kernel dim index src tensor =
     (let totalElements = numel index in
      if totalElements > 0 then
        launch (canUse32BitIndexMath tensor \<and> canUse32BitIndexMath src \<and> canUse32BitIndexMath index)
          (dims (getTensorInfo 32 index))
          (\<lambda>w DIMS. tensor\<lparr>storage :=
             THDPCPPTensor_gatherKernel w DIMS (getTensorInfo w tensor) (getTensorInfo w src)
               (getTensorInfo w index) dim (totalElements mod 2 ^ w)\<rparr>)
      else tensor)"

fun Gather_size_loop :: "'a Tensor \<Rightarrow> 'a Tensor \<Rightarrow> int \<Rightarrow> nat list \<Rightarrow> error option" where
  "Gather_size_loop tensor src dim [] = None"
| "Gather_size_loop tensor src dim (d # ds) =
     (if int d \<noteq> dim \<and> sizeLegacyNoScalars tensor d \<noteq> sizeLegacyNoScalars src d then
        Some (InvalidArgument
          ''Input tensor must have same size as output tensor apart from the specified dimension'')
      else Gather_size_loop tensor src dim ds)"

definition Gather :: "config \<Rightarrow> 'a Tensor \<Rightarrow> 'a Tensor \<Rightarrow> int \<Rightarrow> int Tensor \<Rightarrow> error option \<times> 'a dest" where
  "Gather cfg tensor src dim index =
     (let unchanged = \<lparr>self = tensor, passed = tensor\<rparr> in
      if nDimensionLegacyNoScalars index \<noteq> nDimensionLegacyNoScalars src then
        (Some (InvalidArgument ''Index tensor must have same dimensions as input tensor''), unchanged)
      else if nDimensionLegacyNoScalars index \<noteq> nDimensionLegacyNoScalars tensor then
        (Some (InvalidArgument ''Index tensor must have same dimensions as output tensor''), unchanged)
      else if \<not> (dim \<ge> 0 \<and> dim < int (nDimensionLegacyNoScalars tensor)) then
        (Some (InvalidArgument ''Index dimension is out of bounds''), unchanged)
      else if nDimensionLegacyNoScalars src \<noteq> nDimensionLegacyNoScalars tensor then
        (Some (InvalidArgument ''Input tensor must have same dimensions as output tensor''), unchanged)
      else
        (case Gather_size_loop tensor src dim [0..<nDimensionLegacyNoScalars tensor] of
           Some e \<Rightarrow> (Some e, unchanged)
         | None \<Rightarrow>
             if \<not> nDimensionLegacyNoScalars tensor \<le> MAX_DPCPPTORCH_DIMS cfg then
               (Some (InvalidArgument (DPCPPTORCH_DIM_WARNING cfg)), unchanged)
             else (None, run_guarded (Gather_kernel (nat dim) index src) tensor)))"

definition Scatter_kernel :: "nat \<Rightarrow> int Tensor \<Rightarrow> 'a Tensor \<Rightarrow> 'a Tensor \<Rightarrow> 'a Tensor" where
  "Scatter_kernel dim index src tensor =
     (let totalElements = numel index in
      if totalElements > 0 then
        launch (canUse32BitIndexMath tensor \<and> canUse32BitIndexMath src \<and> canUse32BitIndexMath index)
          (dims (getTensorInfo 32 index))
          (\<lambda>w DIMS. tensor\<lparr>storage :=
             THSyclTensor_scatterKernel w DIMS (getTensorInfo w tensor) (getTensorInfo w src)
               (getTensorInfo w index) dim (totalElements mod 2 ^ w)\<rparr>)
      else tensor)"

fun Scatter_size_loop :: "'a Tensor \<Rightarrow> int \<Rightarrow> int Tensor \<Rightarrow> 'a Tensor \<Rightarrow> nat list \<Rightarrow> error option" where
  "Scatter_size_loop tensor dim index src [] = None"
| "Scatter_size_loop tensor dim index src (d # ds) =
     (let indexSizeD = sizeLegacyNoScalars index d in
      if int d \<noteq> dim \<and> \<not> indexSizeD \<le> sizeLegacyNoScalars tensor d then
        Some (InvalidArgument
          (''Index tensor must not have larger size than output tensor apart from the specified dimension ''
           @ str_int dim @ '', but got index '' @ str_sizes (sizes index)
           @ '' output '' @ str_sizes (sizes tensor)))
      else if \<not> indexSizeD \<le> sizeLegacyNoScalars src d then
        Some (InvalidArgument
          (''Index tensor must not have larger size than input tensor, but got index ''
           @ str_sizes (sizes index) @ ''input'' @ str_sizes (sizes src)))
      else Scatter_size_loop tensor dim index src ds)"

definition Scatter :: "config \<Rightarrow> 'a Tensor \<Rightarrow> int \<Rightarrow> int Tensor \<Rightarrow> 'a Tensor \<Rightarrow> error option \<times> 'a dest" where
  "Scatter cfg tensor dim index src =
     (let unchanged = \<lparr>self = tensor, passed = tensor\<rparr>;
          index_ndim_legacy_all = nDimensionLegacyAll index in
      if \<not> (dim \<ge> 0 \<and> dim < int (nDimensionLegacyNoScalars tensor)) then
        (Some (InvalidArgument ''Index dimension is out of bounds''), unchanged)
      else if \<not> (index_ndim_legacy_all = 0 \<or>
                 nDimensionLegacyNoScalars index = nDimensionLegacyNoScalars src) then
        (Some (InvalidArgument
           ''Index tensor must be either empty or have same dimensions as input tensor''), unchanged)
      else if nDimensionLegacyNoScalars src \<noteq> nDimensionLegacyNoScalars tensor then
        (Some (InvalidArgument ''Input tensor must have same dimensions as output tensor''), unchanged)
      else if index_ndim_legacy_all = 0 then (None, unchanged)
      else
        (case Scatter_size_loop tensor dim index src [0..<nDimensionLegacyNoScalars tensor] of
           Some e \<Rightarrow> (Some e, unchanged)
         | None \<Rightarrow>
             if \<not> length (sizes tensor) \<le> MAX_DPCPPTORCH_DIMS cfg then
               (Some (InvalidArgument (DPCPPTORCH_DIM_WARNING cfg)), unchanged)
             else (None, run_guarded (Scatter_kernel (nat dim) index src) tensor)))"

definition ScatterFill_kernel :: "nat \<Rightarrow> int Tensor \<Rightarrow> 'a \<Rightarrow> 'a Tensor \<Rightarrow> 'a Tensor" where
  "ScatterFill_kernel dim index val tensor =
     (let totalElements = numel index in
      launch (canUse32BitIndexMath tensor \<and> canUse32BitIndexMath index)
        (dims (getTensorInfo 32 index))
        (\<lambda>w DIMS. tensor\<lparr>storage :=
           THSyclTensor_scatterFillKernel w DIMS (getTensorInfo w tensor)
             (getTensorInfo w index) val dim (totalElements mod 2 ^ w)\<rparr>))"

fun ScatterFill_size_loop :: "'a Tensor \<Rightarrow> int \<Rightarrow> int Tensor \<Rightarrow> nat list \<Rightarrow> error option" where
  "ScatterFill_size_loop tensor dim index [] = None"
| "ScatterFill_size_loop tensor dim index (d # ds) =
     (let indexSizeD = sizeLegacyNoScalars index d in
      if int d \<noteq> dim \<and> \<not> indexSizeD \<le> sizeLegacyNoScalars tensor d then
        Some (InvalidArgument
          (''Index tensor must not have larger size than output tensor apart from the specified dimension ''
           @ str_int dim @ '', but got index '' @ str_sizes (sizes index)
           @ '' output '' @ str_sizes (sizes tensor)))
      else ScatterFill_size_loop tensor dim index ds)"

text \<open>
  \<open>to_scalar_t\<close> is \<open>Scalar::to<scalar_t>\<close>, a checked conversion: \<open>None\<close> when the scalar
  does not fit the element type, and the conversion raises.
\<close>

definition ScatterFill ::
  "config \<Rightarrow> ('s \<Rightarrow> 'a option) \<Rightarrow> 'a Tensor \<Rightarrow> int \<Rightarrow> int Tensor \<Rightarrow> 's \<Rightarrow> error option \<times> 'a dest" where
  "ScatterFill cfg to_scalar_t tensor dim index value_scalar =
     (let unchanged = \<lparr>self = tensor, passed = tensor\<rparr>;
          index_ndim_legacy_all = nDimensionLegacyAll index in
      if \<not> (dim \<ge> 0 \<and> dim < int (nDimensionLegacyNoScalars tensor)) then
        (Some (InvalidArgument ''Index dimension is out of bounds''), unchanged)
      else if \<not> (index_ndim_legacy_all = 0 \<or>
                 nDimensionLegacyNoScalars index = nDimensionLegacyNoScalars tensor) then
        (Some (InvalidArgument
           ''Index tensor must be either empty or have same dimensions as output tensor''), unchanged)
      else
        (case to_scalar_t value_scalar of
           None \<Rightarrow> (Some ScalarOverflow, unchanged)
         | Some val \<Rightarrow>
             if index_ndim_legacy_all = 0 then (None, unchanged)
             else
               (case ScatterFill_size_loop tensor dim index [0..<nDimensionLegacyNoScalars tensor] of
                  Some e \<Rightarrow> (Some e, unchanged)
                | None \<Rightarrow>
                    if \<not> length (sizes tensor) \<le> MAX_DPCPPTORCH_DIMS cfg then
                      (Some (InvalidArgument (DPCPPTORCH_DIM_WARNING cfg)), unchanged)
                    else (None, run_guarded (ScatterFill_kernel (nat dim) index val) tensor))))"

definition ScatterAdd_kernel ::
  "nat \<Rightarrow> int Tensor \<Rightarrow> 'a Tensor \<Rightarrow> 'a Tensor \<Rightarrow> ('a::comm_monoid_add) Tensor" where
  "ScatterAdd_kernel dim index src tensor =
     (let totalElements = numel index in
      if totalElements > 0 then
        launch (canUse32BitIndexMath tensor \<and> canUse32BitIndexMath src \<and> canUse32BitIndexMath index)
          (dims (getTensorInfo 32 index))
          (\<lambda>w DIMS. tensor\<lparr>storage :=
             THSyclTensor_scatterAddKernel w DIMS (getTensorInfo w tensor) (getTensorInfo w src)
               (getTensorInfo w index) dim (totalElements mod 2 ^ w)\<rparr>)
      else tensor)"

text \<open>
  A string literal in the place of a condition is a pointer that is not null: the
  condition holds.
\<close>

definition literal_as_condition :: "string \<Rightarrow> bool" where
  "literal_as_condition s = True"

text \<open>
  The two overloads of \<open>impl::ScatterAdd\<close>, chosen by \<open>enable_if\<close> on the element type
  \<open>scalar_t\<close>. The size loop of the first is the one of \<open>impl::Scatter\<close>, line for line. The
  second consists of \<open>TORCH_CHECK("scatter add only supports float and int type")\<close>.
\<close>

definition ScatterAdd ::
  "config \<Rightarrow> ScalarType \<Rightarrow> 'a Tensor \<Rightarrow> int \<Rightarrow> int Tensor \<Rightarrow> 'a Tensor \<Rightarrow>
   error option \<times> ('a::comm_monoid_add) dest" where
  "ScatterAdd cfg scalar_t tensor dim index src =
     (let unchanged = \<lparr>self = tensor, passed = tensor\<rparr>;
          index_ndim_legacy_all = nDimensionLegacyAll index in
      if IS_FLOAT32 cfg scalar_t \<or> IS_INT cfg scalar_t then
        (if \<not> (dim \<ge> 0 \<and> dim < int (nDimensionLegacyNoScalars tensor)) then
           (Some (InvalidArgument ''Index dimension is out of bounds''), unchanged)
         else if \<not> (index_ndim_legacy_all = 0 \<or>
                    nDimensionLegacyNoScalars index = nDimensionLegacyNoScalars src) then
           (Some (InvalidArgument
              ''Index tensor must be either empty or have same dimensions as input tensor''), unchanged)
         else if nDimensionLegacyNoScalars src \<noteq> nDimensionLegacyNoScalars tensor then
           (Some (InvalidArgument ''Input tensor must have same dimensions as output tensor''), unchanged)
         else if index_ndim_legacy_all = 0 then (None, unchanged)
         else
           (case Scatter_size_loop tensor dim index src [0..<nDimensionLegacyNoScalars tensor] of
              Some e \<Rightarrow> (Some e, unchanged)
            | None \<Rightarrow>
                if \<not> length (sizes tensor) \<le> MAX_DPCPPTORCH_DIMS cfg then
                  (Some (InvalidArgument (DPCPPTORCH_DIM_WARNING cfg)), unchanged)
                else (None, run_guarded (ScatterAdd_kernel (nat dim) index src) tensor)))
      else
        (if \<not> literal_as_condition ''scatter add only supports float and int type'' then
           (Some (UnsupportedType []), unchanged)
         else (None, unchanged)))"

subsection \<open>The entry points\<close>

text \<open>
  A name cannot end with an underscore here: \<open>scatter_\<close> is \<open>scatter_inplace\<close>, its
  overload with a \<open>Scalar\<close> is \<open>scatter_inplace_value\<close>, and \<open>scatter_add_\<close> is
  \<open>scatter_add_inplace\<close>.


  \<open>AT_DISPATCH_ALL_TYPES_AND(extra, type, name, body)\<close> runs the body at the element type
  when it is one of Byte, Char, Double, Float, Int, Long, Short or the extra type, and raises
  otherwise.
\<close>

definition AT_DISPATCH_ALL_TYPES_AND ::
  "ScalarType \<Rightarrow> ScalarType \<Rightarrow> string \<Rightarrow> 'r \<Rightarrow> (ScalarType \<Rightarrow> error option \<times> 'r) \<Rightarrow> error option \<times> 'r" where
  "AT_DISPATCH_ALL_TYPES_AND extra st name unchanged body =
     (if st \<in> {kByte, kChar, kDouble, kFloat, kInt, kLong, kShort} \<or> st = extra then body st
      else (Some (UnsupportedType (name @ '' not implemented for the element type'')), unchanged))"

definition scatter_inplace :: "config \<Rightarrow> 'a Tensor \<Rightarrow> int \<Rightarrow> int Tensor \<Rightarrow> 'a Tensor \<Rightarrow> error option \<times> 'a dest" where
  "scatter_inplace cfg slf dim index src =
     AT_DISPATCH_ALL_TYPES_AND kBool (scalar_type slf) ''Scatter'' \<lparr>self = slf, passed = slf\<rparr>
       (\<lambda>scalar_t. Scatter cfg slf dim index src)"

text \<open>The overload of \<open>scatter_\<close> that takes a \<open>Scalar\<close> value.\<close>

definition scatter_inplace_value ::
  "config \<Rightarrow> (ScalarType \<Rightarrow> 's \<Rightarrow> 'a option) \<Rightarrow> 'a Tensor \<Rightarrow> int \<Rightarrow> int Tensor \<Rightarrow> 's \<Rightarrow>
   error option \<times> 'a dest" where
  "scatter_inplace_value cfg to slf dim index val =
     AT_DISPATCH_ALL_TYPES_AND kBool (scalar_type slf) ''ScatterFill'' \<lparr>self = slf, passed = slf\<rparr>
       (\<lambda>scalar_t. ScatterFill cfg (to scalar_t) slf dim index val)"

definition scatter_add_inplace ::
  "config \<Rightarrow> 'a Tensor \<Rightarrow> int \<Rightarrow> int Tensor \<Rightarrow> 'a Tensor \<Rightarrow> error option \<times> ('a::comm_monoid_add) dest" where
  "scatter_add_inplace cfg slf dim index src =
     AT_DISPATCH_ALL_TYPES_AND kBool (scalar_type slf) ''ScatterAdd'' \<lparr>self = slf, passed = slf\<rparr>
       (\<lambda>scalar_t. ScatterAdd cfg scalar_t slf dim index src)"

definition gather_out :: "config \<Rightarrow> 'a Tensor \<Rightarrow> 'a Tensor \<Rightarrow> int \<Rightarrow> int Tensor \<Rightarrow> error option \<times> 'a dest" where
  "gather_out cfg out slf dim index =
     AT_DISPATCH_ALL_TYPES_AND kBool (scalar_type slf) ''Gather'' \<lparr>self = out, passed = out\<rparr>
       (\<lambda>scalar_t. Gather cfg out slf dim index)"

text \<open>
  \<open>gather\<close> allocates the output (over memory \<open>mem\<close>), resizes it to the shape of the
  index tensor and returns what \<open>out\<close> denotes after \<open>gather_out\<close>.
\<close>

definition gather :: "config \<Rightarrow> (nat \<Rightarrow> 'a) \<Rightarrow> 'a Tensor \<Rightarrow> int \<Rightarrow> int Tensor \<Rightarrow> error + 'a Tensor" where
  "gather cfg mem slf dim index =
     (let out = empty_tensor mem (scalar_type slf);
          out = resize_tensor out (sizes index)
      in case gather_out cfg out slf dim index of
           (Some e, d) \<Rightarrow> Inl e
         | (None, d) \<Rightarrow> Inr (self d))"

subsection \<open>Concrete inputs\<close>

text \<open>
  One setting of the parameters and a way to write a tensor down from its element list,
  for evaluating the operations at concrete inputs.
\<close>

definition sample_config :: config where
  "sample_config =
     \<lparr>MAX_DPCPPTORCH_DIMS = 25,
      DPCPPTORCH_DIM_WARNING = ''tensor has too many dimensions'',
      IS_FLOAT32 = (\<lambda>t. t = kFloat),
      IS_INT = (\<lambda>t. t = kInt)\<rparr>"

definition tensor_of :: "ScalarType \<Rightarrow> nat list \<Rightarrow> nat list \<Rightarrow> 'a list \<Rightarrow> 'a Tensor" where
  "tensor_of st sz str xs = \<lparr>sizes = sz, strides = str, storage = (\<lambda>k. xs ! k), scalar_type = st\<rparr>"

text \<open>The element types the dispatch of the entry points accepts.\<close>

definition dispatched :: "ScalarType \<Rightarrow> bool" where
  "dispatched st = (st \<in> {kByte, kChar, kDouble, kFloat, kInt, kLong, kShort, kBool})"

text \<open>The kind of an error, whatever its message.\<close>

definition is_InvalidArgument :: "error \<Rightarrow> bool" where
  "is_InvalidArgument e = (case e of InvalidArgument m \<Rightarrow> True | _ \<Rightarrow> False)"

definition is_UnsupportedType :: "error \<Rightarrow> bool" where
  "is_UnsupportedType e = (case e of UnsupportedType m \<Rightarrow> True | _ \<Rightarrow> False)"

subsection \<open>The contract of the kernels\<close>

text \<open>
  The coordinate a linear id denotes in a shape: the row-major decoding the kernels
  compute, in unbounded arithmetic, the innermost axis varying fastest.
\<close>

fun lin_coord :: "nat list \<Rightarrow> nat \<Rightarrow> nat \<Rightarrow> nat list" where
  "lin_coord S 0 lin = []"
| "lin_coord S (Suc d) lin = lin_coord S d (lin div S ! d) @ [lin mod S ! d]"

text \<open>A tensor has one stride for each axis.\<close>

definition well_formed :: "'a Tensor \<Rightarrow> bool" where
  "well_formed t = (length (strides t) = length (sizes t))"

text \<open>
  The element count and the offset of every coordinate of a tensor are representable in an
  unsigned index type of \<open>w\<close> bits.
\<close>

definition addressable :: "nat \<Rightarrow> 'a Tensor \<Rightarrow> bool" where
  "addressable w t =
     (numel t < 2 ^ w \<and> (\<forall>c \<in> set (coords (sizes t)). offset (strides t) c < 2 ^ w))"

text \<open>
  The coordinate \<open>c\<close> with its component along the axis replaced by the index value
  at \<open>c\<close>.
\<close>

definition target :: "nat \<Rightarrow> int Tensor \<Rightarrow> nat list \<Rightarrow> nat list" where
  "target dim index c = c[dim := nat (read index c)]"

text \<open>
  What one work item of each kernel has to do, in terms of coordinates and unbounded
  offsets: the gather item writes the destination at the coordinate of its linear id, the
  scatter items write it at the replaced coordinate.
\<close>

definition gather_item ::
  "'a Tensor \<Rightarrow> 'a Tensor \<Rightarrow> int Tensor \<Rightarrow> nat \<Rightarrow> nat \<Rightarrow> (nat \<Rightarrow> 'a) \<Rightarrow> (nat \<Rightarrow> 'a)" where
  "gather_item tensor src index dim linearId mem =
     (let c = lin_coord (sizes index) (length (sizes index)) linearId
      in mem(offset (strides tensor) c := read src (target dim index c)))"

definition scatter_item ::
  "'a Tensor \<Rightarrow> 'a Tensor \<Rightarrow> int Tensor \<Rightarrow> nat \<Rightarrow> nat \<Rightarrow> (nat \<Rightarrow> 'a) \<Rightarrow> (nat \<Rightarrow> 'a)" where
  "scatter_item tensor src index dim linearId mem =
     (let c = lin_coord (sizes index) (length (sizes index)) linearId
      in mem(offset (strides tensor) (target dim index c) := read src c))"

definition scatterFill_item ::
  "'a Tensor \<Rightarrow> int Tensor \<Rightarrow> 'a \<Rightarrow> nat \<Rightarrow> nat \<Rightarrow> (nat \<Rightarrow> 'a) \<Rightarrow> (nat \<Rightarrow> 'a)" where
  "scatterFill_item tensor index val dim linearId mem =
     (let c = lin_coord (sizes index) (length (sizes index)) linearId
      in mem(offset (strides tensor) (target dim index c) := val))"

definition scatterAdd_item ::
  "'a Tensor \<Rightarrow> 'a Tensor \<Rightarrow> int Tensor \<Rightarrow> nat \<Rightarrow> nat \<Rightarrow> (nat \<Rightarrow> 'a) \<Rightarrow> (nat \<Rightarrow> 'a::comm_monoid_add)" where
  "scatterAdd_item tensor src index dim linearId mem =
     (let c = lin_coord (sizes index) (length (sizes index)) linearId;
          a = offset (strides tensor) (target dim index c)
      in mem(a := mem a + read src c))"

text \<open>
  What the offset computation of an instantiation at index width \<open>w\<close> and rank
  parameter \<open>DIMS\<close> needs of the index tensor: shapes that fit together, a rank
  parameter that is the rank where it is 1, 2 or 3, index values that are not negative, and
  linear ids and index offsets representable in the index type.
\<close>

definition fits_index_type :: "nat \<Rightarrow> int \<Rightarrow> 'a Tensor \<Rightarrow> int Tensor \<Rightarrow> nat \<Rightarrow> bool" where
  "fits_index_type w DIMS tensor index dim =
     (well_formed tensor \<and> well_formed index \<and>
      length (sizes tensor) = length (sizes index) \<and> dim < length (sizes index) \<and>
      0 < numel index \<and> numel index < 2 ^ w \<and>
      (DIMS = 1 \<or> DIMS = 2 \<or> DIMS = 3 \<longrightarrow> int (length (sizes index)) = DIMS) \<and>
      (\<forall>c \<in> set (coords (sizes index)). 0 \<le> read index c \<and> offset (strides index) c < 2 ^ w))"

text \<open>
  A tensor read or written at the coordinate of the work item, and one read or written at
  the replaced coordinate: every offset that occurs is representable.
\<close>

definition direct_fits :: "nat \<Rightarrow> 'a Tensor \<Rightarrow> int Tensor \<Rightarrow> bool" where
  "direct_fits w t index =
     (well_formed t \<and> length (sizes t) = length (sizes index) \<and>
      (\<forall>c \<in> set (coords (sizes index)). offset (strides t) c < 2 ^ w))"

definition through_index_fits :: "nat \<Rightarrow> 'a Tensor \<Rightarrow> int Tensor \<Rightarrow> nat \<Rightarrow> bool" where
  "through_index_fits w t index dim =
     (well_formed t \<and> length (sizes t) = length (sizes index) \<and>
      (\<forall>c \<in> set (coords (sizes index)). offset (strides t) (target dim index c) < 2 ^ w))"

text \<open>Every index value lies in \<open>[0, bound)\<close>.\<close>

definition index_in_range :: "int Tensor \<Rightarrow> nat \<Rightarrow> bool" where
  "index_in_range index bound =
     (\<forall>c \<in> set (coords (sizes index)). 0 \<le> read index c \<and> read index c < int bound)"

text \<open>
  The inputs on which a kernel at index width \<open>w\<close> is run within its contract: the
  shape invariants of the operation, index values within the extent of the axis, and
  tensors whose element counts and offsets are representable in the index type.
\<close>

definition gather_pre :: "nat \<Rightarrow> 'a Tensor \<Rightarrow> 'a Tensor \<Rightarrow> nat \<Rightarrow> int Tensor \<Rightarrow> bool" where
  "gather_pre w tensor src dim index =
     (well_formed tensor \<and> well_formed src \<and> well_formed index \<and>
      sizes tensor = sizes index \<and> length (sizes src) = length (sizes index) \<and>
      dim < length (sizes index) \<and>
      (\<forall>d < length (sizes index). d \<noteq> dim \<longrightarrow> sizes index ! d \<le> sizes src ! d) \<and>
      index_in_range index (sizes src ! dim) \<and>
      addressable w tensor \<and> addressable w src \<and> addressable w index)"

definition scatter_pre :: "nat \<Rightarrow> 'a Tensor \<Rightarrow> nat \<Rightarrow> int Tensor \<Rightarrow> 'a Tensor \<Rightarrow> bool" where
  "scatter_pre w tensor dim index src =
     (well_formed tensor \<and> well_formed src \<and> well_formed index \<and>
      length (sizes index) = length (sizes src) \<and> length (sizes src) = length (sizes tensor) \<and>
      dim < length (sizes tensor) \<and>
      (\<forall>d < length (sizes tensor).
         (d \<noteq> dim \<longrightarrow> sizes index ! d \<le> sizes tensor ! d) \<and> sizes index ! d \<le> sizes src ! d) \<and>
      index_in_range index (sizes tensor ! dim) \<and>
      addressable w tensor \<and> addressable w src \<and> addressable w index)"

definition scatterFill_pre :: "nat \<Rightarrow> 'a Tensor \<Rightarrow> nat \<Rightarrow> int Tensor \<Rightarrow> bool" where
  "scatterFill_pre w tensor dim index =
     (well_formed tensor \<and> well_formed index \<and>
      length (sizes index) = length (sizes tensor) \<and>
      dim < length (sizes tensor) \<and>
      (\<forall>d < length (sizes tensor). d \<noteq> dim \<longrightarrow> sizes index ! d \<le> sizes tensor ! d) \<and>
      index_in_range index (sizes tensor ! dim) \<and>
      addressable w tensor \<and> addressable w index)"

text \<open>The width of the index type of the branch a call takes.\<close>

definition index_width :: "bool \<Rightarrow> nat" where
  "index_width narrow = (if narrow then 32 else 64)"

text \<open>The tensor the kernel of a call runs on: the destination or its contiguous copy.\<close>

definition working :: "'a Tensor \<Rightarrow> 'a Tensor" where
  "working tensor = (if maybeOverlappingIndices tensor then contiguous tensor else tensor)"

text \<open>
  A valid call of scatter or scatter-add at the level of the entry point: the axis is not
  negative, the rank is supported, and the kernel precondition holds at the index width the
  call selects.
\<close>

definition scatter_valid :: "config \<Rightarrow> 'a Tensor \<Rightarrow> int \<Rightarrow> int Tensor \<Rightarrow> 'a Tensor \<Rightarrow> bool" where
  "scatter_valid cfg tensor dim index src =
     (0 \<le> dim \<and> length (sizes tensor) \<le> MAX_DPCPPTORCH_DIMS cfg \<and>
      scatter_pre
        (index_width (canUse32BitIndexMath tensor \<and> canUse32BitIndexMath src \<and>
           canUse32BitIndexMath index))
        tensor (nat dim) index src)"


text \<open>
  What the guard establishes for a kernel stage \<open>K\<close>, a destination and what the call leaves
  behind. With a destination that may overlap: the kernel has run on the contiguous tensor,
  which does not overlap and reads as the destination did; the destination reference
  denotes that tensor; the tensor object passed in has been copied into from it, so that
  each of its coordinates reads what the buffer holds at a coordinate of the same offset.
  Otherwise the kernel has run on the destination itself and nothing was copied.
\<close>

definition guarded :: "('a Tensor \<Rightarrow> 'a Tensor) \<Rightarrow> 'a Tensor \<Rightarrow> 'a dest \<Rightarrow> bool" where
  "guarded K tensor r =
     (if maybeOverlappingIndices tensor then
        self r = K (contiguous tensor) \<and>
        passed r = copy_tensor tensor (self r) \<and>
        strides (contiguous tensor) = contiguous_strides (sizes tensor) \<and>
        \<not> maybeOverlappingIndices (contiguous tensor) \<and>
        (\<forall>c \<in> set (coords (sizes tensor)). read (contiguous tensor) c = read tensor c) \<and>
        (\<forall>c \<in> set (coords (sizes tensor)). \<exists>c' \<in> set (coords (sizes tensor)).
            offset (strides tensor) c' = offset (strides tensor) c \<and>
            read (passed r) c = read (self r) c')
      else self r = K tensor \<and> passed r = K tensor)"

section \<open>Validation\<close>

lemma dispatch_accepts:
  "dispatched st \<Longrightarrow> AT_DISPATCH_ALL_TYPES_AND kBool st name u body = body st"
  by (auto simp: AT_DISPATCH_ALL_TYPES_AND_def dispatched_def)

lemma Scatter_bad_axis:
  "\<not> (0 \<le> dim \<and> dim < int (length (sizes tensor))) \<Longrightarrow>
   Scatter cfg tensor dim index src =
     (Some (InvalidArgument ''Index dimension is out of bounds''), \<lparr>self = tensor, passed = tensor\<rparr>)"
  by (simp add: Scatter_def Let_def nDimensionLegacyNoScalars_def)

lemma ScatterFill_bad_axis:
  "\<not> (0 \<le> dim \<and> dim < int (length (sizes tensor))) \<Longrightarrow>
   ScatterFill cfg to tensor dim index v =
     (Some (InvalidArgument ''Index dimension is out of bounds''), \<lparr>self = tensor, passed = tensor\<rparr>)"
  by (simp add: ScatterFill_def Let_def nDimensionLegacyNoScalars_def)

lemma ScatterAdd_bad_axis:
  "IS_FLOAT32 cfg st \<or> IS_INT cfg st \<Longrightarrow> \<not> (0 \<le> dim \<and> dim < int (length (sizes tensor))) \<Longrightarrow>
   ScatterAdd cfg st tensor dim index src =
     (Some (InvalidArgument ''Index dimension is out of bounds''), \<lparr>self = tensor, passed = tensor\<rparr>)"
  by (simp add: ScatterAdd_def Let_def nDimensionLegacyNoScalars_def)

lemma Gather_bad_rank:
  "length (sizes index) \<noteq> length (sizes src) \<Longrightarrow>
   Gather cfg tensor src dim index =
     (Some (InvalidArgument ''Index tensor must have same dimensions as input tensor''),
      \<lparr>self = tensor, passed = tensor\<rparr>)"
  by (simp add: Gather_def Let_def nDimensionLegacyNoScalars_def)

lemma Gather_bad_axis:
  "\<not> (0 \<le> dim \<and> dim < int (length (sizes tensor))) \<Longrightarrow>
   \<exists>m. Gather cfg tensor src dim index = (Some (InvalidArgument m), \<lparr>self = tensor, passed = tensor\<rparr>)"
  by (simp add: Gather_def Let_def nDimensionLegacyNoScalars_def)

lemma Gather_error_unchanged:
  "fst (Gather cfg tensor src dim index) = Some e \<Longrightarrow>
   snd (Gather cfg tensor src dim index) = \<lparr>self = tensor, passed = tensor\<rparr>"
  by (auto simp: Gather_def Let_def split: if_splits option.splits)

lemma Scatter_error_unchanged:
  "fst (Scatter cfg tensor dim index src) = Some e \<Longrightarrow>
   snd (Scatter cfg tensor dim index src) = \<lparr>self = tensor, passed = tensor\<rparr>"
  by (auto simp: Scatter_def Let_def split: if_splits option.splits)

lemma ScatterFill_error_unchanged:
  "fst (ScatterFill cfg to tensor dim index v) = Some e \<Longrightarrow>
   snd (ScatterFill cfg to tensor dim index v) = \<lparr>self = tensor, passed = tensor\<rparr>"
  by (auto simp: ScatterFill_def Let_def split: if_splits option.splits)

lemma ScatterAdd_error_unchanged:
  "fst (ScatterAdd cfg st tensor dim index src) = Some e \<Longrightarrow>
   snd (ScatterAdd cfg st tensor dim index src) = \<lparr>self = tensor, passed = tensor\<rparr>"
  by (auto simp: ScatterAdd_def Let_def split: if_splits option.splits)

lemma Scatter_empty_index:
  "numel index = 0 \<Longrightarrow> 0 \<le> dim \<Longrightarrow> dim < int (length (sizes tensor)) \<Longrightarrow>
   length (sizes src) = length (sizes tensor) \<Longrightarrow>
   Scatter cfg tensor dim index src = (None, \<lparr>self = tensor, passed = tensor\<rparr>)"
  by (simp add: Scatter_def Let_def nDimensionLegacyNoScalars_def nDimensionLegacyAll_def)

lemma ScatterFill_empty_index:
  "numel index = 0 \<Longrightarrow> 0 \<le> dim \<Longrightarrow> dim < int (length (sizes tensor)) \<Longrightarrow>
   to v = Some x \<Longrightarrow>
   ScatterFill cfg to tensor dim index v = (None, \<lparr>self = tensor, passed = tensor\<rparr>)"
  by (simp add: ScatterFill_def Let_def nDimensionLegacyNoScalars_def nDimensionLegacyAll_def)

lemma ScatterAdd_empty_index:
  "IS_FLOAT32 cfg st \<or> IS_INT cfg st \<Longrightarrow>
   numel index = 0 \<Longrightarrow> 0 \<le> dim \<Longrightarrow> dim < int (length (sizes tensor)) \<Longrightarrow>
   length (sizes src) = length (sizes tensor) \<Longrightarrow>
   ScatterAdd cfg st tensor dim index src = (None, \<lparr>self = tensor, passed = tensor\<rparr>)"
  by (simp add: ScatterAdd_def Let_def nDimensionLegacyNoScalars_def nDimensionLegacyAll_def)

lemma ScatterAdd_other_types:
  "\<not> IS_FLOAT32 cfg st \<Longrightarrow> \<not> IS_INT cfg st \<Longrightarrow>
   ScatterAdd cfg st tensor dim index src = (None, \<lparr>self = tensor, passed = tensor\<rparr>)"
  by (simp add: ScatterAdd_def Let_def literal_as_condition_def)

lemma ScatterAdd_never_UnsupportedType:
  "fst (ScatterAdd cfg st tensor dim index src) \<noteq> Some (UnsupportedType m)"
proof -
  have loop: "Scatter_size_loop tensor dim index src ds \<noteq> Some (UnsupportedType m)" for ds
    by (induction ds) (auto simp: Let_def)
  show ?thesis
    using loop by (auto simp: ScatterAdd_def Let_def literal_as_condition_def split: option.splits)
qed

lemma scatter_add_inplace_other_types:
  "dispatched (scalar_type slf) \<Longrightarrow>
   \<not> IS_FLOAT32 cfg (scalar_type slf) \<Longrightarrow> \<not> IS_INT cfg (scalar_type slf) \<Longrightarrow>
   scatter_add_inplace cfg slf dim index src = (None, \<lparr>self = slf, passed = slf\<rparr>)"
  by (simp add: scatter_add_inplace_def dispatch_accepts ScatterAdd_other_types)

text \<open>
  C1 (the code at the failing input). \<open>scatter_add_\<close> on a boolean destination, with the
  type traits false on the boolean type: the second overload of \<open>impl::ScatterAdd\<close> runs,
  its \<open>TORCH_CHECK\<close> has the message in the place of the condition, and the call returns
  with the destination as it was and no error.
\<close>

theorem scatter_add_bool_returns_without_error:
  "scatter_add_inplace sample_config (tensor_of kBool [2] [1] [1, 0 :: int]) 0
     (tensor_of kLong [1] [1] [0]) (tensor_of kBool [1] [1] [1])
   = (None, \<lparr>self = tensor_of kBool [2] [1] [1, 0], passed = tensor_of kBool [2] [1] [1, 0]\<rparr>)"
  by (rule scatter_add_inplace_other_types)
     (simp_all add: dispatched_def tensor_of_def sample_config_def)




text \<open>
  C9 (as stated, refuted). Two calls with an axis that is not below the rank of the
  destination and no \<open>InvalidArgument\<close>. The element type is looked at before the axis.
  \<open>scatter_\<close> on a destination of element type \<open>float16\<close>, rank 1 and axis 1:
  \<open>AT_DISPATCH_ALL_TYPES_AND\<close> does not cover the type and raises for it, before
  \<open>impl::Scatter\<close> and its axis check are reached. \<open>scatter_add_\<close> on a destination of
  element type \<open>int64\<close>, rank 1 and axis 5: the axis check stands in the first overload of
  \<open>impl::ScatterAdd\<close> only, which \<open>enable_if\<close> selects for the element types of
  \<open>IS_FLOAT32\<close> and \<open>IS_INT\<close>; the second overload runs, and the call returns with the
  destination as it was and no error.
\<close>

theorem bad_axis_without_InvalidArgument:
  "map_option is_UnsupportedType
     (fst (scatter_inplace sample_config (tensor_of kHalf [2] [1] [1, 2 :: int]) 1
        (tensor_of kLong [1] [1] [0]) (tensor_of kHalf [1] [1] [3]))) = Some True \<and>
   map_option is_InvalidArgument
     (fst (scatter_inplace sample_config (tensor_of kHalf [2] [1] [1, 2 :: int]) 1
        (tensor_of kLong [1] [1] [0]) (tensor_of kHalf [1] [1] [3]))) = Some False \<and>
   scatter_add_inplace sample_config (tensor_of kLong [2] [1] [1, 2 :: int]) 5
     (tensor_of kLong [1] [1] [0]) (tensor_of kLong [1] [1] [3])
   = (None, \<lparr>self = tensor_of kLong [2] [1] [1, 2], passed = tensor_of kLong [2] [1] [1, 2]\<rparr>)"
proof -
  have "scatter_add_inplace sample_config (tensor_of kLong [2] [1] [1, 2 :: int]) 5
     (tensor_of kLong [1] [1] [0]) (tensor_of kLong [1] [1] [3])
   = (None, \<lparr>self = tensor_of kLong [2] [1] [1, 2], passed = tensor_of kLong [2] [1] [1, 2]\<rparr>)"
    by (rule scatter_add_inplace_other_types)
       (simp_all add: dispatched_def tensor_of_def sample_config_def)
  then show ?thesis
    by (simp add: scatter_inplace_def AT_DISPATCH_ALL_TYPES_AND_def tensor_of_def
        is_UnsupportedType_def is_InvalidArgument_def)
qed

text \<open>
  C9 (amended). In gather, scatter and scatter-fill on an element type the dispatch
  accepts, and in scatter-add on an element type the dispatch accepts and the first overload
  of \<open>impl::ScatterAdd\<close> is selected for, an axis that is negative or at least the rank of
  the destination raises \<open>InvalidArgument\<close>, and so does, for gather, an index tensor whose
  rank is not the rank of the source. Whenever one of the four templates raises, the
  destination is what it was before the call: no kernel has run and nothing has been
  written. What scatter-add does on the other element types is not part of the statement.
\<close>

theorem validation_rejects_axis_and_rank:
  "(dispatched (scalar_type slf) \<and>
      (dim < 0 \<or> int (length (sizes out)) \<le> dim \<or> length (sizes index) \<noteq> length (sizes slf))
      \<longrightarrow> (\<exists>m. gather_out cfg out slf dim index
                  = (Some (InvalidArgument m), \<lparr>self = out, passed = out\<rparr>))) \<and>
   (dispatched (scalar_type slf) \<and>
      (dim < 0 \<or> int (length (sizes index)) \<le> dim \<or> length (sizes index) \<noteq> length (sizes slf))
      \<longrightarrow> (\<exists>m. gather cfg mem slf dim index = Inl (InvalidArgument m))) \<and>
   (dispatched (scalar_type t) \<and> (dim < 0 \<or> int (length (sizes t)) \<le> dim)
      \<longrightarrow> scatter_inplace cfg t dim index src
            = (Some (InvalidArgument ''Index dimension is out of bounds''), \<lparr>self = t, passed = t\<rparr>)) \<and>
   (dispatched (scalar_type t) \<and> (dim < 0 \<or> int (length (sizes t)) \<le> dim)
      \<longrightarrow> scatter_inplace_value cfg to t dim index v
            = (Some (InvalidArgument ''Index dimension is out of bounds''), \<lparr>self = t, passed = t\<rparr>)) \<and>
   (dispatched (scalar_type u) \<and> (IS_FLOAT32 cfg (scalar_type u) \<or> IS_INT cfg (scalar_type u)) \<and>
      (dim < 0 \<or> int (length (sizes u)) \<le> dim)
      \<longrightarrow> scatter_add_inplace cfg u dim index usrc
            = (Some (InvalidArgument ''Index dimension is out of bounds''), \<lparr>self = u, passed = u\<rparr>)) \<and>
   (\<forall>e. (fst (Gather cfg out slf dim index) = Some e
            \<longrightarrow> snd (Gather cfg out slf dim index) = \<lparr>self = out, passed = out\<rparr>) \<and>
        (fst (Scatter cfg t dim index src) = Some e
            \<longrightarrow> snd (Scatter cfg t dim index src) = \<lparr>self = t, passed = t\<rparr>) \<and>
        (fst (ScatterFill cfg (to (scalar_type t)) t dim index v) = Some e
            \<longrightarrow> snd (ScatterFill cfg (to (scalar_type t)) t dim index v) = \<lparr>self = t, passed = t\<rparr>) \<and>
        (fst (ScatterAdd cfg (scalar_type u) u dim index usrc) = Some e
            \<longrightarrow> snd (ScatterAdd cfg (scalar_type u) u dim index usrc) = \<lparr>self = u, passed = u\<rparr>))"
proof (intro conjI impI allI)
  assume a: "dispatched (scalar_type slf) \<and>
      (dim < 0 \<or> int (length (sizes out)) \<le> dim \<or> length (sizes index) \<noteq> length (sizes slf))"
  show "\<exists>m. gather_out cfg out slf dim index = (Some (InvalidArgument m), \<lparr>self = out, passed = out\<rparr>)"
  proof (cases "length (sizes index) \<noteq> length (sizes slf)")
    case True
    with a show ?thesis
      by (simp add: gather_out_def dispatch_accepts Gather_bad_rank)
  next
    case False
    with a have "\<not> (0 \<le> dim \<and> dim < int (length (sizes out)))" by auto
    from Gather_bad_axis [OF this] a show ?thesis
      by (simp add: gather_out_def dispatch_accepts)
  qed
next
  assume a: "dispatched (scalar_type slf) \<and>
      (dim < 0 \<or> int (length (sizes index)) \<le> dim \<or> length (sizes index) \<noteq> length (sizes slf))"
  let ?out = "resize_tensor (empty_tensor mem (scalar_type slf)) (sizes index)"
  have sz: "sizes ?out = sizes index"
    by (simp add: resize_tensor_def)
  have "\<exists>m. Gather cfg ?out slf dim index = (Some (InvalidArgument m), \<lparr>self = ?out, passed = ?out\<rparr>)"
  proof (cases "length (sizes index) \<noteq> length (sizes slf)")
    case True
    then show ?thesis by (simp add: Gather_bad_rank)
  next
    case False
    with a sz have "\<not> (0 \<le> dim \<and> dim < int (length (sizes ?out)))" by auto
    from Gather_bad_axis [OF this] show ?thesis .
  qed
  then obtain m where
    "Gather cfg ?out slf dim index = (Some (InvalidArgument m), \<lparr>self = ?out, passed = ?out\<rparr>)" ..
  with a show "\<exists>m. gather cfg mem slf dim index = Inl (InvalidArgument m)"
    by (simp add: gather_def gather_out_def dispatch_accepts Let_def)
next
  assume "dispatched (scalar_type t) \<and> (dim < 0 \<or> int (length (sizes t)) \<le> dim)"
  then show "scatter_inplace cfg t dim index src
      = (Some (InvalidArgument ''Index dimension is out of bounds''), \<lparr>self = t, passed = t\<rparr>)"
    by (auto simp: scatter_inplace_def dispatch_accepts Scatter_bad_axis)
next
  assume "dispatched (scalar_type t) \<and> (dim < 0 \<or> int (length (sizes t)) \<le> dim)"
  then show "scatter_inplace_value cfg to t dim index v
      = (Some (InvalidArgument ''Index dimension is out of bounds''), \<lparr>self = t, passed = t\<rparr>)"
    by (auto simp: scatter_inplace_value_def dispatch_accepts ScatterFill_bad_axis)
next
  assume "dispatched (scalar_type u) \<and> (IS_FLOAT32 cfg (scalar_type u) \<or> IS_INT cfg (scalar_type u)) \<and>
      (dim < 0 \<or> int (length (sizes u)) \<le> dim)"
  then show "scatter_add_inplace cfg u dim index usrc
      = (Some (InvalidArgument ''Index dimension is out of bounds''), \<lparr>self = u, passed = u\<rparr>)"
    by (auto simp: scatter_add_inplace_def dispatch_accepts ScatterAdd_bad_axis)
next
  fix e assume "fst (Gather cfg out slf dim index) = Some e"
  then show "snd (Gather cfg out slf dim index) = \<lparr>self = out, passed = out\<rparr>"
    by (rule Gather_error_unchanged)
next
  fix e assume "fst (Scatter cfg t dim index src) = Some e"
  then show "snd (Scatter cfg t dim index src) = \<lparr>self = t, passed = t\<rparr>"
    by (rule Scatter_error_unchanged)
next
  fix e assume "fst (ScatterFill cfg (to (scalar_type t)) t dim index v) = Some e"
  then show "snd (ScatterFill cfg (to (scalar_type t)) t dim index v) = \<lparr>self = t, passed = t\<rparr>"
    by (rule ScatterFill_error_unchanged)
next
  fix e assume "fst (ScatterAdd cfg (scalar_type u) u dim index usrc) = Some e"
  then show "snd (ScatterAdd cfg (scalar_type u) u dim index usrc) = \<lparr>self = u, passed = u\<rparr>"
    by (rule ScatterAdd_error_unchanged)
qed

theorem validation_rejects_axis_and_rank_witness:
  "(\<exists>m. gather_out sample_config (tensor_of kFloat [2] [1] [1, 2 :: int]) (tensor_of kFloat [2] [1] [3, 4]) 1
          (tensor_of kLong [2] [1] [0, 1])
        = (Some (InvalidArgument m),
           \<lparr>self = tensor_of kFloat [2] [1] [1, 2], passed = tensor_of kFloat [2] [1] [1, 2]\<rparr>)) \<and>
   (\<exists>m. gather sample_config (\<lambda>k. 0) (tensor_of kFloat [2] [1] [3, 4 :: int]) 1
          (tensor_of kLong [2] [1] [0, 1]) = Inl (InvalidArgument m)) \<and>
   scatter_inplace sample_config (tensor_of kFloat [2] [1] [1, 2 :: int]) 1
       (tensor_of kLong [2] [1] [0, 1]) (tensor_of kFloat [2] [1] [3, 4])
     = (Some (InvalidArgument ''Index dimension is out of bounds''),
        \<lparr>self = tensor_of kFloat [2] [1] [1, 2], passed = tensor_of kFloat [2] [1] [1, 2]\<rparr>) \<and>
   scatter_inplace_value sample_config (\<lambda>st. Some) (tensor_of kFloat [2] [1] [1, 2 :: int]) 1
       (tensor_of kLong [2] [1] [0, 1]) 7
     = (Some (InvalidArgument ''Index dimension is out of bounds''),
        \<lparr>self = tensor_of kFloat [2] [1] [1, 2], passed = tensor_of kFloat [2] [1] [1, 2]\<rparr>) \<and>
   scatter_add_inplace sample_config (tensor_of kInt [2] [1] [1, 2 :: int]) 1
       (tensor_of kLong [2] [1] [0, 1]) (tensor_of kInt [2] [1] [3, 4])
     = (Some (InvalidArgument ''Index dimension is out of bounds''),
        \<lparr>self = tensor_of kInt [2] [1] [1, 2], passed = tensor_of kInt [2] [1] [1, 2]\<rparr>) \<and>
   snd (Scatter sample_config (tensor_of kFloat [2] [1] [1, 2 :: int]) 1
       (tensor_of kLong [2] [1] [0, 1]) (tensor_of kFloat [2] [1] [3, 4]))
     = \<lparr>self = tensor_of kFloat [2] [1] [1, 2], passed = tensor_of kFloat [2] [1] [1, 2]\<rparr>"
  using validation_rejects_axis_and_rank [where cfg = sample_config and dim = 1
      and slf = "tensor_of kFloat [2] [1] [3, 4 :: int]"
      and out = "tensor_of kFloat [2] [1] [1, 2 :: int]"
      and index = "tensor_of kLong [2] [1] [0, 1]"
      and mem = "\<lambda>k. 0"
      and t = "tensor_of kFloat [2] [1] [1, 2 :: int]"
      and src = "tensor_of kFloat [2] [1] [3, 4 :: int]"
      and to = "\<lambda>st. Some" and v = "7 :: int"
      and u = "tensor_of kInt [2] [1] [1, 2 :: int]"
      and usrc = "tensor_of kInt [2] [1] [3, 4 :: int]"]
  by (simp add: tensor_of_def dispatched_def sample_config_def Scatter_bad_axis)

text \<open>
  C10 (as stated, refuted). Two calls with an index tensor of 0 elements, axis \<open>-3\<close> and no
  \<open>InvalidArgument\<close>. The scalar overload of \<open>scatter_\<close> on a destination of element type
  \<open>float16\<close>: \<open>AT_DISPATCH_ALL_TYPES_AND\<close> raises for the type before \<open>impl::ScatterFill\<close>
  and its axis check are reached. \<open>scatter_add_\<close> on a destination of element type
  \<open>double\<close>: \<open>double\<close> is not an element type of \<open>IS_FLOAT32\<close> or \<open>IS_INT\<close>, the second
  overload of \<open>impl::ScatterAdd\<close> runs, which has no axis check, and the call returns
  without error.
\<close>

theorem empty_index_bad_axis_without_InvalidArgument:
  "numel (tensor_of kLong [0] [1] ([] :: int list)) = 0 \<and>
   map_option is_UnsupportedType
     (fst (scatter_inplace_value sample_config (\<lambda>st. Some) (tensor_of kHalf [2] [1] [1, 2 :: int]) (- 3)
        (tensor_of kLong [0] [1] []) 7)) = Some True \<and>
   map_option is_InvalidArgument
     (fst (scatter_inplace_value sample_config (\<lambda>st. Some) (tensor_of kHalf [2] [1] [1, 2 :: int]) (- 3)
        (tensor_of kLong [0] [1] []) 7)) = Some False \<and>
   scatter_add_inplace sample_config (tensor_of kDouble [2] [1] [1, 2 :: int]) (- 3)
     (tensor_of kLong [0] [1] []) (tensor_of kDouble [2] [1] [3, 4])
   = (None, \<lparr>self = tensor_of kDouble [2] [1] [1, 2], passed = tensor_of kDouble [2] [1] [1, 2]\<rparr>)"
proof -
  have "scatter_add_inplace sample_config (tensor_of kDouble [2] [1] [1, 2 :: int]) (- 3)
     (tensor_of kLong [0] [1] []) (tensor_of kDouble [2] [1] [3, 4])
   = (None, \<lparr>self = tensor_of kDouble [2] [1] [1, 2], passed = tensor_of kDouble [2] [1] [1, 2]\<rparr>)"
    by (rule scatter_add_inplace_other_types)
       (simp_all add: dispatched_def tensor_of_def sample_config_def)
  then show ?thesis
    by (simp add: numel_def scatter_inplace_value_def AT_DISPATCH_ALL_TYPES_AND_def tensor_of_def
        is_UnsupportedType_def is_InvalidArgument_def)
qed

text \<open>
  C10 (amended). In scatter and scatter-fill on an element type the dispatch accepts, and in
  scatter-add on an element type the dispatch accepts and the first overload of
  \<open>impl::ScatterAdd\<close> is selected for, the axis check comes before the test for an empty
  index: with an index tensor of 0 elements an axis out of range still raises
  \<open>InvalidArgument\<close>, while with the axis in range and the checks that stand before the
  test passed (scatter, scatter-add: the source has the rank of the destination;
  scatter-fill: the scalar converts to the element type) the call returns without comparing
  any size, whatever the sizes of index, source and destination are. What scatter-add does
  on the other element types is not part of the statement.
\<close>

theorem axis_check_precedes_empty_index_test:
  "(numel index = 0 \<and> dispatched (scalar_type t) \<and> (dim < 0 \<or> int (length (sizes t)) \<le> dim)
      \<longrightarrow> scatter_inplace cfg t dim index src
            = (Some (InvalidArgument ''Index dimension is out of bounds''), \<lparr>self = t, passed = t\<rparr>)) \<and>
   (numel index = 0 \<and> dispatched (scalar_type t) \<and> (dim < 0 \<or> int (length (sizes t)) \<le> dim)
      \<longrightarrow> scatter_inplace_value cfg to t dim index v
            = (Some (InvalidArgument ''Index dimension is out of bounds''), \<lparr>self = t, passed = t\<rparr>)) \<and>
   (numel index = 0 \<and> dispatched (scalar_type u) \<and>
      (IS_FLOAT32 cfg (scalar_type u) \<or> IS_INT cfg (scalar_type u)) \<and>
      (dim < 0 \<or> int (length (sizes u)) \<le> dim)
      \<longrightarrow> scatter_add_inplace cfg u dim index usrc
            = (Some (InvalidArgument ''Index dimension is out of bounds''), \<lparr>self = u, passed = u\<rparr>)) \<and>
   (numel index = 0 \<and> dispatched (scalar_type t) \<and> 0 \<le> dim \<and> dim < int (length (sizes t)) \<and>
      length (sizes src) = length (sizes t)
      \<longrightarrow> scatter_inplace cfg t dim index src = (None, \<lparr>self = t, passed = t\<rparr>)) \<and>
   (numel index = 0 \<and> dispatched (scalar_type t) \<and> 0 \<le> dim \<and> dim < int (length (sizes t)) \<and>
      to (scalar_type t) v = Some x
      \<longrightarrow> scatter_inplace_value cfg to t dim index v = (None, \<lparr>self = t, passed = t\<rparr>)) \<and>
   (numel index = 0 \<and> dispatched (scalar_type u) \<and>
      (IS_FLOAT32 cfg (scalar_type u) \<or> IS_INT cfg (scalar_type u)) \<and>
      0 \<le> dim \<and> dim < int (length (sizes u)) \<and> length (sizes usrc) = length (sizes u)
      \<longrightarrow> scatter_add_inplace cfg u dim index usrc = (None, \<lparr>self = u, passed = u\<rparr>))"
proof (intro conjI impI)
  assume "numel index = 0 \<and> dispatched (scalar_type t) \<and> (dim < 0 \<or> int (length (sizes t)) \<le> dim)"
  then show "scatter_inplace cfg t dim index src
      = (Some (InvalidArgument ''Index dimension is out of bounds''), \<lparr>self = t, passed = t\<rparr>)"
    by (auto simp: scatter_inplace_def dispatch_accepts Scatter_bad_axis)
next
  assume "numel index = 0 \<and> dispatched (scalar_type t) \<and> (dim < 0 \<or> int (length (sizes t)) \<le> dim)"
  then show "scatter_inplace_value cfg to t dim index v
      = (Some (InvalidArgument ''Index dimension is out of bounds''), \<lparr>self = t, passed = t\<rparr>)"
    by (auto simp: scatter_inplace_value_def dispatch_accepts ScatterFill_bad_axis)
next
  assume "numel index = 0 \<and> dispatched (scalar_type u) \<and>
      (IS_FLOAT32 cfg (scalar_type u) \<or> IS_INT cfg (scalar_type u)) \<and>
      (dim < 0 \<or> int (length (sizes u)) \<le> dim)"
  then show "scatter_add_inplace cfg u dim index usrc
      = (Some (InvalidArgument ''Index dimension is out of bounds''), \<lparr>self = u, passed = u\<rparr>)"
    by (auto simp: scatter_add_inplace_def dispatch_accepts ScatterAdd_bad_axis)
next
  assume "numel index = 0 \<and> dispatched (scalar_type t) \<and> 0 \<le> dim \<and> dim < int (length (sizes t)) \<and>
      length (sizes src) = length (sizes t)"
  then show "scatter_inplace cfg t dim index src = (None, \<lparr>self = t, passed = t\<rparr>)"
    by (simp add: scatter_inplace_def dispatch_accepts Scatter_empty_index)
next
  assume "numel index = 0 \<and> dispatched (scalar_type t) \<and> 0 \<le> dim \<and> dim < int (length (sizes t)) \<and>
      to (scalar_type t) v = Some x"
  then show "scatter_inplace_value cfg to t dim index v = (None, \<lparr>self = t, passed = t\<rparr>)"
    by (simp add: scatter_inplace_value_def dispatch_accepts ScatterFill_empty_index)
next
  assume "numel index = 0 \<and> dispatched (scalar_type u) \<and>
      (IS_FLOAT32 cfg (scalar_type u) \<or> IS_INT cfg (scalar_type u)) \<and>
      0 \<le> dim \<and> dim < int (length (sizes u)) \<and> length (sizes usrc) = length (sizes u)"
  then show "scatter_add_inplace cfg u dim index usrc = (None, \<lparr>self = u, passed = u\<rparr>)"
    by (simp add: scatter_add_inplace_def dispatch_accepts ScatterAdd_empty_index)
qed

text \<open>
  At a concrete input: the index tensor has shape \<open>[0, 5]\<close>, the destination shape
  \<open>[3, 2]\<close>. The size loop, had it run, would have raised at dimension 1; with axis 2 the
  call raises for the axis, with axis 0 it returns.
\<close>

theorem axis_check_precedes_empty_index_test_witness:
  "Scatter_size_loop (tensor_of kInt [3, 2] [2, 1] [1, 2, 3, 4, 5, 6 :: int]) 0
       (tensor_of kLong [0, 5] [5, 1] []) (tensor_of kInt [3, 2] [2, 1] [1, 1, 1, 1, 1, 1]) [0..<2]
     = Some (InvalidArgument
        ''Index tensor must not have larger size than output tensor apart from the specified dimension 0, but got index [0, 5] output [3, 2]'') \<and>
   scatter_inplace sample_config (tensor_of kInt [3, 2] [2, 1] [1, 2, 3, 4, 5, 6 :: int]) 0
       (tensor_of kLong [0, 5] [5, 1] []) (tensor_of kInt [3, 2] [2, 1] [1, 1, 1, 1, 1, 1])
     = (None, \<lparr>self = tensor_of kInt [3, 2] [2, 1] [1, 2, 3, 4, 5, 6],
               passed = tensor_of kInt [3, 2] [2, 1] [1, 2, 3, 4, 5, 6]\<rparr>) \<and>
   scatter_inplace_value sample_config (\<lambda>st. Some) (tensor_of kInt [3, 2] [2, 1] [1, 2, 3, 4, 5, 6 :: int]) 0
       (tensor_of kLong [0, 5] [5, 1] []) 7
     = (None, \<lparr>self = tensor_of kInt [3, 2] [2, 1] [1, 2, 3, 4, 5, 6],
               passed = tensor_of kInt [3, 2] [2, 1] [1, 2, 3, 4, 5, 6]\<rparr>) \<and>
   scatter_add_inplace sample_config (tensor_of kInt [3, 2] [2, 1] [1, 2, 3, 4, 5, 6 :: int]) 0
       (tensor_of kLong [0, 5] [5, 1] []) (tensor_of kInt [3, 2] [2, 1] [1, 1, 1, 1, 1, 1])
     = (None, \<lparr>self = tensor_of kInt [3, 2] [2, 1] [1, 2, 3, 4, 5, 6],
               passed = tensor_of kInt [3, 2] [2, 1] [1, 2, 3, 4, 5, 6]\<rparr>) \<and>
   scatter_inplace sample_config (tensor_of kInt [3, 2] [2, 1] [1, 2, 3, 4, 5, 6 :: int]) 2
       (tensor_of kLong [0, 5] [5, 1] []) (tensor_of kInt [3, 2] [2, 1] [1, 1, 1, 1, 1, 1])
     = (Some (InvalidArgument ''Index dimension is out of bounds''),
        \<lparr>self = tensor_of kInt [3, 2] [2, 1] [1, 2, 3, 4, 5, 6],
         passed = tensor_of kInt [3, 2] [2, 1] [1, 2, 3, 4, 5, 6]\<rparr>)"
  using axis_check_precedes_empty_index_test [where cfg = sample_config and dim = 0
      and index = "tensor_of kLong [0, 5] [5, 1] []"
      and t = "tensor_of kInt [3, 2] [2, 1] [1, 2, 3, 4, 5, 6 :: int]"
      and src = "tensor_of kInt [3, 2] [2, 1] [1, 1, 1, 1, 1, 1 :: int]"
      and to = "\<lambda>st. Some" and v = "7 :: int" and x = "7 :: int"
      and u = "tensor_of kInt [3, 2] [2, 1] [1, 2, 3, 4, 5, 6 :: int]"
      and usrc = "tensor_of kInt [3, 2] [2, 1] [1, 1, 1, 1, 1, 1 :: int]"]
    axis_check_precedes_empty_index_test [where cfg = sample_config and dim = 2
      and index = "tensor_of kLong [0, 5] [5, 1] []"
      and t = "tensor_of kInt [3, 2] [2, 1] [1, 2, 3, 4, 5, 6 :: int]"
      and src = "tensor_of kInt [3, 2] [2, 1] [1, 1, 1, 1, 1, 1 :: int]"
      and to = "\<lambda>st. Some" and v = "7 :: int" and x = "7 :: int"
      and u = "tensor_of kInt [3, 2] [2, 1] [1, 2, 3, 4, 5, 6 :: int]"
      and usrc = "tensor_of kInt [3, 2] [2, 1] [1, 1, 1, 1, 1, 1 :: int]"]
  by (simp add: tensor_of_def dispatched_def sample_config_def numel_def sizeLegacyNoScalars_def
      numeral_2_eq_2 str_int_def str_sizes_def str_nat.simps)

section \<open>The kernels against their contract\<close>

lemma set_coords: "set (coords S) = {c. list_all2 (<) c S}"
proof (induction S)
  case Nil
  then show ?case by auto
next
  case (Cons s S)
  show ?case
  proof (rule set_eqI)
    fix c
    show "c \<in> set (coords (s # S)) \<longleftrightarrow> c \<in> {c. list_all2 (<) c (s # S)}"
      using Cons.IH by (cases c) (auto simp: list_all2_Cons2)
  qed
qed

lemma coords_product_lists: "coords S = product_lists (map (\<lambda>s. [0..<s]) S)"
  by (induction S) simp_all

lemma distinct_coords: "distinct (coords S)"
  unfolding coords_product_lists by (rule distinct_product_lists) auto

lemma length_lin_coord [simp]: "length (lin_coord S n lin) = n"
  by (induction n arbitrary: lin) simp_all

lemma offset_Nil [simp]: "offset [] c = 0" "offset st [] = 0"
  by (simp_all add: offset_def)

lemma offset_Cons [simp]: "offset (s # st) (x # c) = x * s + offset st c"
  by (simp add: offset_def)

lemma offset_snoc: "length c = length st \<Longrightarrow> offset (st @ [s]) (c @ [x]) = offset st c + x * s"
  by (simp add: offset_def)

lemma offset_update:
  "length c = length st \<Longrightarrow> dim < length c \<Longrightarrow>
   offset st (c[dim := 0]) + v * st ! dim = offset st (c[dim := v])"
proof (induction st arbitrary: c dim)
  case Nil
  then show ?case by simp
next
  case (Cons s st)
  then obtain x c' where c: "c = x # c'" by (cases c) auto
  show ?case
  proof (cases dim)
    case 0
    with c show ?thesis by simp
  next
    case (Suc k)
    with c Cons.prems Cons.IH [of c' k] show ?thesis by simp
  qed
qed

lemma offset_take_Suc:
  "d < length st \<Longrightarrow> length c = d \<Longrightarrow>
   offset (take (Suc d) st) (c @ [x]) = offset (take d st) c + x * st ! d"
  by (simp add: take_Suc_conv_app_nth offset_snoc)

lemma update_snoc_zero:
  "length cs = d \<Longrightarrow>
   (cs @ [x])[dim := 0] = (if dim = d then cs @ [0] else cs[dim := 0] @ [x])"
proof -
  assume l: "length cs = d"
  consider "dim < d" | "dim = d" | "d < dim" by linarith
  then show ?thesis
  proof cases
    case 1
    with l show ?thesis by (simp add: list_update_append1)
  next
    case 2
    with l show ?thesis using list_update_length [of cs x "[]" 0] by simp
  next
    case 3
    with l show ?thesis by (simp add: list_update_beyond)
  qed
qed

lemma mod_acc_step: "((a + x * (s mod m)) mod m + b) mod m = (a + (b + x * s)) mod (m::nat)"
  by (metis (no_types, lifting) add.assoc add.commute mod_add_left_eq mod_mult_right_eq mod_add_right_eq)

lemma offsets_loop_eq:
  assumes "info_sizes index = S"
    and "info_strides index = map (\<lambda>s. s mod 2 ^ w) sti"
    and "info_strides t1 = map (\<lambda>s. s mod 2 ^ w) st1"
    and "info_strides t2 = map (\<lambda>s. s mod 2 ^ w) st2"
    and "n \<le> length sti" "n \<le> length st1" "n \<le> length st2"
    and "io < 2 ^ w" "o1 < 2 ^ w" "o2 < 2 ^ w"
  shows "snd (offsets_loop w dim n index t1 t2 (lin, io, o1, o2)) =
     ((io + offset (take n sti) (lin_coord S n lin)) mod 2 ^ w,
      (o1 + offset (take n st1) (lin_coord S n lin)) mod 2 ^ w,
      (o2 + offset (take n st2) ((lin_coord S n lin)[dim := 0])) mod 2 ^ w)"
  using assms(5-)
proof (induction n arbitrary: lin io o1 o2)
  case 0
  then show ?case by simp
next
  case (Suc d)
  let ?x = "lin mod S ! d"
  let ?cs = "lin_coord S d (lin div S ! d)"
  let ?M = "(2::nat) ^ w"
  have d: "d < length sti" "d < length st1" "d < length st2"
    using Suc.prems by auto
  let ?io = "(io + ?x * (sti ! d mod ?M)) mod ?M"
  let ?o1 = "(o1 + ?x * (st1 ! d mod ?M)) mod ?M"
  let ?o2 = "(if d \<noteq> dim then (o2 + ?x * (st2 ! d mod ?M)) mod ?M else o2)"
  have step: "offset_step w dim d index t1 t2 (lin, io, o1, o2) = (lin div S ! d, ?io, ?o1, ?o2)"
    using d by (simp add: offset_step_def assms(1-4) Let_def)
  have bounds: "?io < ?M" "?o1 < ?M" "?o2 < ?M"
    using Suc.prems by simp_all
  have IH: "snd (offsets_loop w dim d index t1 t2 (lin div S ! d, ?io, ?o1, ?o2)) =
     ((?io + offset (take d sti) ?cs) mod ?M,
      (?o1 + offset (take d st1) ?cs) mod ?M,
      (?o2 + offset (take d st2) (?cs[dim := 0])) mod ?M)"
    using d bounds by (intro Suc.IH) simp_all
  have e1: "(?io + offset (take d sti) ?cs) mod ?M
      = (io + offset (take (Suc d) sti) (?cs @ [?x])) mod ?M"
    using d by (simp add: offset_take_Suc mod_acc_step)
  have e2: "(?o1 + offset (take d st1) ?cs) mod ?M
      = (o1 + offset (take (Suc d) st1) (?cs @ [?x])) mod ?M"
    using d by (simp add: offset_take_Suc mod_acc_step)
  have e3: "(?o2 + offset (take d st2) (?cs[dim := 0])) mod ?M
      = (o2 + offset (take (Suc d) st2) ((?cs @ [?x])[dim := 0])) mod ?M"
  proof (cases "dim = d")
    case True
    then have "?cs[dim := 0] = ?cs" by (simp add: list_update_beyond)
    with True d show ?thesis
      by (simp add: update_snoc_zero offset_take_Suc)
  next
    case False
    with d show ?thesis
      by (simp add: update_snoc_zero offset_take_Suc mod_acc_step)
  qed
  show ?case
    by (simp only: offsets_loop.simps step lin_coord.simps IH e1 e2 e3)
qed

lemma unrolled_is_loop:
  "DIMS = 1 \<or> DIMS = 2 \<or> DIMS = 3 \<longrightarrow> int (dims index) = DIMS \<Longrightarrow>
   IndexToScatterGatherOffsets w DIMS dim index t1 t2 lin
     = offsets_loop w dim (dims index) index t1 t2 (lin, 0, 0, 0)"
  by (auto simp: IndexToScatterGatherOffsets_def numeral_2_eq_2 numeral_3_eq_3)

lemma lin_coord_in_shape:
  "n \<le> length S \<Longrightarrow> \<forall>d<n. 0 < S ! d \<Longrightarrow> list_all2 (<) (lin_coord S n lin) (take n S)"
proof (induction n arbitrary: lin)
  case 0
  then show ?case by simp
next
  case (Suc d)
  then have "d < length S" "0 < S ! d" by auto
  moreover have "list_all2 (<) (lin_coord S d (lin div S ! d)) (take d S)"
    using Suc by simp
  ultimately show ?case
    by (simp add: take_Suc_conv_app_nth list_all2_appendI)
qed

lemma lin_coord_surj:
  "n \<le> length S \<Longrightarrow> list_all2 (<) c (take n S) \<Longrightarrow>
   \<exists>lin < prod_list (take n S). lin_coord S n lin = c"
proof (induction n arbitrary: c)
  case 0
  then show ?case by simp
next
  case (Suc d)
  then have d: "d < length S" by simp
  from Suc.prems have len: "length c = Suc d"
    using d by (auto dest: list_all2_lengthD)
  then obtain cs x where c: "c = cs @ [x]"
    by (cases c rule: rev_cases) auto
  with len have lcs: "length cs = d" by simp
  from Suc.prems(2) c d lcs have cs: "list_all2 (<) cs (take d S)" and x: "x < S ! d"
    by (simp_all add: take_Suc_conv_app_nth list_all2_append)
  from Suc.IH [OF _ cs] d obtain l where l: "l < prod_list (take d S)" "lin_coord S d l = cs"
    by auto
  let ?lin = "l * S ! d + x"
  have "?lin < prod_list (take (Suc d) S)"
  proof -
    have "?lin < (l + 1) * S ! d" using x by simp
    also have "\<dots> \<le> prod_list (take d S) * S ! d"
      using l(1) by (intro mult_le_mono1) simp
    finally show ?thesis using d by (simp add: take_Suc_conv_app_nth)
  qed
  moreover have "lin_coord S (Suc d) ?lin = c"
    using x l(2) c by simp
  ultimately show ?case by blast
qed

lemma lin_coord_inj:
  "n \<le> length S \<Longrightarrow> lin < prod_list (take n S) \<Longrightarrow> lin' < prod_list (take n S) \<Longrightarrow>
   lin_coord S n lin = lin_coord S n lin' \<Longrightarrow> lin = lin'"
proof (induction n arbitrary: lin lin')
  case 0
  then show ?case by simp
next
  case (Suc d)
  then have d: "d < length S" by simp
  let ?s = "S ! d"
  from Suc.prems d have b: "lin < prod_list (take d S) * ?s" "lin' < prod_list (take d S) * ?s"
    by (simp_all add: take_Suc_conv_app_nth)
  then have q: "lin div ?s < prod_list (take d S)" "lin' div ?s < prod_list (take d S)"
    by (simp_all add: less_mult_imp_div_less)
  from Suc.prems(4) have e: "lin_coord S d (lin div ?s) = lin_coord S d (lin' div ?s)"
    and m: "lin mod ?s = lin' mod ?s"
    by simp_all
  from Suc.IH [OF _ q e] d have "lin div ?s = lin' div ?s" by simp
  with m show ?case by (metis div_mult_mod_eq)
qed

lemma fold_upd_other:
  "(\<And>i m. i \<in> set xs \<Longrightarrow> f i m = m(a i := v i)) \<Longrightarrow> \<forall>i\<in>set xs. a i \<noteq> x \<Longrightarrow>
   fold f xs m x = m x"
proof (induction xs arbitrary: m)
  case Nil
  then show ?case by simp
next
  case (Cons j xs)
  have "fold f xs (f j m) x = f j m x"
  proof (rule Cons.IH)
    show "\<And>i m. i \<in> set xs \<Longrightarrow> f i m = m(a i := v i)"
      by (rule Cons.prems(1)) simp
    show "\<forall>i\<in>set xs. a i \<noteq> x" using Cons.prems(2) by simp
  qed
  moreover have "a j \<noteq> x" using Cons.prems by simp
  moreover have "f j m = m(a j := v j)" by (rule Cons.prems(1)) simp
  ultimately show ?case by simp
qed

lemma fold_upd_hit:
  "(\<And>i m. i \<in> set xs \<Longrightarrow> f i m = m(a i := v i)) \<Longrightarrow> inj_on a (set xs) \<Longrightarrow> i \<in> set xs \<Longrightarrow>
   fold f xs m (a i) = v i"
proof (induction xs arbitrary: m)
  case Nil
  then show ?case by simp
next
  case (Cons j xs)
  have fj: "f j m = m(a j := v j)" by (rule Cons.prems(1)) simp
  have f: "\<And>i m. i \<in> set xs \<Longrightarrow> f i m = m(a i := v i)" by (rule Cons.prems(1)) simp
  have inj: "inj_on a (set xs)" using Cons.prems(2) by simp
  show ?case
  proof (cases "i \<in> set xs")
    case True
    have "fold f xs (f j m) (a i) = v i"
      using f inj True by (rule Cons.IH)
    then show ?thesis by simp
  next
    case False
    with Cons.prems have ij: "i = j" by simp
    have "\<forall>k\<in>set xs. a k \<noteq> a i"
      using Cons.prems(2) False ij by (auto simp: inj_on_def)
    with f have "fold f xs (f j m) (a i) = f j m (a i)"
      by (rule fold_upd_other)
    then show ?thesis using ij fj by simp
  qed
qed

lemma fold_add:
  fixes m :: "nat \<Rightarrow> 'a::comm_monoid_add"
  shows "(\<And>i m. i \<in> set xs \<Longrightarrow> f i m = m(a i := m (a i) + v i)) \<Longrightarrow>
    fold f xs m x = m x + sum_list (map v (filter (\<lambda>i. a i = x) xs))"
proof (induction xs arbitrary: m)
  case Nil
  then show ?case by simp
next
  case (Cons j xs)
  have fj: "f j m = m(a j := m (a j) + v j)" by (rule Cons.prems) simp
  have "fold f (j # xs) m x = fold f xs (f j m) x" by simp
  also have "\<dots> = f j m x + sum_list (map v (filter (\<lambda>i. a i = x) xs))"
    by (rule Cons.IH, rule Cons.prems) simp
  also have "\<dots> = m x + sum_list (map v (filter (\<lambda>i. a i = x) (j # xs)))"
    using fj by (simp add: add.assoc)
  finally show ?case .
qed

lemma sum_list_filter_mset:
  fixes v :: "'b \<Rightarrow> 'a::comm_monoid_add"
  assumes "mset xs = mset ys"
  shows "sum_list (map v (filter P xs)) = sum_list (map v (filter P ys))"
proof -
  have "mset (map v (filter P xs)) = image_mset v (filter_mset P (mset xs))" by simp
  also have "\<dots> = image_mset v (filter_mset P (mset ys))" by (simp only: assms)
  also have "\<dots> = mset (map v (filter P ys))" by simp
  finally have "sum_mset (mset (map v (filter P xs))) = sum_mset (mset (map v (filter P ys)))"
    by (rule arg_cong)
  then show ?thesis by (simp only: sum_mset_sum_list)
qed

lemma member_le_prod_list:
  "0 < prod_list xs \<Longrightarrow> x \<in> set xs \<Longrightarrow> x \<le> prod_list (xs :: nat list)"
proof (induction xs)
  case Nil
  then show ?case by simp
next
  case (Cons y ys)
  then have pos: "0 < y" "0 < prod_list ys" by simp_all
  show ?case
  proof (cases "x = y")
    case True
    with pos show ?thesis by simp
  next
    case False
    with Cons have "x \<le> prod_list ys" by simp
    also have "\<dots> \<le> y * prod_list ys" using pos by simp
    finally show ?thesis by simp
  qed
qed

lemma info_sizes_exact:
  "0 < numel t \<Longrightarrow> numel t < 2 ^ w \<Longrightarrow> info_sizes (getTensorInfo w t) = sizes t"
proof -
  assume a: "0 < numel t" "numel t < 2 ^ w"
  have "\<forall>s \<in> set (sizes t). s mod 2 ^ w = s"
  proof
    fix s assume "s \<in> set (sizes t)"
    with a have "s \<le> numel t" by (simp add: numel_def member_le_prod_list)
    with a show "s mod 2 ^ w = s" by simp
  qed
  then show ?thesis by (simp add: getTensorInfo_def map_idI)
qed

lemma offsets_exact:
  assumes "well_formed I" "well_formed T1" "well_formed T2"
    and "length (sizes T1) = length (sizes I)" "length (sizes T2) = length (sizes I)"
    and "0 < numel I" "numel I < 2 ^ w"
    and "DIMS = 1 \<or> DIMS = 2 \<or> DIMS = 3 \<longrightarrow> int (length (sizes I)) = DIMS"
  shows "snd (IndexToScatterGatherOffsets w DIMS dim (getTensorInfo w I) (getTensorInfo w T1)
            (getTensorInfo w T2) lin) =
     (offset (strides I) (lin_coord (sizes I) (length (sizes I)) lin) mod 2 ^ w,
      offset (strides T1) (lin_coord (sizes I) (length (sizes I)) lin) mod 2 ^ w,
      offset (strides T2) ((lin_coord (sizes I) (length (sizes I)) lin)[dim := 0]) mod 2 ^ w)"
proof -
  let ?n = "length (sizes I)"
  have dims: "dims (getTensorInfo w I) = ?n" by (simp add: getTensorInfo_def)
  have "snd (offsets_loop w dim ?n (getTensorInfo w I) (getTensorInfo w T1) (getTensorInfo w T2)
          (lin, 0, 0, 0)) =
     ((0 + offset (take ?n (strides I)) (lin_coord (sizes I) ?n lin)) mod 2 ^ w,
      (0 + offset (take ?n (strides T1)) (lin_coord (sizes I) ?n lin)) mod 2 ^ w,
      (0 + offset (take ?n (strides T2)) ((lin_coord (sizes I) ?n lin)[dim := 0])) mod 2 ^ w)"
    using assms(1-5)
    by (intro offsets_loop_eq info_sizes_exact assms(6,7))
       (simp_all add: getTensorInfo_def well_formed_def)
  moreover have "take ?n (strides I) = strides I" "take ?n (strides T1) = strides T1"
    "take ?n (strides T2) = strides T2"
    using assms(1-5) by (simp_all add: well_formed_def)
  ultimately show ?thesis
    using assms(8) by (simp add: unrolled_is_loop dims)
qed

lemma prod_list_pos_nth: "0 < prod_list xs \<Longrightarrow> d < length xs \<Longrightarrow> 0 < (xs ! d :: nat)"
  by (induction xs arbitrary: d) (auto simp: nth_Cons split: nat.splits)

lemma lin_coord_coords:
  "0 < numel I \<Longrightarrow> lin_coord (sizes I) (length (sizes I)) lin \<in> set (coords (sizes I))"
  using lin_coord_in_shape [of "length (sizes I)" "sizes I" lin]
  by (simp add: set_coords numel_def prod_list_pos_nth)

lemma coords_lin_coord:
  "c \<in> set (coords (sizes I)) \<Longrightarrow>
   \<exists>lin < numel I. lin_coord (sizes I) (length (sizes I)) lin = c"
  using lin_coord_surj [of "length (sizes I)" "sizes I" c]
  by (simp add: set_coords numel_def)

lemma target_in_shape:
  assumes "c \<in> set (coords SI)" "length ST = length SI" "dim < length SI"
    and "\<forall>d < length SI. d \<noteq> dim \<longrightarrow> SI ! d \<le> ST ! d" "v < ST ! dim"
  shows "c[dim := v] \<in> set (coords ST)"
proof -
  from assms(1) have l: "length c = length SI" and lt: "\<forall>d < length SI. c ! d < SI ! d"
    by (auto simp: set_coords list_all2_conv_all_nth)
  have "(c[dim := v]) ! d < ST ! d" if "d < length SI" for d
  proof (cases "d = dim")
    case True
    with assms(5) l that show ?thesis by simp
  next
    case False
    with lt assms(4) that have "c ! d < ST ! d" by (meson less_le_trans)
    with False show ?thesis by simp
  qed
  with l assms(2) show ?thesis
    by (simp add: set_coords list_all2_conv_all_nth)
qed

lemma to_IndexType_nat: "0 \<le> i \<Longrightarrow> to_IndexType w i = nat i mod 2 ^ w"
  by (simp add: to_IndexType_def nat_mod_distrib nat_power_eq)

lemma through_index_mod:
  "(a mod m + (b mod m) * (s mod m)) mod m = (a + b * s) mod (m::nat)"
  by (rule mod_add_cong) (simp_all add: mod_mult_eq)

lemma info_strides_nth:
  "d < length (strides t) \<Longrightarrow> info_strides (getTensorInfo w t) ! d = strides t ! d mod 2 ^ w"
  by (simp add: getTensorInfo_def)

lemma coords_length: "c \<in> set (coords S) \<Longrightarrow> length c = length S"
  by (auto simp: set_coords dest: list_all2_lengthD)

text \<open>What one work item of the gather kernel does.\<close>

lemma gather_element_exact:
  assumes wf: "well_formed I" "well_formed T" "well_formed S"
    and rk: "length (sizes T) = length (sizes I)" "length (sizes S) = length (sizes I)"
    and n: "0 < numel I" "numel I < 2 ^ w"
    and D: "DIMS = 1 \<or> DIMS = 2 \<or> DIMS = 3 \<longrightarrow> int (length (sizes I)) = DIMS"
    and dim: "dim < length (sizes I)"
    and c: "c = lin_coord (sizes I) (length (sizes I)) lin"
    and b: "offset (strides I) c < 2 ^ w" "offset (strides T) c < 2 ^ w"
      "offset (strides S) (target dim I c) < 2 ^ w"
    and i: "0 \<le> read I c"
  shows "gather_element w DIMS (getTensorInfo w T) (getTensorInfo w S) (getTensorInfo w I) dim lin mem
     = mem(offset (strides T) c := read S (target dim I c))"
proof -
  let ?M = "(2::nat) ^ w"
  obtain r where x: "IndexToScatterGatherOffsets w DIMS dim (getTensorInfo w I) (getTensorInfo w T)
      (getTensorInfo w S) lin =
      (r, offset (strides I) c mod ?M, offset (strides T) c mod ?M,
       offset (strides S) (c[dim := 0]) mod ?M)"
    using offsets_exact [OF wf rk n D, of dim lin] c
    by (cases "IndexToScatterGatherOffsets w DIMS dim (getTensorInfo w I) (getTensorInfo w T)
      (getTensorInfo w S) lin") simp
  have lc: "length c = length (strides S)"
    using c wf(3) rk by (simp add: well_formed_def)
  have dS: "dim < length (strides S)"
    using dim wf(3) rk by (simp add: well_formed_def)
  have iv: "data (getTensorInfo w I) (offset (strides I) c mod ?M) = read I c"
    using b(1) by (simp add: getTensorInfo_def read_def)
  have "(offset (strides S) (c[dim := 0]) mod ?M
          + to_IndexType w (read I c) * info_strides (getTensorInfo w S) ! dim) mod ?M
        = (offset (strides S) (c[dim := 0]) + nat (read I c) * strides S ! dim) mod ?M"
    using i dS by (simp add: to_IndexType_nat info_strides_nth through_index_mod)
  also have "\<dots> = offset (strides S) (target dim I c) mod ?M"
    using offset_update [OF lc, of dim "nat (read I c)"] dS lc by (simp add: target_def)
  also have "\<dots> = offset (strides S) (target dim I c)"
    using b(3) by simp
  finally have so: "(offset (strides S) (c[dim := 0]) mod ?M
          + to_IndexType w (read I c) * info_strides (getTensorInfo w S) ! dim) mod ?M
        = offset (strides S) (target dim I c)" .
  show ?thesis
    using b(2) by (simp add: gather_element_def x iv so Let_def) (simp add: getTensorInfo_def read_def)
qed

text \<open>What one work item of the scatter kernels addresses.\<close>

lemma scatter_target_exact:
  assumes wf: "well_formed I" "well_formed T" "well_formed S"
    and rk: "length (sizes T) = length (sizes I)" "length (sizes S) = length (sizes I)"
    and n: "0 < numel I" "numel I < 2 ^ w"
    and D: "DIMS = 1 \<or> DIMS = 2 \<or> DIMS = 3 \<longrightarrow> int (length (sizes I)) = DIMS"
    and dim: "dim < length (sizes I)"
    and c: "c = lin_coord (sizes I) (length (sizes I)) lin"
    and b: "offset (strides I) c < 2 ^ w" "offset (strides T) (target dim I c) < 2 ^ w"
    and i: "0 \<le> read I c"
  shows "scatter_target w DIMS (getTensorInfo w T) (getTensorInfo w S) (getTensorInfo w I) dim lin
     = (offset (strides T) (target dim I c), offset (strides S) c mod 2 ^ w)"
proof -
  let ?M = "(2::nat) ^ w"
  obtain r where x: "IndexToScatterGatherOffsets w DIMS dim (getTensorInfo w I) (getTensorInfo w S)
      (getTensorInfo w T) lin =
      (r, offset (strides I) c mod ?M, offset (strides S) c mod ?M,
       offset (strides T) (c[dim := 0]) mod ?M)"
    using offsets_exact [OF wf(1) wf(3) wf(2) rk(2) rk(1) n D, of dim lin] c
    by (cases "IndexToScatterGatherOffsets w DIMS dim (getTensorInfo w I) (getTensorInfo w S)
      (getTensorInfo w T) lin") simp
  have lc: "length c = length (strides T)"
    using c wf(2) rk by (simp add: well_formed_def)
  have dT: "dim < length (strides T)"
    using dim wf(2) rk by (simp add: well_formed_def)
  have iv: "data (getTensorInfo w I) (offset (strides I) c mod ?M) = read I c"
    using b(1) by (simp add: getTensorInfo_def read_def)
  have "(offset (strides T) (c[dim := 0]) mod ?M
          + to_IndexType w (read I c) * info_strides (getTensorInfo w T) ! dim) mod ?M
        = (offset (strides T) (c[dim := 0]) + nat (read I c) * strides T ! dim) mod ?M"
    using i dT by (simp add: to_IndexType_nat info_strides_nth through_index_mod)
  also have "\<dots> = offset (strides T) (target dim I c) mod ?M"
    using offset_update [OF lc, of dim "nat (read I c)"] dT lc by (simp add: target_def)
  also have "\<dots> = offset (strides T) (target dim I c)"
    using b(2) by simp
  finally have to: "(offset (strides T) (c[dim := 0]) mod ?M
          + to_IndexType w (read I c) * info_strides (getTensorInfo w T) ! dim) mod ?M
        = offset (strides T) (target dim I c)" .
  show ?thesis
    by (simp add: scatter_target_def x iv to Let_def)
qed

lemma gather_element_item:
  assumes "fits_index_type w DIMS T I dim" "direct_fits w T I" "through_index_fits w S I dim"
  shows "gather_element w DIMS (getTensorInfo w T) (getTensorInfo w S) (getTensorInfo w I) dim lin
     = gather_item T S I dim lin"
proof
  fix mem
  let ?c = "lin_coord (sizes I) (length (sizes I)) lin"
  have c: "?c \<in> set (coords (sizes I))"
    using assms(1) by (simp add: fits_index_type_def lin_coord_coords)
  show "gather_element w DIMS (getTensorInfo w T) (getTensorInfo w S) (getTensorInfo w I) dim lin mem
     = gather_item T S I dim lin mem"
    unfolding gather_item_def Let_def
    using assms c
    by (intro gather_element_exact [where c = ?c])
       (auto simp: fits_index_type_def direct_fits_def through_index_fits_def)
qed

lemma scatter_element_item:
  assumes "fits_index_type w DIMS T I dim" "direct_fits w S I" "through_index_fits w T I dim"
  shows "scatter_element w DIMS (getTensorInfo w T) (getTensorInfo w S) (getTensorInfo w I) dim lin
     = scatter_item T S I dim lin"
proof
  fix mem
  let ?c = "lin_coord (sizes I) (length (sizes I)) lin"
  have c: "?c \<in> set (coords (sizes I))"
    using assms(1) by (simp add: fits_index_type_def lin_coord_coords)
  have "scatter_target w DIMS (getTensorInfo w T) (getTensorInfo w S) (getTensorInfo w I) dim lin
     = (offset (strides T) (target dim I ?c), offset (strides S) ?c mod 2 ^ w)"
    using assms c
    by (intro scatter_target_exact)
       (auto simp: fits_index_type_def direct_fits_def through_index_fits_def)
  moreover have "offset (strides S) ?c mod 2 ^ w = offset (strides S) ?c"
    using assms(2) c by (simp add: direct_fits_def)
  ultimately show "scatter_element w DIMS (getTensorInfo w T) (getTensorInfo w S) (getTensorInfo w I) dim lin mem
     = scatter_item T S I dim lin mem"
    by (simp add: scatter_element_def scatter_item_def Let_def getTensorInfo_def read_def)
qed

lemma scatterAdd_element_item:
  assumes "fits_index_type w DIMS T I dim" "direct_fits w S I" "through_index_fits w T I dim"
  shows "scatterAdd_element w DIMS (getTensorInfo w T) (getTensorInfo w S) (getTensorInfo w I) dim lin
     = scatterAdd_item T S I dim lin"
proof
  fix mem :: "nat \<Rightarrow> 'a"
  let ?c = "lin_coord (sizes I) (length (sizes I)) lin"
  have c: "?c \<in> set (coords (sizes I))"
    using assms(1) by (simp add: fits_index_type_def lin_coord_coords)
  have "scatter_target w DIMS (getTensorInfo w T) (getTensorInfo w S) (getTensorInfo w I) dim lin
     = (offset (strides T) (target dim I ?c), offset (strides S) ?c mod 2 ^ w)"
    using assms c
    by (intro scatter_target_exact)
       (auto simp: fits_index_type_def direct_fits_def through_index_fits_def)
  moreover have "offset (strides S) ?c mod 2 ^ w = offset (strides S) ?c"
    using assms(2) c by (simp add: direct_fits_def)
  ultimately show "scatterAdd_element w DIMS (getTensorInfo w T) (getTensorInfo w S) (getTensorInfo w I) dim lin mem
     = scatterAdd_item T S I dim lin mem"
    by (simp add: scatterAdd_element_def scatterAdd_item_def Let_def getTensorInfo_def read_def)
qed

lemma scatterFill_element_item:
  assumes "fits_index_type w DIMS T I dim" "through_index_fits w T I dim"
  shows "scatterFill_element w DIMS (getTensorInfo w T) (getTensorInfo w I) val dim lin
     = scatterFill_item T I val dim lin"
proof
  fix mem
  let ?c = "lin_coord (sizes I) (length (sizes I)) lin"
  have c: "?c \<in> set (coords (sizes I))"
    using assms(1) by (simp add: fits_index_type_def lin_coord_coords)
  have "scatter_target w DIMS (getTensorInfo w T) (getTensorInfo w T) (getTensorInfo w I) dim lin
     = (offset (strides T) (target dim I ?c), offset (strides T) ?c mod 2 ^ w)"
    using assms c
    by (intro scatter_target_exact)
       (auto simp: fits_index_type_def through_index_fits_def)
  then show "scatterFill_element w DIMS (getTensorInfo w T) (getTensorInfo w I) val dim lin mem
     = scatterFill_item T I val dim lin mem"
    by (simp add: scatterFill_element_def scatterFill_item_def Let_def)
qed

lemma gatherKernel_items:
  assumes "fits_index_type w DIMS T I dim" "direct_fits w T I" "through_index_fits w S I dim"
  shows "THDPCPPTensor_gatherKernel w DIMS (getTensorInfo w T) (getTensorInfo w S)
           (getTensorInfo w I) dim (numel I mod 2 ^ w)
         = fold (gather_item T S I dim) [0..<numel I] (storage T)"
proof -
  have "gather_element w DIMS (getTensorInfo w T) (getTensorInfo w S) (getTensorInfo w I) dim
      = gather_item T S I dim"
    by (rule ext) (rule gather_element_item [OF assms])
  moreover have "numel I mod 2 ^ w = numel I"
    using assms(1) by (simp add: fits_index_type_def)
  ultimately show ?thesis
    by (simp add: THDPCPPTensor_gatherKernel_def) (simp add: getTensorInfo_def)
qed

lemma scatterKernel_items:
  assumes "fits_index_type w DIMS T I dim" "direct_fits w S I" "through_index_fits w T I dim"
  shows "THSyclTensor_scatterKernel w DIMS (getTensorInfo w T) (getTensorInfo w S)
           (getTensorInfo w I) dim (numel I mod 2 ^ w)
         = fold (scatter_item T S I dim) [0..<numel I] (storage T)"
proof -
  have "scatter_element w DIMS (getTensorInfo w T) (getTensorInfo w S) (getTensorInfo w I) dim
      = scatter_item T S I dim"
    by (rule ext) (rule scatter_element_item [OF assms])
  moreover have "numel I mod 2 ^ w = numel I"
    using assms(1) by (simp add: fits_index_type_def)
  ultimately show ?thesis
    by (simp add: THSyclTensor_scatterKernel_def) (simp add: getTensorInfo_def)
qed

lemma scatterFillKernel_items:
  assumes "fits_index_type w DIMS T I dim" "through_index_fits w T I dim"
  shows "THSyclTensor_scatterFillKernel w DIMS (getTensorInfo w T) (getTensorInfo w I) val dim
           (numel I mod 2 ^ w)
         = fold (scatterFill_item T I val dim) [0..<numel I] (storage T)"
proof -
  have "scatterFill_element w DIMS (getTensorInfo w T) (getTensorInfo w I) val dim
      = scatterFill_item T I val dim"
    by (rule ext) (rule scatterFill_element_item [OF assms])
  moreover have "numel I mod 2 ^ w = numel I"
    using assms(1) by (simp add: fits_index_type_def)
  ultimately show ?thesis
    by (simp add: THSyclTensor_scatterFillKernel_def) (simp add: getTensorInfo_def)
qed

lemma scatterAdd_in_order_items:
  assumes "fits_index_type w DIMS T I dim" "direct_fits w S I" "through_index_fits w T I dim"
  shows "scatterAdd_in_order order w DIMS (getTensorInfo w T) (getTensorInfo w S)
           (getTensorInfo w I) dim
         = fold (scatterAdd_item T S I dim) order (storage T)"
proof -
  have "scatterAdd_element w DIMS (getTensorInfo w T) (getTensorInfo w S) (getTensorInfo w I) dim
      = scatterAdd_item T S I dim"
    by (rule ext) (rule scatterAdd_element_item [OF assms])
  then show ?thesis
    by (simp add: scatterAdd_in_order_def) (simp add: getTensorInfo_def)
qed

lemma scatterAddKernel_items:
  assumes "fits_index_type w DIMS T I dim" "direct_fits w S I" "through_index_fits w T I dim"
  shows "THSyclTensor_scatterAddKernel w DIMS (getTensorInfo w T) (getTensorInfo w S)
           (getTensorInfo w I) dim (numel I mod 2 ^ w)
         = fold (scatterAdd_item T S I dim) [0..<numel I] (storage T)"
proof -
  have "numel I mod 2 ^ w = numel I"
    using assms(1) by (simp add: fits_index_type_def)
  then show ?thesis
    by (simp add: THSyclTensor_scatterAddKernel_def scatterAdd_in_order_items [OF assms])
qed

subsection \<open>Row-major strides and copies\<close>

lemma length_contiguous_strides [simp]: "length (contiguous_strides S) = length S"
  by (induction S) simp_all

lemma contiguous_offset_less:
  "c \<in> set (coords S) \<Longrightarrow> offset (contiguous_strides S) c < prod_list S"
proof (induction S arbitrary: c)
  case Nil
  then show ?case by simp
next
  case (Cons s S)
  then obtain x cs where c: "c = x # cs" "x < s" "cs \<in> set (coords S)"
    by auto
  then have "offset (contiguous_strides S) cs < prod_list S" by (simp add: Cons.IH)
  then have "x * prod_list S + offset (contiguous_strides S) cs < (x + 1) * prod_list S"
    by simp
  also have "\<dots> \<le> s * prod_list S"
    using c(2) by (intro mult_le_mono1) simp
  finally show ?case using c by simp
qed

lemma contiguous_offset_inj:
  "inj_on (offset (contiguous_strides S)) (set (coords S))"
proof (induction S)
  case Nil
  then show ?case by simp
next
  case (Cons s S)
  show ?case
  proof (rule inj_onI)
    fix c c'
    assume a: "c \<in> set (coords (s # S))" "c' \<in> set (coords (s # S))"
      "offset (contiguous_strides (s # S)) c = offset (contiguous_strides (s # S)) c'"
    then obtain x cs x' cs' where c: "c = x # cs" "cs \<in> set (coords S)"
      and c': "c' = x' # cs'" "cs' \<in> set (coords S)"
      by auto
    let ?P = "prod_list S"
    let ?r = "offset (contiguous_strides S) cs"
    let ?r' = "offset (contiguous_strides S) cs'"
    have r: "?r < ?P" "?r' < ?P"
      using c c' by (simp_all add: contiguous_offset_less)
    from a(3) c c' have e: "x * ?P + ?r = x' * ?P + ?r'" by simp
    have "(x * ?P + ?r) div ?P = x" "(x' * ?P + ?r') div ?P = x'"
      using r by simp_all
    with e have xx: "x = x'" by metis
    with e have "?r = ?r'" by simp
    with Cons.IH c c' have "cs = cs'" by (auto dest: inj_onD)
    with xx c c' show "c = c'" by simp
  qed
qed

lemma no_overlap_inj:
  "\<not> maybeOverlappingIndices t \<longleftrightarrow> inj_on (offset (strides t)) (set (coords (sizes t)))"
  by (simp add: maybeOverlappingIndices_def distinct_map distinct_coords)

lemma copy_tensor_shape [simp]:
  "sizes (copy_tensor dst src) = sizes dst" "strides (copy_tensor dst src) = strides dst"
  "scalar_type (copy_tensor dst src) = scalar_type dst"
  by (simp_all add: copy_tensor_def)

lemma copy_tensor_read:
  assumes "inj_on (offset (strides dst)) (set (coords (sizes dst)))" "c \<in> set (coords (sizes dst))"
  shows "read (copy_tensor dst src) c = read src c"
proof -
  have "fold (copy_elem dst src) (coords (sizes dst)) (storage dst) (offset (strides dst) c)
      = read src c"
  proof (rule fold_upd_hit [where a = "offset (strides dst)" and v = "read src"])
    show "\<And>i m. i \<in> set (coords (sizes dst)) \<Longrightarrow>
        copy_elem dst src i m = m(offset (strides dst) i := read src i)"
      by (rule copy_elem_def)
  qed (use assms in simp_all)
  then show ?thesis by (simp add: read_def copy_tensor_def)
qed

lemma contiguous_shape [simp]:
  "sizes (contiguous t) = sizes t" "scalar_type (contiguous t) = scalar_type t"
  "strides (contiguous t) = contiguous_strides (sizes t)"
  by (simp_all add: contiguous_def)

lemma contiguous_read:
  "c \<in> set (coords (sizes t)) \<Longrightarrow> read (contiguous t) c = read t c"
  by (simp add: contiguous_def copy_tensor_read contiguous_offset_inj)

lemma lin_coords_mset:
  "0 < numel I \<Longrightarrow>
   mset (map (lin_coord (sizes I) (length (sizes I))) [0..<numel I]) = mset (coords (sizes I))"
proof -
  assume pos: "0 < numel I"
  let ?f = "lin_coord (sizes I) (length (sizes I))"
  have inj: "inj_on ?f (set [0..<numel I])"
    using lin_coord_inj [of "length (sizes I)" "sizes I"]
    by (auto simp: inj_on_def numel_def)
  then have d: "distinct (map ?f [0..<numel I])"
    by (simp add: distinct_map)
  have e: "set (map ?f [0..<numel I]) = set (coords (sizes I))"
  proof (rule set_eqI, rule iffI)
    fix c assume "c \<in> set (map ?f [0..<numel I])"
    then show "c \<in> set (coords (sizes I))"
      using pos by (auto simp: lin_coord_coords)
  next
    fix c assume "c \<in> set (coords (sizes I))"
    then obtain lin where "lin < numel I" "?f lin = c"
      using coords_lin_coord by blast
    then show "c \<in> set (map ?f [0..<numel I])" by force
  qed
  show ?thesis
    using d distinct_coords [of "sizes I"] e
    by (simp only: set_eq_iff_mset_eq_distinct)
qed



lemma scatter_fold_frame:
  assumes "inj_on (offset (strides W)) (set (coords (sizes W)))" "p \<in> set (coords (sizes W))"
    and "\<forall>c \<in> set (coords (sizes I)). target dim I c \<in> set (coords (sizes W)) \<and> target dim I c \<noteq> p"
  shows "fold (scatter_item W S I dim) [0..<numel I] m (offset (strides W) p)
         = m (offset (strides W) p)"
proof (rule fold_upd_other [where a = "\<lambda>lin. offset (strides W) (target dim I (lin_coord (sizes I) (length (sizes I)) lin))"
        and v = "\<lambda>lin. read S (lin_coord (sizes I) (length (sizes I)) lin)"])
  show "\<And>i m. i \<in> set [0..<numel I] \<Longrightarrow> scatter_item W S I dim i m =
      m(offset (strides W) (target dim I (lin_coord (sizes I) (length (sizes I)) i)) :=
          read S (lin_coord (sizes I) (length (sizes I)) i))"
    by (simp add: scatter_item_def Let_def)
  show "\<forall>i\<in>set [0..<numel I].
      offset (strides W) (target dim I (lin_coord (sizes I) (length (sizes I)) i)) \<noteq> offset (strides W) p"
  proof
    fix i assume "i \<in> set [0..<numel I]"
    then have "0 < numel I" by simp
    then have "lin_coord (sizes I) (length (sizes I)) i \<in> set (coords (sizes I))"
      by (rule lin_coord_coords)
    with assms(3) have "target dim I (lin_coord (sizes I) (length (sizes I)) i) \<in> set (coords (sizes W))"
      "target dim I (lin_coord (sizes I) (length (sizes I)) i) \<noteq> p"
      by simp_all
    with assms(1,2) show "offset (strides W) (target dim I (lin_coord (sizes I) (length (sizes I)) i))
        \<noteq> offset (strides W) p"
      by (auto dest: inj_onD)
  qed
qed

lemma scatterFill_fold_frame:
  assumes "inj_on (offset (strides W)) (set (coords (sizes W)))" "p \<in> set (coords (sizes W))"
    and "\<forall>c \<in> set (coords (sizes I)). target dim I c \<in> set (coords (sizes W)) \<and> target dim I c \<noteq> p"
  shows "fold (scatterFill_item W I val dim) [0..<numel I] m (offset (strides W) p)
         = m (offset (strides W) p)"
proof (rule fold_upd_other [where a = "\<lambda>lin. offset (strides W) (target dim I (lin_coord (sizes I) (length (sizes I)) lin))"
        and v = "\<lambda>lin. val"])
  show "\<And>i m. i \<in> set [0..<numel I] \<Longrightarrow> scatterFill_item W I val dim i m =
      m(offset (strides W) (target dim I (lin_coord (sizes I) (length (sizes I)) i)) := val)"
    by (simp add: scatterFill_item_def Let_def)
  show "\<forall>i\<in>set [0..<numel I].
      offset (strides W) (target dim I (lin_coord (sizes I) (length (sizes I)) i)) \<noteq> offset (strides W) p"
  proof
    fix i assume "i \<in> set [0..<numel I]"
    then have "0 < numel I" by simp
    then have "lin_coord (sizes I) (length (sizes I)) i \<in> set (coords (sizes I))"
      by (rule lin_coord_coords)
    with assms(3) have "target dim I (lin_coord (sizes I) (length (sizes I)) i) \<in> set (coords (sizes W))"
      "target dim I (lin_coord (sizes I) (length (sizes I)) i) \<noteq> p"
      by simp_all
    with assms(1,2) show "offset (strides W) (target dim I (lin_coord (sizes I) (length (sizes I)) i))
        \<noteq> offset (strides W) p"
      by (auto dest: inj_onD)
  qed
qed

lemma scatterAdd_fold_order:
  fixes m :: "nat \<Rightarrow> 'a::comm_monoid_add"
  assumes "mset order = mset order'"
  shows "fold (scatterAdd_item W S I dim) order m = fold (scatterAdd_item W S I dim) order' m"
proof
  fix x
  let ?a = "\<lambda>lin. offset (strides W) (target dim I (lin_coord (sizes I) (length (sizes I)) lin))"
  let ?v = "\<lambda>lin. read S (lin_coord (sizes I) (length (sizes I)) lin)"
  have f: "\<And>xs i m. i \<in> set xs \<Longrightarrow> scatterAdd_item W S I dim i m = m(?a i := m (?a i) + ?v i)"
    by (simp add: scatterAdd_item_def Let_def)
  have "fold (scatterAdd_item W S I dim) order m x
      = m x + sum_list (map ?v (filter (\<lambda>i. ?a i = x) order))"
    by (rule fold_add [where a = ?a and v = ?v]) (rule f)
  also have "\<dots> = m x + sum_list (map ?v (filter (\<lambda>i. ?a i = x) order'))"
    using assms by (simp add: sum_list_filter_mset [where xs = order and ys = order'])
  also have "\<dots> = fold (scatterAdd_item W S I dim) order' m x"
    by (rule fold_add [where a = ?a and v = ?v, symmetric]) (rule f)
  finally show "fold (scatterAdd_item W S I dim) order m x = fold (scatterAdd_item W S I dim) order' m x" .
qed

lemma scatterAdd_fold_sum:
  fixes m :: "nat \<Rightarrow> 'a::comm_monoid_add"
  assumes "inj_on (offset (strides W)) (set (coords (sizes W)))" "p \<in> set (coords (sizes W))"
    and "\<forall>c \<in> set (coords (sizes I)). target dim I c \<in> set (coords (sizes W))"
  shows "fold (scatterAdd_item W S I dim) [0..<numel I] m (offset (strides W) p)
         = m (offset (strides W) p)
           + sum_list (map (read S) (filter (\<lambda>c. target dim I c = p) (coords (sizes I))))"
proof (cases "numel I = 0")
  case True
  then have "coords (sizes I) = []"
    using coords_lin_coord [of _ I] by (cases "coords (sizes I)") auto
  with True show ?thesis by simp
next
  case False
  then have pos: "0 < numel I" by simp
  let ?lc = "lin_coord (sizes I) (length (sizes I))"
  let ?a = "\<lambda>lin. offset (strides W) (target dim I (?lc lin))"
  let ?v = "\<lambda>lin. read S (?lc lin)"
  have f: "\<And>i m. i \<in> set [0..<numel I] \<Longrightarrow> scatterAdd_item W S I dim i m = m(?a i := m (?a i) + ?v i)"
    by (simp add: scatterAdd_item_def Let_def)
  have hit: "(offset (strides W) (target dim I c) = offset (strides W) p) = (target dim I c = p)"
    if "c \<in> set (coords (sizes I))" for c
    using assms that by (auto dest: inj_onD)
  have "fold (scatterAdd_item W S I dim) [0..<numel I] m (offset (strides W) p)
      = m (offset (strides W) p)
        + sum_list (map ?v (filter (\<lambda>i. ?a i = offset (strides W) p) [0..<numel I]))"
    by (rule fold_add [where a = ?a and v = ?v]) (rule f)
  also have "sum_list (map ?v (filter (\<lambda>i. ?a i = offset (strides W) p) [0..<numel I]))
      = sum_list (map (read S)
          (filter (\<lambda>c. offset (strides W) (target dim I c) = offset (strides W) p)
             (map ?lc [0..<numel I])))"
    by (simp add: filter_map comp_def)
  also have "\<dots> = sum_list (map (read S)
          (filter (\<lambda>c. offset (strides W) (target dim I c) = offset (strides W) p)
             (coords (sizes I))))"
    by (rule sum_list_filter_mset [OF lin_coords_mset [OF pos]])
  also have "filter (\<lambda>c. offset (strides W) (target dim I c) = offset (strides W) p) (coords (sizes I))
      = filter (\<lambda>c. target dim I c = p) (coords (sizes I))"
    by (rule filter_cong) (simp_all add: hit)
  finally show ?thesis .
qed

lemma coords_mono:
  assumes "c \<in> set (coords SI)" "length ST = length SI" "\<forall>d < length SI. SI ! d \<le> ST ! d"
  shows "c \<in> set (coords ST)"
proof -
  from assms(1) have l: "length c = length SI" and lt: "\<forall>d < length SI. c ! d < SI ! d"
    by (auto simp: set_coords list_all2_conv_all_nth)
  have "c ! d < ST ! d" if "d < length SI" for d
    using lt assms(3) that by (meson less_le_trans)
  with l assms(2) show ?thesis
    by (simp add: set_coords list_all2_conv_all_nth)
qed

lemma addressable_offset:
  "addressable w t \<Longrightarrow> c \<in> set (coords (sizes t)) \<Longrightarrow> offset (strides t) c < 2 ^ w"
  by (simp add: addressable_def)

lemma scatter_target_coords:
  assumes "length (sizes T) = length (sizes I)" "dim < length (sizes I)"
    and "\<forall>d < length (sizes I). d \<noteq> dim \<longrightarrow> sizes I ! d \<le> sizes T ! d"
    and "index_in_range I (sizes T ! dim)" "c \<in> set (coords (sizes I))"
  shows "target dim I c \<in> set (coords (sizes T))"
  unfolding target_def
proof (rule target_in_shape [OF assms(5) assms(1) assms(2) assms(3)])
  from assms(4,5) have "0 \<le> read I c" "read I c < int (sizes T ! dim)"
    by (simp_all add: index_in_range_def)
  then show "nat (read I c) < sizes T ! dim" by linarith
qed

lemma fits_index_typeI:
  assumes "well_formed T" "well_formed I" "length (sizes T) = length (sizes I)"
    and "dim < length (sizes I)" "0 < numel I"
    and "DIMS = 1 \<or> DIMS = 2 \<or> DIMS = 3 \<longrightarrow> int (length (sizes I)) = DIMS"
    and "index_in_range I b" "addressable w I"
  shows "fits_index_type w DIMS T I dim"
proof -
  have "numel I < 2 ^ w" using assms(8) by (simp add: addressable_def)
  moreover have "\<forall>c \<in> set (coords (sizes I)). 0 \<le> read I c \<and> offset (strides I) c < 2 ^ w"
  proof
    fix c assume c: "c \<in> set (coords (sizes I))"
    with assms(7) have "0 \<le> read I c" by (simp add: index_in_range_def)
    moreover from assms(8) c have "offset (strides I) c < 2 ^ w" by (rule addressable_offset)
    ultimately show "0 \<le> read I c \<and> offset (strides I) c < 2 ^ w" ..
  qed
  ultimately show ?thesis
    unfolding fits_index_type_def using assms(1-6) by blast
qed

lemma scatter_pre_facts:
  assumes "scatter_pre w T dim I S"
  shows "well_formed T" "well_formed S" "well_formed I"
    and "length (sizes S) = length (sizes I)" "length (sizes T) = length (sizes I)"
    and "dim < length (sizes I)"
    and "\<forall>d < length (sizes I). sizes I ! d \<le> sizes S ! d"
    and "\<forall>d < length (sizes I). d \<noteq> dim \<longrightarrow> sizes I ! d \<le> sizes T ! d"
    and "index_in_range I (sizes T ! dim)"
    and "addressable w T" "addressable w S" "addressable w I"
  using assms unfolding scatter_pre_def by simp_all

lemma scatterFill_pre_facts:
  assumes "scatterFill_pre w T dim I"
  shows "well_formed T" "well_formed I"
    and "length (sizes T) = length (sizes I)"
    and "dim < length (sizes I)"
    and "\<forall>d < length (sizes I). d \<noteq> dim \<longrightarrow> sizes I ! d \<le> sizes T ! d"
    and "index_in_range I (sizes T ! dim)"
    and "addressable w T" "addressable w I"
  using assms unfolding scatterFill_pre_def by simp_all

lemma gather_pre_facts:
  assumes "gather_pre w T S dim I"
  shows "well_formed T" "well_formed S" "well_formed I"
    and "sizes T = sizes I" "length (sizes S) = length (sizes I)"
    and "dim < length (sizes I)"
    and "\<forall>d < length (sizes I). d \<noteq> dim \<longrightarrow> sizes I ! d \<le> sizes S ! d"
    and "index_in_range I (sizes S ! dim)"
    and "addressable w T" "addressable w S" "addressable w I"
  using assms unfolding gather_pre_def by simp_all

lemma through_index_fitsI:
  assumes "well_formed T" "length (sizes T) = length (sizes I)" "dim < length (sizes I)"
    and "\<forall>d < length (sizes I). d \<noteq> dim \<longrightarrow> sizes I ! d \<le> sizes T ! d"
    and "index_in_range I (sizes T ! dim)" "addressable w T"
  shows "through_index_fits w T I dim"
  unfolding through_index_fits_def
proof (intro conjI ballI)
  fix c assume "c \<in> set (coords (sizes I))"
  with assms(2-5) have "target dim I c \<in> set (coords (sizes T))"
    by (rule scatter_target_coords)
  with assms(6) show "offset (strides T) (target dim I c) < 2 ^ w" by (rule addressable_offset)
qed (fact assms(1), fact assms(2))

lemma direct_fitsI:
  assumes "well_formed S" "length (sizes S) = length (sizes I)"
    and "\<forall>d < length (sizes I). sizes I ! d \<le> sizes S ! d" "addressable w S"
  shows "direct_fits w S I"
  unfolding direct_fits_def
proof (intro conjI ballI)
  fix c assume "c \<in> set (coords (sizes I))"
  then have "c \<in> set (coords (sizes S))"
    using assms(2,3) by (rule coords_mono)
  with assms(4) show "offset (strides S) c < 2 ^ w" by (rule addressable_offset)
qed (fact assms(1), fact assms(2))

lemma scatter_pre_fits:
  assumes "scatter_pre w T dim I S" "0 < numel I"
    and "DIMS = 1 \<or> DIMS = 2 \<or> DIMS = 3 \<longrightarrow> int (length (sizes I)) = DIMS"
  shows "fits_index_type w DIMS T I dim" "direct_fits w S I" "through_index_fits w T I dim"
proof -
  note f = scatter_pre_facts [OF assms(1)]
  show "fits_index_type w DIMS T I dim"
    using f(1) f(3) f(5) f(6) assms(2,3) f(9) f(12) by (rule fits_index_typeI)
  show "direct_fits w S I"
    using f(2) f(4) f(7) f(11) by (rule direct_fitsI)
  show "through_index_fits w T I dim"
    using f(1) f(5) f(6) f(8) f(9) f(10) by (rule through_index_fitsI)
qed

lemma scatterFill_pre_fits:
  assumes "scatterFill_pre w T dim I" "0 < numel I"
    and "DIMS = 1 \<or> DIMS = 2 \<or> DIMS = 3 \<longrightarrow> int (length (sizes I)) = DIMS"
  shows "fits_index_type w DIMS T I dim" "through_index_fits w T I dim"
proof -
  note f = scatterFill_pre_facts [OF assms(1)]
  show "fits_index_type w DIMS T I dim"
    using f(1) f(2) f(3) f(4) assms(2,3) f(6) f(8) by (rule fits_index_typeI)
  show "through_index_fits w T I dim"
    using f(1) f(3) f(4) f(5) f(6) f(7) by (rule through_index_fitsI)
qed

lemma gather_pre_fits:
  assumes "gather_pre w T S dim I" "0 < numel I"
    and "DIMS = 1 \<or> DIMS = 2 \<or> DIMS = 3 \<longrightarrow> int (length (sizes I)) = DIMS"
  shows "fits_index_type w DIMS T I dim" "direct_fits w T I" "through_index_fits w S I dim"
proof -
  note f = gather_pre_facts [OF assms(1)]
  have lT: "length (sizes T) = length (sizes I)" using f(4) by simp
  show "fits_index_type w DIMS T I dim"
    using f(1) f(3) lT f(6) assms(2,3) f(8) f(11) by (rule fits_index_typeI)
  show "direct_fits w T I"
    using f(1) lT _ f(9) by (rule direct_fitsI) (simp add: f(4))
  show "through_index_fits w S I dim"
    using f(2) f(5) f(6) f(7) f(8) f(10) by (rule through_index_fitsI)
qed

lemma select_instantiation_cases:
  obtains DIMS where "select_instantiation narrow n = (index_width narrow, DIMS)"
    "DIMS = 1 \<or> DIMS = 2 \<or> DIMS = 3 \<longrightarrow> int n = DIMS"
proof (cases narrow)
  case True
  show ?thesis
  proof (cases "n = 1 \<or> n = 2 \<or> n = 3")
    case True
    with \<open>narrow\<close> show ?thesis
      by (intro that [of "int n"]) (auto simp: select_instantiation_def index_width_def)
  next
    case False
    with \<open>narrow\<close> show ?thesis
      by (intro that [of "- 1"]) (auto simp: select_instantiation_def index_width_def)
  qed
next
  case False
  then show ?thesis
    by (intro that [of "- 1"]) (auto simp: select_instantiation_def index_width_def)
qed

subsection \<open>The tensor the kernel runs on\<close>

lemma working_shape [simp]:
  "sizes (working t) = sizes t" "scalar_type (working t) = scalar_type t"
  by (simp_all add: working_def)

lemma working_numel [simp]: "numel (working t) = numel t"
  by (simp add: numel_def)

lemma working_canUse32 [simp]: "canUse32BitIndexMath (working t) = canUse32BitIndexMath t"
  by (simp add: canUse32BitIndexMath_def)

lemma working_well_formed: "well_formed t \<Longrightarrow> well_formed (working t)"
  by (simp add: working_def well_formed_def)

lemma working_inj: "inj_on (offset (strides (working t))) (set (coords (sizes t)))"
  by (simp add: working_def contiguous_offset_inj no_overlap_inj [symmetric])

lemma working_read: "c \<in> set (coords (sizes t)) \<Longrightarrow> read (working t) c = read t c"
  by (simp add: working_def contiguous_read)

lemma contiguous_addressable:
  "numel t < 2 ^ w \<Longrightarrow> addressable w (contiguous t)"
  unfolding addressable_def
proof (intro conjI ballI)
  fix c assume a: "numel t < 2 ^ w" "c \<in> set (coords (sizes (contiguous t)))"
  then have "offset (contiguous_strides (sizes t)) c < prod_list (sizes t)"
    by (simp add: contiguous_offset_less)
  with a(1) show "offset (strides (contiguous t)) c < 2 ^ w"
    by (simp add: numel_def)
qed (simp add: numel_def)

lemma working_addressable: "addressable w t \<Longrightarrow> addressable w (working t)"
proof (cases "maybeOverlappingIndices t")
  case True
  assume "addressable w t"
  then have "numel t < 2 ^ w" by (simp add: addressable_def)
  then have "addressable w (contiguous t)" by (rule contiguous_addressable)
  with True show ?thesis by (simp add: working_def)
next
  case False
  assume "addressable w t"
  with False show ?thesis by (simp add: working_def)
qed

lemma run_guarded_self: "self (run_guarded K t) = K (working t)"
  by (simp add: run_guarded_def working_def Let_def)

lemma run_guarded_passed:
  "passed (run_guarded K t)
     = (if maybeOverlappingIndices t then copy_tensor t (K (contiguous t)) else K t)"
  by (simp add: run_guarded_def Let_def)

lemma scatter_pre_working: "scatter_pre w t dim I S \<Longrightarrow> scatter_pre w (working t) dim I S"
  unfolding scatter_pre_def by (simp add: working_well_formed working_addressable)

lemma scatterFill_pre_working: "scatterFill_pre w t dim I \<Longrightarrow> scatterFill_pre w (working t) dim I"
  unfolding scatterFill_pre_def by (simp add: working_well_formed working_addressable)

lemma gather_pre_working: "gather_pre w t S dim I \<Longrightarrow> gather_pre w (working t) S dim I"
  unfolding gather_pre_def by (simp add: working_well_formed working_addressable)

lemma storage_same [simp]: "W\<lparr>storage := storage W\<rparr> = (W :: 'a Tensor)"
  by simp


lemma Scatter_kernel_fold:
  assumes "scatter_pre (index_width (canUse32BitIndexMath W \<and> canUse32BitIndexMath S \<and>
      canUse32BitIndexMath I)) W dim I S"
  shows "Scatter_kernel dim I S W
     = W\<lparr>storage := fold (scatter_item W S I dim) [0..<numel I] (storage W)\<rparr>"
proof (cases "numel I = 0")
  case True
  then show ?thesis by (simp add: Scatter_kernel_def)
next
  case False
  then have pos: "0 < numel I" by simp
  let ?narrow = "canUse32BitIndexMath W \<and> canUse32BitIndexMath S \<and> canUse32BitIndexMath I"
  obtain DIMS where sel: "select_instantiation ?narrow (length (sizes I)) = (index_width ?narrow, DIMS)"
    and D: "DIMS = 1 \<or> DIMS = 2 \<or> DIMS = 3 \<longrightarrow> int (length (sizes I)) = DIMS"
    by (rule select_instantiation_cases)
  have "THSyclTensor_scatterKernel (index_width ?narrow) DIMS (getTensorInfo (index_width ?narrow) W)
      (getTensorInfo (index_width ?narrow) S) (getTensorInfo (index_width ?narrow) I) dim
      (numel I mod 2 ^ index_width ?narrow)
    = fold (scatter_item W S I dim) [0..<numel I] (storage W)"
    by (rule scatterKernel_items) (rule scatter_pre_fits [OF assms pos D])+
  with pos sel show ?thesis
    by (simp add: Scatter_kernel_def launch_def getTensorInfo_def)
qed

lemma ScatterAdd_kernel_fold:
  assumes "scatter_pre (index_width (canUse32BitIndexMath W \<and> canUse32BitIndexMath S \<and>
      canUse32BitIndexMath I)) W dim I S"
  shows "ScatterAdd_kernel dim I S W
     = W\<lparr>storage := fold (scatterAdd_item W S I dim) [0..<numel I] (storage W)\<rparr>"
proof (cases "numel I = 0")
  case True
  then show ?thesis by (simp add: ScatterAdd_kernel_def)
next
  case False
  then have pos: "0 < numel I" by simp
  let ?narrow = "canUse32BitIndexMath W \<and> canUse32BitIndexMath S \<and> canUse32BitIndexMath I"
  obtain DIMS where sel: "select_instantiation ?narrow (length (sizes I)) = (index_width ?narrow, DIMS)"
    and D: "DIMS = 1 \<or> DIMS = 2 \<or> DIMS = 3 \<longrightarrow> int (length (sizes I)) = DIMS"
    by (rule select_instantiation_cases)
  have "THSyclTensor_scatterAddKernel (index_width ?narrow) DIMS (getTensorInfo (index_width ?narrow) W)
      (getTensorInfo (index_width ?narrow) S) (getTensorInfo (index_width ?narrow) I) dim
      (numel I mod 2 ^ index_width ?narrow)
    = fold (scatterAdd_item W S I dim) [0..<numel I] (storage W)"
    by (rule scatterAddKernel_items) (rule scatter_pre_fits [OF assms pos D])+
  with pos sel show ?thesis
    by (simp add: ScatterAdd_kernel_def launch_def getTensorInfo_def)
qed

lemma ScatterFill_kernel_fold:
  assumes "scatterFill_pre (index_width (canUse32BitIndexMath W \<and> canUse32BitIndexMath I)) W dim I"
    and "0 < numel I"
  shows "ScatterFill_kernel dim I val W
     = W\<lparr>storage := fold (scatterFill_item W I val dim) [0..<numel I] (storage W)\<rparr>"
proof -
  let ?narrow = "canUse32BitIndexMath W \<and> canUse32BitIndexMath I"
  obtain DIMS where sel: "select_instantiation ?narrow (length (sizes I)) = (index_width ?narrow, DIMS)"
    and D: "DIMS = 1 \<or> DIMS = 2 \<or> DIMS = 3 \<longrightarrow> int (length (sizes I)) = DIMS"
    by (rule select_instantiation_cases)
  have "THSyclTensor_scatterFillKernel (index_width ?narrow) DIMS (getTensorInfo (index_width ?narrow) W)
      (getTensorInfo (index_width ?narrow) I) val dim
      (numel I mod 2 ^ index_width ?narrow)
    = fold (scatterFill_item W I val dim) [0..<numel I] (storage W)"
    by (rule scatterFillKernel_items) (rule scatterFill_pre_fits [OF assms D])+
  with sel show ?thesis
    by (simp add: ScatterFill_kernel_def launch_def getTensorInfo_def)
qed

lemma Scatter_size_loop_None:
  "\<forall>d \<in> set ds. (int d \<noteq> dim \<longrightarrow> sizes index ! d \<le> sizes tensor ! d) \<and>
       sizes index ! d \<le> sizes src ! d \<Longrightarrow>
   Scatter_size_loop tensor dim index src ds = None"
  by (induction ds) (auto simp: sizeLegacyNoScalars_def Let_def)

lemma scatter_valid_loop:
  assumes "scatter_valid cfg tensor dim index src"
  shows "Scatter_size_loop tensor dim index src [0..<length (sizes tensor)] = None"
proof (rule Scatter_size_loop_None, rule ballI)
  fix d assume "d \<in> set [0..<length (sizes tensor)]"
  then have d: "d < length (sizes tensor)" by simp
  from assms have p: "scatter_pre
        (index_width (canUse32BitIndexMath tensor \<and> canUse32BitIndexMath src \<and>
           canUse32BitIndexMath index)) tensor (nat dim) index src" and dim: "0 \<le> dim"
    by (simp_all add: scatter_valid_def)
  note f = scatter_pre_facts [OF p]
  from d f(5) have dI: "d < length (sizes index)" by simp
  have "int d \<noteq> dim \<Longrightarrow> d \<noteq> nat dim" using dim by auto
  with f(7) f(8) dI
  show "(int d \<noteq> dim \<longrightarrow> sizes index ! d \<le> sizes tensor ! d) \<and> sizes index ! d \<le> sizes src ! d"
    by blast
qed

lemma scatter_valid_checks:
  assumes "scatter_valid cfg tensor dim index src"
  shows "0 \<le> dim" "dim < int (length (sizes tensor))"
    "length (sizes index) = length (sizes src)" "length (sizes src) = length (sizes tensor)"
    "length (sizes tensor) \<le> MAX_DPCPPTORCH_DIMS cfg" "sizes tensor \<noteq> []" "sizes index \<noteq> []"
  using assms unfolding scatter_valid_def scatter_pre_def by auto

lemma Scatter_runs:
  assumes "scatter_valid cfg tensor dim index src"
  shows "Scatter cfg tensor dim index src =
     (None, if numel index = 0 then \<lparr>self = tensor, passed = tensor\<rparr>
            else run_guarded (Scatter_kernel (nat dim) index src) tensor)"
  using scatter_valid_checks [OF assms] scatter_valid_loop [OF assms]
  by (simp add: Scatter_def Let_def nDimensionLegacyNoScalars_def nDimensionLegacyAll_def)

lemma ScatterAdd_runs:
  assumes "scatter_valid cfg tensor dim index src" "IS_FLOAT32 cfg st \<or> IS_INT cfg st"
  shows "ScatterAdd cfg st tensor dim index src =
     (None, if numel index = 0 then \<lparr>self = tensor, passed = tensor\<rparr>
            else run_guarded (ScatterAdd_kernel (nat dim) index src) tensor)"
  using scatter_valid_checks [OF assms(1)] scatter_valid_loop [OF assms(1)] assms(2)
  by (simp add: ScatterAdd_def Let_def nDimensionLegacyNoScalars_def nDimensionLegacyAll_def)

lemma read_storage_update [simp]:
  "read (W\<lparr>storage := F\<rparr>) c = F (offset (strides W) c)"
  by (simp add: read_def)

lemma scatter_valid_working:
  assumes "scatter_valid cfg tensor dim index src"
  shows "scatter_pre
        (index_width (canUse32BitIndexMath (working tensor) \<and> canUse32BitIndexMath src \<and>
           canUse32BitIndexMath index)) (working tensor) (nat dim) index src"
  using assms by (simp add: scatter_valid_def scatter_pre_working)

lemma scatter_valid_targets:
  assumes "scatter_valid cfg tensor dim index src" "c \<in> set (coords (sizes index))"
  shows "target (nat dim) index c \<in> set (coords (sizes tensor))"
proof -
  from assms have p: "scatter_pre
        (index_width (canUse32BitIndexMath tensor \<and> canUse32BitIndexMath src \<and>
           canUse32BitIndexMath index)) tensor (nat dim) index src"
    by (simp add: scatter_valid_def)
  note f = scatter_pre_facts [OF p]
  from f(5) f(6) f(8) f(9) assms(2) show ?thesis by (rule scatter_target_coords)
qed

lemma Scatter_frame:
  assumes v: "scatter_valid cfg tensor dim index src"
    and p: "p \<in> set (coords (sizes tensor))"
    and un: "\<forall>c \<in> set (coords (sizes index)). target (nat dim) index c \<noteq> p"
  shows "read (self (snd (Scatter cfg tensor dim index src))) p = read tensor p"
proof (cases "numel index = 0")
  case True
  then show ?thesis by (simp add: Scatter_runs [OF v])
next
  case False
  let ?W = "working tensor"
  have "read (self (snd (Scatter cfg tensor dim index src))) p
      = read (Scatter_kernel (nat dim) index src ?W) p"
    using False by (simp add: Scatter_runs [OF v] run_guarded_self)
  also have "\<dots> = fold (scatter_item ?W src index (nat dim)) [0..<numel index] (storage ?W)
      (offset (strides ?W) p)"
    by (simp add: Scatter_kernel_fold [OF scatter_valid_working [OF v]])
  also have "\<dots> = storage ?W (offset (strides ?W) p)"
  proof (rule scatter_fold_frame)
    show "inj_on (offset (strides ?W)) (set (coords (sizes ?W)))"
      using working_inj [of tensor] by simp
    show "p \<in> set (coords (sizes ?W))" using p by simp
    show "\<forall>c\<in>set (coords (sizes index)).
        target (nat dim) index c \<in> set (coords (sizes ?W)) \<and> target (nat dim) index c \<noteq> p"
      using un scatter_valid_targets [OF v] by simp
  qed
  also have "\<dots> = read tensor p"
    using working_read [OF p] by (simp add: read_def)
  finally show ?thesis .
qed

lemma Scatter_direct:
  assumes v: "scatter_valid cfg tensor dim index src" and "\<not> maybeOverlappingIndices tensor"
  shows "passed (snd (Scatter cfg tensor dim index src)) = self (snd (Scatter cfg tensor dim index src))"
  using assms(2) by (simp add: Scatter_runs [OF v] run_guarded_def Let_def)

lemma Scatter_sizes:
  assumes v: "scatter_valid cfg tensor dim index src"
  shows "sizes (self (snd (Scatter cfg tensor dim index src))) = sizes tensor"
  by (simp add: Scatter_runs [OF v] run_guarded_self Scatter_kernel_fold [OF scatter_valid_working [OF v]])

section \<open>Scatter\<close>

text \<open>
  The frame of scatter in the destination the call returns, on inputs whose offsets are
  representable in the selected index type: the call returns without error, and every position \<open>p\<close>
  of the destination that is not \<open>c\<close> with its axis component replaced by \<open>index[c]\<close>
  for any coordinate \<open>c\<close> of the index tensor reads, in the destination the call returns,
  the value it had before the call. When the destination does not overlap, the tensor
  object passed in is that destination.
\<close>

lemma scatter_frame_in_returned_destination:
  assumes "dispatched (scalar_type tensor)" "scatter_valid cfg tensor dim index src"
  shows "\<exists>r. scatter_inplace cfg tensor dim index src = (None, r) \<and>
     sizes (self r) = sizes tensor \<and>
     (\<not> maybeOverlappingIndices tensor \<longrightarrow> passed r = self r) \<and>
     (\<forall>p \<in> set (coords (sizes tensor)).
        (\<forall>c \<in> set (coords (sizes index)). c[nat dim := nat (read index c)] \<noteq> p)
        \<longrightarrow> read (self r) p = read tensor p)"
proof -
  let ?r = "snd (Scatter cfg tensor dim index src)"
  have run: "scatter_inplace cfg tensor dim index src = (None, ?r)"
    using assms(1) by (simp add: scatter_inplace_def dispatch_accepts Scatter_runs [OF assms(2)])
  moreover have "sizes (self ?r) = sizes tensor"
    by (rule Scatter_sizes [OF assms(2)])
  moreover have "\<not> maybeOverlappingIndices tensor \<longrightarrow> passed ?r = self ?r"
    using Scatter_direct [OF assms(2)] by blast
  moreover have "\<forall>p \<in> set (coords (sizes tensor)).
        (\<forall>c \<in> set (coords (sizes index)). c[nat dim := nat (read index c)] \<noteq> p)
        \<longrightarrow> read (self ?r) p = read tensor p"
    using Scatter_frame [OF assms(2)] by (simp add: target_def)
  ultimately show ?thesis by blast
qed

text \<open>
  At a concrete input: a 2 x 2 destination of nines, axis 1, index \<open>[[0], [1]]\<close>. The
  positions \<open>[0, 1]\<close> and \<open>[1, 0]\<close> are not addressed and still read 9.
\<close>

lemma coords_2_2: "coords [2, 2] = [[0, 0], [0, 1], [1, 0], [1, 1]]"
  by (simp add: upt_rec)

lemma coords_2_1: "coords [2, 1] = [[0, 0], [1, 0]]"
  by (simp add: upt_rec)

lemma scatter_frame_at_input:
  "\<exists>r. scatter_inplace sample_config (tensor_of kFloat [2, 2] [2, 1] [9, 9, 9, 9 :: int]) 1
          (tensor_of kLong [2, 1] [1, 1] [0, 1]) (tensor_of kFloat [2, 2] [2, 1] [1, 2, 3, 4])
        = (None, r) \<and>
       sizes (self r) = [2, 2] \<and> passed r = self r \<and>
       read (self r) [0, 1] = 9 \<and> read (self r) [1, 0] = 9"
proof -
  let ?T = "tensor_of kFloat [2, 2] [2, 1] [9, 9, 9, 9 :: int]"
  let ?I = "tensor_of kLong [2, 1] [1, 1] [0, 1 :: int]"
  let ?S = "tensor_of kFloat [2, 2] [2, 1] [1, 2, 3, 4 :: int]"
  have d: "dispatched (scalar_type ?T)"
    by (simp add: dispatched_def tensor_of_def)
  have v: "scatter_valid sample_config ?T 1 ?I ?S"
    by (auto simp: scatter_valid_def scatter_pre_def tensor_of_def sample_config_def
        well_formed_def index_in_range_def addressable_def index_width_def
        canUse32BitIndexMath_def numel_def read_def less_Suc_eq less_2_cases_iff)
  have no: "\<not> maybeOverlappingIndices ?T"
    using contiguous_offset_inj [of "[2, 2]"] by (simp add: no_overlap_inj tensor_of_def)
  from scatter_frame_in_returned_destination [OF d v] obtain r where
    r: "scatter_inplace sample_config ?T 1 ?I ?S = (None, r)" "sizes (self r) = sizes ?T"
      "\<not> maybeOverlappingIndices ?T \<longrightarrow> passed r = self r"
      "\<forall>p \<in> set (coords (sizes ?T)).
        (\<forall>c \<in> set (coords (sizes ?I)). c[nat 1 := nat (read ?I c)] \<noteq> p)
        \<longrightarrow> read (self r) p = read ?T p"
    by blast
  from r(4) have "read (self r) [0, 1] = read ?T [0, 1]" "read (self r) [1, 0] = read ?T [1, 0]"
    by (simp_all add: tensor_of_def coords_2_2 coords_2_1 read_def)
  then have "read (self r) [0, 1] = 9" "read (self r) [1, 0] = 9"
    by (simp_all add: tensor_of_def read_def)
  with r(1,2,3) no show ?thesis
    by (intro exI [of _ r]) (simp add: tensor_of_def)
qed

lemma coords_empty: "numel I = 0 \<Longrightarrow> coords (sizes I) = []"
  using coords_lin_coord [of _ I] by (cases "coords (sizes I)") auto

lemma ScatterAdd_sum:
  fixes tensor :: "('a::comm_monoid_add) Tensor"
  assumes v: "scatter_valid cfg tensor dim index src"
    and t: "IS_FLOAT32 cfg st \<or> IS_INT cfg st"
    and p: "p \<in> set (coords (sizes tensor))"
  shows "read (self (snd (ScatterAdd cfg st tensor dim index src))) p
     = read tensor p
       + sum_list (map (read src) (filter (\<lambda>c. target (nat dim) index c = p) (coords (sizes index))))"
proof (cases "numel index = 0")
  case True
  then show ?thesis by (simp add: ScatterAdd_runs [OF v t] coords_empty)
next
  case False
  let ?W = "working tensor"
  have "read (self (snd (ScatterAdd cfg st tensor dim index src))) p
      = read (ScatterAdd_kernel (nat dim) index src ?W) p"
    using False by (simp add: ScatterAdd_runs [OF v t] run_guarded_self)
  also have "\<dots> = fold (scatterAdd_item ?W src index (nat dim)) [0..<numel index] (storage ?W)
      (offset (strides ?W) p)"
    by (simp add: ScatterAdd_kernel_fold [OF scatter_valid_working [OF v]])
  also have "\<dots> = storage ?W (offset (strides ?W) p)
      + sum_list (map (read src) (filter (\<lambda>c. target (nat dim) index c = p) (coords (sizes index))))"
  proof (rule scatterAdd_fold_sum)
    show "inj_on (offset (strides ?W)) (set (coords (sizes ?W)))"
      using working_inj [of tensor] by simp
    show "p \<in> set (coords (sizes ?W))" using p by simp
    show "\<forall>c\<in>set (coords (sizes index)). target (nat dim) index c \<in> set (coords (sizes ?W))"
      using scatter_valid_targets [OF v] by simp
  qed
  also have "storage ?W (offset (strides ?W) p) = read tensor p"
    using working_read [OF p] by (simp add: read_def)
  finally show ?thesis .
qed

lemma scatterAdd_any_order:
  fixes tensor :: "('a::comm_monoid_add) Tensor"
  assumes v: "scatter_valid cfg tensor dim index src"
    and o: "mset order = mset [0..<numel index]"
    and s: "select_instantiation
        (canUse32BitIndexMath tensor \<and> canUse32BitIndexMath src \<and> canUse32BitIndexMath index)
        (length (sizes index)) = (w, DIMS)"
  shows "scatterAdd_in_order order w DIMS (getTensorInfo w (working tensor)) (getTensorInfo w src)
           (getTensorInfo w index) (nat dim)
         = THSyclTensor_scatterAddKernel w DIMS (getTensorInfo w (working tensor))
             (getTensorInfo w src) (getTensorInfo w index) (nat dim) (numel index mod 2 ^ w)"
proof (cases "numel index = 0")
  case True
  with o show ?thesis by (simp add: THSyclTensor_scatterAddKernel_def)
next
  case False
  then have pos: "0 < numel index" by simp
  let ?narrow = "canUse32BitIndexMath tensor \<and> canUse32BitIndexMath src \<and> canUse32BitIndexMath index"
  obtain D where sel: "select_instantiation ?narrow (length (sizes index)) = (index_width ?narrow, D)"
    and D: "D = 1 \<or> D = 2 \<or> D = 3 \<longrightarrow> int (length (sizes index)) = D"
    by (rule select_instantiation_cases)
  with s have w: "w = index_width ?narrow" and DD: "DIMS = D" by simp_all
  have pre: "scatter_pre w (working tensor) (nat dim) index src"
    using scatter_valid_working [OF v] w by simp
  note fits = scatter_pre_fits [OF pre pos, of DIMS]
  have Dc: "DIMS = 1 \<or> DIMS = 2 \<or> DIMS = 3 \<longrightarrow> int (length (sizes index)) = DIMS"
    using D DD by simp
  have "scatterAdd_in_order order w DIMS (getTensorInfo w (working tensor)) (getTensorInfo w src)
           (getTensorInfo w index) (nat dim)
      = fold (scatterAdd_item (working tensor) src index (nat dim)) order (storage (working tensor))"
    by (rule scatterAdd_in_order_items) (rule fits [OF Dc])+
  also have "\<dots> = fold (scatterAdd_item (working tensor) src index (nat dim)) [0..<numel index]
      (storage (working tensor))"
    using o by (rule scatterAdd_fold_order)
  also have "\<dots> = THSyclTensor_scatterAddKernel w DIMS (getTensorInfo w (working tensor))
             (getTensorInfo w src) (getTensorInfo w index) (nat dim) (numel index mod 2 ^ w)"
    by (rule scatterAddKernel_items [symmetric]) (rule fits [OF Dc])+
  finally show ?thesis .
qed

section \<open>Scatter-add\<close>

text \<open>
  The sum of scatter-add in the destination the call returns, on inputs whose offsets are
  representable in the selected index type and an element type of the first overload: each
  position \<open>p\<close> of the returned destination holds its prior value plus the sum of the
  source elements \<open>src[c]\<close> over all coordinates \<open>c\<close> of the index tensor that address
  \<open>p\<close>; and the kernel that ran gives the same memory when its work items are processed in
  any other order. Addition is that of a commutative monoid: exact for the integer types,
  and for floating point up to reassociation.
\<close>

lemma scatter_add_sum_in_returned_destination:
  fixes tensor :: "('a::comm_monoid_add) Tensor"
  assumes "dispatched (scalar_type tensor)"
    and "IS_FLOAT32 cfg (scalar_type tensor) \<or> IS_INT cfg (scalar_type tensor)"
    and "scatter_valid cfg tensor dim index src"
  shows "\<exists>r. scatter_add_inplace cfg tensor dim index src = (None, r) \<and>
     (\<forall>p \<in> set (coords (sizes tensor)).
        read (self r) p
          = read tensor p
            + sum_list (map (read src)
                (filter (\<lambda>c. c[nat dim := nat (read index c)] = p) (coords (sizes index))))) \<and>
     (\<forall>order. mset order = mset [0..<numel index] \<longrightarrow>
        (case select_instantiation
                (canUse32BitIndexMath tensor \<and> canUse32BitIndexMath src \<and> canUse32BitIndexMath index)
                (length (sizes index)) of
           (w, DIMS) \<Rightarrow>
             scatterAdd_in_order order w DIMS (getTensorInfo w (working tensor))
                 (getTensorInfo w src) (getTensorInfo w index) (nat dim)
               = THSyclTensor_scatterAddKernel w DIMS (getTensorInfo w (working tensor))
                   (getTensorInfo w src) (getTensorInfo w index) (nat dim)
                   (numel index mod 2 ^ w)))"
proof -
  let ?r = "snd (ScatterAdd cfg (scalar_type tensor) tensor dim index src)"
  have "scatter_add_inplace cfg tensor dim index src = (None, ?r)"
    using assms(1) by (simp add: scatter_add_inplace_def dispatch_accepts ScatterAdd_runs [OF assms(3,2)])
  moreover have "\<forall>p \<in> set (coords (sizes tensor)).
        read (self ?r) p
          = read tensor p
            + sum_list (map (read src)
                (filter (\<lambda>c. c[nat dim := nat (read index c)] = p) (coords (sizes index))))"
    using ScatterAdd_sum [OF assms(3,2)] by (simp add: target_def)
  moreover have "\<forall>order. mset order = mset [0..<numel index] \<longrightarrow>
        (case select_instantiation
                (canUse32BitIndexMath tensor \<and> canUse32BitIndexMath src \<and> canUse32BitIndexMath index)
                (length (sizes index)) of
           (w, DIMS) \<Rightarrow>
             scatterAdd_in_order order w DIMS (getTensorInfo w (working tensor))
                 (getTensorInfo w src) (getTensorInfo w index) (nat dim)
               = THSyclTensor_scatterAddKernel w DIMS (getTensorInfo w (working tensor))
                   (getTensorInfo w src) (getTensorInfo w index) (nat dim)
                   (numel index mod 2 ^ w))"
    using scatterAdd_any_order [OF assms(3)] by (auto split: prod.splits)
  ultimately show ?thesis by blast
qed

text \<open>
  At a concrete input: destination \<open>[10, 20]\<close>, axis 0, index \<open>[0, 0, 1]\<close>, source
  \<open>[1, 2, 4]\<close>. Position 0 receives two contributions. The work items in the order
  2, 0, 1 give the memory the kernel gives.
\<close>

lemma scatter_add_sum_at_input:
  "\<exists>r. scatter_add_inplace sample_config (tensor_of kInt [2] [1] [10, 20 :: int]) 0
          (tensor_of kLong [3] [1] [0, 0, 1]) (tensor_of kInt [3] [1] [1, 2, 4])
        = (None, r) \<and>
       read (self r) [0] = 13 \<and> read (self r) [1] = 24 \<and>
       scatterAdd_in_order [2, 0, 1] 32 1
           (getTensorInfo 32 (working (tensor_of kInt [2] [1] [10, 20 :: int])))
           (getTensorInfo 32 (tensor_of kInt [3] [1] [1, 2, 4]))
           (getTensorInfo 32 (tensor_of kLong [3] [1] [0, 0, 1])) 0
         = THSyclTensor_scatterAddKernel 32 1
             (getTensorInfo 32 (working (tensor_of kInt [2] [1] [10, 20 :: int])))
             (getTensorInfo 32 (tensor_of kInt [3] [1] [1, 2, 4]))
             (getTensorInfo 32 (tensor_of kLong [3] [1] [0, 0, 1])) 0 3"
proof -
  let ?T = "tensor_of kInt [2] [1] [10, 20 :: int]"
  let ?I = "tensor_of kLong [3] [1] [0, 0, 1 :: int]"
  let ?S = "tensor_of kInt [3] [1] [1, 2, 4 :: int]"
  have d: "dispatched (scalar_type ?T)"
    by (simp add: dispatched_def tensor_of_def)
  have n: "IS_FLOAT32 sample_config (scalar_type ?T) \<or> IS_INT sample_config (scalar_type ?T)"
    by (simp add: sample_config_def tensor_of_def)
  have v: "scatter_valid sample_config ?T 0 ?I ?S"
    by (auto simp: scatter_valid_def scatter_pre_def tensor_of_def sample_config_def
        well_formed_def index_in_range_def addressable_def index_width_def
        canUse32BitIndexMath_def numel_def read_def less_Suc_eq numeral_3_eq_3)
  have sel: "select_instantiation
      (canUse32BitIndexMath ?T \<and> canUse32BitIndexMath ?S \<and> canUse32BitIndexMath ?I)
      (length (sizes ?I)) = (32, 1)"
    by (simp add: select_instantiation_def canUse32BitIndexMath_def numel_def tensor_of_def)
  have c2: "coords [2] = [[0], [1]]" and c3: "coords [3] = [[0], [1], [2]]"
    by (simp_all add: upt_rec)
  have ms: "mset [2, 0, 1] = mset [0..<numel ?I]"
    by (simp add: numel_def tensor_of_def upt_rec)
  from scatter_add_sum_in_returned_destination [OF d n v] obtain r where
    r: "scatter_add_inplace sample_config ?T 0 ?I ?S = (None, r)"
      "\<forall>p \<in> set (coords (sizes ?T)).
        read (self r) p
          = read ?T p
            + sum_list (map (read ?S)
                (filter (\<lambda>c. c[nat 0 := nat (read ?I c)] = p) (coords (sizes ?I))))"
      "\<forall>order. mset order = mset [0..<numel ?I] \<longrightarrow>
        (case select_instantiation
                (canUse32BitIndexMath ?T \<and> canUse32BitIndexMath ?S \<and> canUse32BitIndexMath ?I)
                (length (sizes ?I)) of
           (w, DIMS) \<Rightarrow>
             scatterAdd_in_order order w DIMS (getTensorInfo w (working ?T))
                 (getTensorInfo w ?S) (getTensorInfo w ?I) (nat 0)
               = THSyclTensor_scatterAddKernel w DIMS (getTensorInfo w (working ?T))
                   (getTensorInfo w ?S) (getTensorInfo w ?I) (nat 0)
                   (numel ?I mod 2 ^ w))"
    by blast
  have sz: "sizes ?T = [2]" "sizes ?I = [3]" by (simp_all add: tensor_of_def)
  from r(2) have "read (self r) [0] = 13" "read (self r) [1] = 24"
    unfolding sz c2 c3 by (simp_all add: tensor_of_def read_def)
  moreover have "scatterAdd_in_order [2, 0, 1] 32 1 (getTensorInfo 32 (working ?T))
      (getTensorInfo 32 ?S) (getTensorInfo 32 ?I) 0
    = THSyclTensor_scatterAddKernel 32 1 (getTensorInfo 32 (working ?T))
      (getTensorInfo 32 ?S) (getTensorInfo 32 ?I) 0 (numel ?I mod 2 ^ 32)"
    using r(3) [rule_format, OF ms] unfolding sel by (simp only: prod.case nat_0)
  moreover have "numel ?I mod 2 ^ 32 = 3" by (simp add: numel_def tensor_of_def)
  ultimately show ?thesis using r(1) by (intro exI [of _ r]) simp
qed



lemma row_major_no_overlap:
  "strides t = contiguous_strides (sizes t) \<Longrightarrow> \<not> maybeOverlappingIndices t"
  by (simp add: no_overlap_inj contiguous_offset_inj)




section \<open>Gather\<close>




section \<open>The instantiations\<close>




lemma select_instantiation_eq:
  "select_instantiation narrow n
     = (if narrow \<and> (n = 1 \<or> n = 2 \<or> n = 3) then (32, int n) else (index_width narrow, - 1))"
  by (auto simp: select_instantiation_def index_width_def)




lemma addressable_wider: "addressable 32 t \<Longrightarrow> addressable 64 t"
proof -
  assume a: "addressable 32 t"
  have p: "(2::nat) ^ 32 < 2 ^ 64" by simp
  have "numel t < 2 ^ 64" using a p unfolding addressable_def by linarith
  moreover have "\<forall>c \<in> set (coords (sizes t)). offset (strides t) c < 2 ^ 64"
  proof
    fix c assume "c \<in> set (coords (sizes t))"
    with a have "offset (strides t) c < 2 ^ 32" by (rule addressable_offset)
    with p show "offset (strides t) c < 2 ^ 64" by linarith
  qed
  ultimately show ?thesis unfolding addressable_def by blast
qed

lemma gather_pre_wider: "gather_pre 32 T S dim I \<Longrightarrow> gather_pre 64 T S dim I"
  unfolding gather_pre_def by (simp add: addressable_wider)

lemma scatter_pre_wider: "scatter_pre 32 T dim I S \<Longrightarrow> scatter_pre 64 T dim I S"
  unfolding scatter_pre_def by (simp add: addressable_wider)

lemma scatterFill_pre_wider: "scatterFill_pre 32 T dim I \<Longrightarrow> scatterFill_pre 64 T dim I"
  unfolding scatterFill_pre_def by (simp add: addressable_wider)

lemma generic_DIMS: "(- 1 :: int) = 1 \<or> (- 1 :: int) = 2 \<or> (- 1 :: int) = 3 \<longrightarrow> int n = - 1"
  by simp

lemma gather_narrow_wide:
  assumes p: "gather_pre 32 T S dim I" and n: "0 < numel I"
    and D: "DIMS = 1 \<or> DIMS = 2 \<or> DIMS = 3 \<longrightarrow> int (length (sizes I)) = DIMS"
  shows "THDPCPPTensor_gatherKernel 32 DIMS (getTensorInfo 32 T) (getTensorInfo 32 S)
           (getTensorInfo 32 I) dim (numel I mod 2 ^ 32)
       = THDPCPPTensor_gatherKernel 64 (- 1) (getTensorInfo 64 T) (getTensorInfo 64 S)
           (getTensorInfo 64 I) dim (numel I mod 2 ^ 64)"
proof -
  have "THDPCPPTensor_gatherKernel 32 DIMS (getTensorInfo 32 T) (getTensorInfo 32 S)
           (getTensorInfo 32 I) dim (numel I mod 2 ^ 32)
      = fold (gather_item T S I dim) [0..<numel I] (storage T)"
    by (rule gatherKernel_items) (rule gather_pre_fits [OF p n D])+
  also have "\<dots> = THDPCPPTensor_gatherKernel 64 (- 1) (getTensorInfo 64 T) (getTensorInfo 64 S)
           (getTensorInfo 64 I) dim (numel I mod 2 ^ 64)"
    by (rule gatherKernel_items [symmetric])
       (rule gather_pre_fits [OF gather_pre_wider [OF p] n generic_DIMS])+
  finally show ?thesis .
qed

lemma scatter_narrow_wide:
  assumes p: "scatter_pre 32 T dim I S" and n: "0 < numel I"
    and D: "DIMS = 1 \<or> DIMS = 2 \<or> DIMS = 3 \<longrightarrow> int (length (sizes I)) = DIMS"
  shows "THSyclTensor_scatterKernel 32 DIMS (getTensorInfo 32 T) (getTensorInfo 32 S)
           (getTensorInfo 32 I) dim (numel I mod 2 ^ 32)
       = THSyclTensor_scatterKernel 64 (- 1) (getTensorInfo 64 T) (getTensorInfo 64 S)
           (getTensorInfo 64 I) dim (numel I mod 2 ^ 64)"
proof -
  have "THSyclTensor_scatterKernel 32 DIMS (getTensorInfo 32 T) (getTensorInfo 32 S)
           (getTensorInfo 32 I) dim (numel I mod 2 ^ 32)
      = fold (scatter_item T S I dim) [0..<numel I] (storage T)"
    by (rule scatterKernel_items) (rule scatter_pre_fits [OF p n D])+
  also have "\<dots> = THSyclTensor_scatterKernel 64 (- 1) (getTensorInfo 64 T) (getTensorInfo 64 S)
           (getTensorInfo 64 I) dim (numel I mod 2 ^ 64)"
    by (rule scatterKernel_items [symmetric])
       (rule scatter_pre_fits [OF scatter_pre_wider [OF p] n generic_DIMS])+
  finally show ?thesis .
qed

lemma scatterAdd_narrow_wide:
  fixes T :: "('a::comm_monoid_add) Tensor"
  assumes p: "scatter_pre 32 T dim I S" and n: "0 < numel I"
    and D: "DIMS = 1 \<or> DIMS = 2 \<or> DIMS = 3 \<longrightarrow> int (length (sizes I)) = DIMS"
  shows "THSyclTensor_scatterAddKernel 32 DIMS (getTensorInfo 32 T) (getTensorInfo 32 S)
           (getTensorInfo 32 I) dim (numel I mod 2 ^ 32)
       = THSyclTensor_scatterAddKernel 64 (- 1) (getTensorInfo 64 T) (getTensorInfo 64 S)
           (getTensorInfo 64 I) dim (numel I mod 2 ^ 64)"
proof -
  have "THSyclTensor_scatterAddKernel 32 DIMS (getTensorInfo 32 T) (getTensorInfo 32 S)
           (getTensorInfo 32 I) dim (numel I mod 2 ^ 32)
      = fold (scatterAdd_item T S I dim) [0..<numel I] (storage T)"
    by (rule scatterAddKernel_items) (rule scatter_pre_fits [OF p n D])+
  also have "\<dots> = THSyclTensor_scatterAddKernel 64 (- 1) (getTensorInfo 64 T) (getTensorInfo 64 S)
           (getTensorInfo 64 I) dim (numel I mod 2 ^ 64)"
    by (rule scatterAddKernel_items [symmetric])
       (rule scatter_pre_fits [OF scatter_pre_wider [OF p] n generic_DIMS])+
  finally show ?thesis .
qed

lemma scatterFill_narrow_wide:
  assumes p: "scatterFill_pre 32 T dim I" and n: "0 < numel I"
    and D: "DIMS = 1 \<or> DIMS = 2 \<or> DIMS = 3 \<longrightarrow> int (length (sizes I)) = DIMS"
  shows "THSyclTensor_scatterFillKernel 32 DIMS (getTensorInfo 32 T) (getTensorInfo 32 I) val dim
           (numel I mod 2 ^ 32)
       = THSyclTensor_scatterFillKernel 64 (- 1) (getTensorInfo 64 T) (getTensorInfo 64 I) val dim
           (numel I mod 2 ^ 64)"
proof -
  have "THSyclTensor_scatterFillKernel 32 DIMS (getTensorInfo 32 T) (getTensorInfo 32 I) val dim
           (numel I mod 2 ^ 32)
      = fold (scatterFill_item T I val dim) [0..<numel I] (storage T)"
    by (rule scatterFillKernel_items) (rule scatterFill_pre_fits [OF p n D])+
  also have "\<dots> = THSyclTensor_scatterFillKernel 64 (- 1) (getTensorInfo 64 T) (getTensorInfo 64 I) val dim
           (numel I mod 2 ^ 64)"
    by (rule scatterFillKernel_items [symmetric])
       (rule scatterFill_pre_fits [OF scatterFill_pre_wider [OF p] n generic_DIMS])+
  finally show ?thesis .
qed

text \<open>
  The two index widths. On every input within the kernel contract at 32 bits (a valid
  input all of whose element counts and offsets are below \<open>2 ^ 32\<close>), the 32-bit
  instantiation of each of the four kernels, rank-specialized or generic, and the 64-bit
  instantiation give the same memory. With the width predicate read as a bound on the
  element count, the 32-bit instantiations are selected exactly when the element count of
  every tensor of the call is at most \<open>2 ^ 32 - 1\<close>.
\<close>

lemma narrow_equals_wide_within_contract:
  fixes T S :: "'a Tensor" and AT AS :: "('b::comm_monoid_add) Tensor"
  shows
  "(gather_pre 32 T S dim I \<and> 0 < numel I \<and>
      (DIMS = 1 \<or> DIMS = 2 \<or> DIMS = 3 \<longrightarrow> int (length (sizes I)) = DIMS)
      \<longrightarrow> THDPCPPTensor_gatherKernel 32 DIMS (getTensorInfo 32 T) (getTensorInfo 32 S)
              (getTensorInfo 32 I) dim (numel I mod 2 ^ 32)
          = THDPCPPTensor_gatherKernel 64 (- 1) (getTensorInfo 64 T) (getTensorInfo 64 S)
              (getTensorInfo 64 I) dim (numel I mod 2 ^ 64)) \<and>
   (scatter_pre 32 T dim I S \<and> 0 < numel I \<and>
      (DIMS = 1 \<or> DIMS = 2 \<or> DIMS = 3 \<longrightarrow> int (length (sizes I)) = DIMS)
      \<longrightarrow> THSyclTensor_scatterKernel 32 DIMS (getTensorInfo 32 T) (getTensorInfo 32 S)
              (getTensorInfo 32 I) dim (numel I mod 2 ^ 32)
          = THSyclTensor_scatterKernel 64 (- 1) (getTensorInfo 64 T) (getTensorInfo 64 S)
              (getTensorInfo 64 I) dim (numel I mod 2 ^ 64)) \<and>
   (scatterFill_pre 32 T dim I \<and> 0 < numel I \<and>
      (DIMS = 1 \<or> DIMS = 2 \<or> DIMS = 3 \<longrightarrow> int (length (sizes I)) = DIMS)
      \<longrightarrow> THSyclTensor_scatterFillKernel 32 DIMS (getTensorInfo 32 T) (getTensorInfo 32 I) val dim
              (numel I mod 2 ^ 32)
          = THSyclTensor_scatterFillKernel 64 (- 1) (getTensorInfo 64 T) (getTensorInfo 64 I) val dim
              (numel I mod 2 ^ 64)) \<and>
   (scatter_pre 32 AT dim I AS \<and> 0 < numel I \<and>
      (DIMS = 1 \<or> DIMS = 2 \<or> DIMS = 3 \<longrightarrow> int (length (sizes I)) = DIMS)
      \<longrightarrow> THSyclTensor_scatterAddKernel 32 DIMS (getTensorInfo 32 AT) (getTensorInfo 32 AS)
              (getTensorInfo 32 I) dim (numel I mod 2 ^ 32)
          = THSyclTensor_scatterAddKernel 64 (- 1) (getTensorInfo 64 AT) (getTensorInfo 64 AS)
              (getTensorInfo 64 I) dim (numel I mod 2 ^ 64)) \<and>
   (fst (select_instantiation
          (canUse32BitIndexMath T \<and> canUse32BitIndexMath S \<and> canUse32BitIndexMath I) n) = 32)
     = (numel T \<le> 4294967295 \<and> numel S \<le> 4294967295 \<and> numel I \<le> 4294967295) \<and>
   (fst (select_instantiation
          (canUse32BitIndexMath T \<and> canUse32BitIndexMath S \<and> canUse32BitIndexMath I) n) = 64)
     = (\<not> (numel T \<le> 4294967295 \<and> numel S \<le> 4294967295 \<and> numel I \<le> 4294967295)) \<and>
   (fst (select_instantiation (canUse32BitIndexMath T \<and> canUse32BitIndexMath I) n) = 32)
     = (numel T \<le> 4294967295 \<and> numel I \<le> 4294967295) \<and>
   (fst (select_instantiation (canUse32BitIndexMath T \<and> canUse32BitIndexMath I) n) = 64)
     = (\<not> (numel T \<le> 4294967295 \<and> numel I \<le> 4294967295))"
proof (intro conjI impI)
  assume "gather_pre 32 T S dim I \<and> 0 < numel I \<and>
      (DIMS = 1 \<or> DIMS = 2 \<or> DIMS = 3 \<longrightarrow> int (length (sizes I)) = DIMS)"
  then show "THDPCPPTensor_gatherKernel 32 DIMS (getTensorInfo 32 T) (getTensorInfo 32 S)
              (getTensorInfo 32 I) dim (numel I mod 2 ^ 32)
          = THDPCPPTensor_gatherKernel 64 (- 1) (getTensorInfo 64 T) (getTensorInfo 64 S)
              (getTensorInfo 64 I) dim (numel I mod 2 ^ 64)"
    by (intro gather_narrow_wide) blast+
next
  assume "scatter_pre 32 T dim I S \<and> 0 < numel I \<and>
      (DIMS = 1 \<or> DIMS = 2 \<or> DIMS = 3 \<longrightarrow> int (length (sizes I)) = DIMS)"
  then show "THSyclTensor_scatterKernel 32 DIMS (getTensorInfo 32 T) (getTensorInfo 32 S)
              (getTensorInfo 32 I) dim (numel I mod 2 ^ 32)
          = THSyclTensor_scatterKernel 64 (- 1) (getTensorInfo 64 T) (getTensorInfo 64 S)
              (getTensorInfo 64 I) dim (numel I mod 2 ^ 64)"
    by (intro scatter_narrow_wide) blast+
next
  assume "scatterFill_pre 32 T dim I \<and> 0 < numel I \<and>
      (DIMS = 1 \<or> DIMS = 2 \<or> DIMS = 3 \<longrightarrow> int (length (sizes I)) = DIMS)"
  then show "THSyclTensor_scatterFillKernel 32 DIMS (getTensorInfo 32 T) (getTensorInfo 32 I) val dim
              (numel I mod 2 ^ 32)
          = THSyclTensor_scatterFillKernel 64 (- 1) (getTensorInfo 64 T) (getTensorInfo 64 I) val dim
              (numel I mod 2 ^ 64)"
    by (intro scatterFill_narrow_wide) blast+
next
  assume "scatter_pre 32 AT dim I AS \<and> 0 < numel I \<and>
      (DIMS = 1 \<or> DIMS = 2 \<or> DIMS = 3 \<longrightarrow> int (length (sizes I)) = DIMS)"
  then show "THSyclTensor_scatterAddKernel 32 DIMS (getTensorInfo 32 AT) (getTensorInfo 32 AS)
              (getTensorInfo 32 I) dim (numel I mod 2 ^ 32)
          = THSyclTensor_scatterAddKernel 64 (- 1) (getTensorInfo 64 AT) (getTensorInfo 64 AS)
              (getTensorInfo 64 I) dim (numel I mod 2 ^ 64)"
    by (intro scatterAdd_narrow_wide) blast+
qed (auto simp: select_instantiation_eq index_width_def canUse32BitIndexMath_def)

text \<open>
  At a concrete input: destination \<open>[10, 20]\<close>, axis 0, index \<open>[0, 0, 1]\<close>, source
  \<open>[1, 2, 4]\<close>; the scatter kernel at 32 bits and rank 1 and at 64 bits, and the selection.
\<close>

lemma narrow_equals_wide_at_input:
  "THSyclTensor_scatterKernel 32 1
       (getTensorInfo 32 (tensor_of kInt [2] [1] [10, 20 :: int]))
       (getTensorInfo 32 (tensor_of kInt [3] [1] [1, 2, 4]))
       (getTensorInfo 32 (tensor_of kLong [3] [1] [0, 0, 1])) 0 3
     = THSyclTensor_scatterKernel 64 (- 1)
       (getTensorInfo 64 (tensor_of kInt [2] [1] [10, 20 :: int]))
       (getTensorInfo 64 (tensor_of kInt [3] [1] [1, 2, 4]))
       (getTensorInfo 64 (tensor_of kLong [3] [1] [0, 0, 1])) 0 3 \<and>
   fst (select_instantiation
          (canUse32BitIndexMath (tensor_of kInt [2] [1] [10, 20 :: int]) \<and>
           canUse32BitIndexMath (tensor_of kInt [3] [1] [1, 2, 4 :: int]) \<and>
           canUse32BitIndexMath (tensor_of kLong [3] [1] [0, 0, 1 :: int])) 1) = 32"
proof -
  let ?T = "tensor_of kInt [2] [1] [10, 20 :: int]"
  let ?I = "tensor_of kLong [3] [1] [0, 0, 1 :: int]"
  let ?S = "tensor_of kInt [3] [1] [1, 2, 4 :: int]"
  have pre: "scatter_pre 32 ?T 0 ?I ?S"
    by (auto simp: scatter_pre_def tensor_of_def well_formed_def index_in_range_def
        addressable_def numel_def read_def less_Suc_eq numeral_3_eq_3)
  have n: "0 < numel ?I" "numel ?I mod 2 ^ 32 = 3" "numel ?I mod 2 ^ 64 = 3"
    by (simp_all add: numel_def tensor_of_def)
  have D: "(1::int) = 1 \<or> (1::int) = 2 \<or> (1::int) = 3 \<longrightarrow> int (length (sizes ?I)) = 1"
    by (simp add: tensor_of_def)
  have small: "numel ?T \<le> 4294967295 \<and> numel ?S \<le> 4294967295 \<and> numel ?I \<le> 4294967295"
    by (simp add: numel_def tensor_of_def)
  note t = narrow_equals_wide_within_contract [where T = ?T and S = ?S and I = ?I and dim = 0 and DIMS = 1
      and n = 1 and AT = ?T and AS = ?S and val = 0]
  from t pre n(1) D have "THSyclTensor_scatterKernel 32 1 (getTensorInfo 32 ?T) (getTensorInfo 32 ?S)
       (getTensorInfo 32 ?I) 0 (numel ?I mod 2 ^ 32)
     = THSyclTensor_scatterKernel 64 (- 1) (getTensorInfo 64 ?T) (getTensorInfo 64 ?S)
       (getTensorInfo 64 ?I) 0 (numel ?I mod 2 ^ 64)"
    by blast
  moreover from t small have "fst (select_instantiation
      (canUse32BitIndexMath ?T \<and> canUse32BitIndexMath ?S \<and> canUse32BitIndexMath ?I) 1) = 32"
    by blast
  ultimately show ?thesis by (simp only: n)
qed

text \<open>
  The contract bounds the offsets, not only the element counts: a destination of two
  elements with stride \<open>2 ^ 32\<close> passes the element-count test, and the 32-bit
  instantiation writes offset 0 where the 64-bit one writes offset \<open>2 ^ 32\<close>.
\<close>

lemma element_counts_do_not_bound_offsets:
  "canUse32BitIndexMath \<lparr>sizes = [2], strides = [4294967296], storage = (\<lambda>k. 0 :: int),
       scalar_type = kInt\<rparr> \<and>
   THSyclTensor_scatterFillKernel 32 1
       (getTensorInfo 32 \<lparr>sizes = [2], strides = [4294967296], storage = (\<lambda>k. 0 :: int),
          scalar_type = kInt\<rparr>)
       (getTensorInfo 32 (tensor_of kLong [1] [1] [1])) 7 0 1 0 = 7 \<and>
   THSyclTensor_scatterFillKernel 64 (- 1)
       (getTensorInfo 64 \<lparr>sizes = [2], strides = [4294967296], storage = (\<lambda>k. 0 :: int),
          scalar_type = kInt\<rparr>)
       (getTensorInfo 64 (tensor_of kLong [1] [1] [1])) 7 0 1 0 = 0"
  by (simp add: canUse32BitIndexMath_def numel_def THSyclTensor_scatterFillKernel_def
      scatterFill_element_def scatter_target_def IndexToScatterGatherOffsets_def offset_step_def
      getTensorInfo_def tensor_of_def to_IndexType_def Let_def)

section \<open>The destination guard\<close>

lemma fold_upd_some:
  "(\<And>i m. i \<in> set xs \<Longrightarrow> f i m = m(a i := v i)) \<Longrightarrow> x \<in> a ` set xs \<Longrightarrow>
   \<exists>i \<in> set xs. a i = x \<and> fold f xs m x = v i"
proof (induction xs arbitrary: m)
  case Nil
  then show ?case by simp
next
  case (Cons j xs)
  have fj: "f j m = m(a j := v j)" by (rule Cons.prems(1)) simp
  have f: "\<And>i m. i \<in> set xs \<Longrightarrow> f i m = m(a i := v i)" by (rule Cons.prems(1)) simp
  show ?case
  proof (cases "x \<in> a ` set xs")
    case True
    from Cons.IH [OF f True, of "f j m"] show ?thesis by auto
  next
    case False
    with Cons.prems(2) have xj: "a j = x" by auto
    from False have "\<forall>i\<in>set xs. a i \<noteq> x" by auto
    with f have "fold f xs (f j m) x = f j m x" by (rule fold_upd_other)
    with fj xj show ?thesis by auto
  qed
qed

lemma copy_tensor_read_some:
  assumes "c \<in> set (coords (sizes dst))"
  shows "\<exists>c' \<in> set (coords (sizes dst)).
     offset (strides dst) c' = offset (strides dst) c \<and> read (copy_tensor dst src) c = read src c'"
proof -
  have "\<exists>i \<in> set (coords (sizes dst)). offset (strides dst) i = offset (strides dst) c \<and>
      fold (copy_elem dst src) (coords (sizes dst)) (storage dst) (offset (strides dst) c) = read src i"
  proof (rule fold_upd_some [where a = "offset (strides dst)" and v = "read src"])
    show "\<And>i m. i \<in> set (coords (sizes dst)) \<Longrightarrow>
        copy_elem dst src i m = m(offset (strides dst) i := read src i)"
      by (rule copy_elem_def)
    show "offset (strides dst) c \<in> offset (strides dst) ` set (coords (sizes dst))"
      using assms by simp
  qed
  then show ?thesis by (simp add: read_def copy_tensor_def)
qed

lemma run_guarded_guarded: "guarded K tensor (run_guarded K tensor)"
proof (cases "maybeOverlappingIndices tensor")
  case True
  let ?r = "run_guarded K tensor"
  have s: "self ?r = K (contiguous tensor)" and p: "passed ?r = copy_tensor tensor (self ?r)"
    using True by (simp_all add: run_guarded_def Let_def)
  have "\<not> maybeOverlappingIndices (contiguous tensor)"
    by (intro row_major_no_overlap) simp
  moreover have "\<forall>c \<in> set (coords (sizes tensor)). read (contiguous tensor) c = read tensor c"
    by (simp add: contiguous_read)
  moreover have "\<forall>c \<in> set (coords (sizes tensor)). \<exists>c' \<in> set (coords (sizes tensor)).
            offset (strides tensor) c' = offset (strides tensor) c \<and>
            read (passed ?r) c = read (self ?r) c'"
    unfolding p by (intro ballI copy_tensor_read_some)
  ultimately show ?thesis
    using True s p by (simp add: guarded_def)
next
  case False
  then show ?thesis by (simp add: guarded_def run_guarded_def Let_def)
qed

lemma Gather_None:
  "fst (Gather cfg tensor src dim index) = None \<Longrightarrow>
   snd (Gather cfg tensor src dim index) = run_guarded (Gather_kernel (nat dim) index src) tensor"
  by (auto simp: Gather_def Let_def split: if_splits option.splits)

lemma Scatter_None:
  "fst (Scatter cfg tensor dim index src) = None \<Longrightarrow> nDimensionLegacyAll index \<noteq> 0 \<Longrightarrow>
   snd (Scatter cfg tensor dim index src) = run_guarded (Scatter_kernel (nat dim) index src) tensor"
  by (auto simp: Scatter_def Let_def split: if_splits option.splits)

lemma ScatterFill_None:
  "fst (ScatterFill cfg to tensor dim index v) = None \<Longrightarrow> nDimensionLegacyAll index \<noteq> 0 \<Longrightarrow>
   to v = Some x \<Longrightarrow>
   snd (ScatterFill cfg to tensor dim index v)
     = run_guarded (ScatterFill_kernel (nat dim) index x) tensor"
  by (auto simp: ScatterFill_def Let_def split: if_splits option.splits)

lemma ScatterAdd_None:
  "fst (ScatterAdd cfg st tensor dim index src) = None \<Longrightarrow> nDimensionLegacyAll index \<noteq> 0 \<Longrightarrow>
   IS_FLOAT32 cfg st \<or> IS_INT cfg st \<Longrightarrow>
   snd (ScatterAdd cfg st tensor dim index src)
     = run_guarded (ScatterAdd_kernel (nat dim) index src) tensor"
  by (auto simp: ScatterAdd_def Let_def split: if_splits option.splits)

text \<open>
  C5 (as stated, refuted). A destination of shape \<open>[2]\<close> and stride 0, every element 9;
  scatter along axis 0 with index \<open>[1]\<close> and source \<open>[5]\<close>. The result of the operation is
  \<open>[9, 5]\<close>, and the destination the call returns holds it. The tensor object that was passed
  in reads \<open>[5, 5]\<close> after the copy back: its two coordinates are one address, and position
  0, which no index entry addresses, has lost its value.
\<close>

theorem aliased_destination_after_copy_back:
  "maybeOverlappingIndices
      \<lparr>sizes = [2], strides = [0], storage = (\<lambda>k. 9 :: int), scalar_type = kFloat\<rparr> \<and>
   fst (scatter_inplace sample_config
      \<lparr>sizes = [2], strides = [0], storage = (\<lambda>k. 9 :: int), scalar_type = kFloat\<rparr> 0
      (tensor_of kLong [1] [1] [1]) (tensor_of kFloat [1] [1] [5])) = None \<and>
   read (self (snd (scatter_inplace sample_config
      \<lparr>sizes = [2], strides = [0], storage = (\<lambda>k. 9 :: int), scalar_type = kFloat\<rparr> 0
      (tensor_of kLong [1] [1] [1]) (tensor_of kFloat [1] [1] [5])))) [0] = 9 \<and>
   read (self (snd (scatter_inplace sample_config
      \<lparr>sizes = [2], strides = [0], storage = (\<lambda>k. 9 :: int), scalar_type = kFloat\<rparr> 0
      (tensor_of kLong [1] [1] [1]) (tensor_of kFloat [1] [1] [5])))) [1] = 5 \<and>
   read (passed (snd (scatter_inplace sample_config
      \<lparr>sizes = [2], strides = [0], storage = (\<lambda>k. 9 :: int), scalar_type = kFloat\<rparr> 0
      (tensor_of kLong [1] [1] [1]) (tensor_of kFloat [1] [1] [5])))) [0] = 5 \<and>
   read (passed (snd (scatter_inplace sample_config
      \<lparr>sizes = [2], strides = [0], storage = (\<lambda>k. 9 :: int), scalar_type = kFloat\<rparr> 0
      (tensor_of kLong [1] [1] [1]) (tensor_of kFloat [1] [1] [5])))) [1] = 5"
proof -
  define T where "T = \<lparr>sizes = [2], strides = [0], storage = (\<lambda>k. 9 :: int), scalar_type = kFloat\<rparr>"
  define I where "I = tensor_of kLong [1] [1] [1 :: int]"
  define S where "S = tensor_of kFloat [1] [1] [5 :: int]"
  have o: "maybeOverlappingIndices T"
    by (simp add: maybeOverlappingIndices_def T_def upt_rec)
  have run: "scatter_inplace sample_config T 0 I S = (None, run_guarded (Scatter_kernel 0 I S) T)"
    by (simp add: scatter_inplace_def AT_DISPATCH_ALL_TYPES_AND_def Scatter_def Let_def
        nDimensionLegacyNoScalars_def nDimensionLegacyAll_def numel_def sizeLegacyNoScalars_def
        sample_config_def T_def I_def S_def tensor_of_def)
  have c: "contiguous T = T\<lparr>strides := [1]\<rparr>"
    by (simp add: contiguous_def copy_tensor_def copy_elem_def T_def upt_rec read_def fun_eq_iff)
  have k: "Scatter_kernel 0 I S (T\<lparr>strides := [1]\<rparr>)
        = T\<lparr>strides := [1], storage := (\<lambda>k. 9)(1 := 5)\<rparr>"
    by (simp add: Scatter_kernel_def launch_def select_instantiation_def canUse32BitIndexMath_def
        numel_def THSyclTensor_scatterKernel_def scatter_element_def scatter_target_def
        IndexToScatterGatherOffsets_def offset_step_def getTensorInfo_def to_IndexType_def Let_def
        T_def I_def S_def tensor_of_def)
  have s: "self (snd (scatter_inplace sample_config T 0 I S))
      = T\<lparr>strides := [1], storage := (\<lambda>k. 9)(1 := 5)\<rparr>"
    by (simp only: run snd_conv run_guarded_def o if_True Let_def c k dest.select_convs)
  have p: "passed (snd (scatter_inplace sample_config T 0 I S))
      = copy_tensor T (T\<lparr>strides := [1], storage := (\<lambda>k. 9)(1 := 5)\<rparr>)"
    by (simp only: run snd_conv run_guarded_def o if_True Let_def c k dest.select_convs)
  have "read (self (snd (scatter_inplace sample_config T 0 I S))) [0] = 9"
    "read (self (snd (scatter_inplace sample_config T 0 I S))) [1] = 5"
    unfolding s by (simp_all add: read_def T_def)
  moreover have "read (passed (snd (scatter_inplace sample_config T 0 I S))) [0] = 5"
    "read (passed (snd (scatter_inplace sample_config T 0 I S))) [1] = 5"
    unfolding p by (simp_all add: read_def copy_tensor_def copy_elem_def T_def upt_rec)
  ultimately show ?thesis
    using o run unfolding T_def I_def S_def by simp
qed

text \<open>
  C5 (amended). In gather, scatter, scatter-fill, and in scatter-add on an element type the
  first overload of \<open>impl::ScatterAdd\<close> is selected for, once the checks have passed and
  (for the three scatter operations) the index is not empty: when the destination may
  overlap, the kernel runs on a contiguous tensor
  that does not overlap and holds the destination's values at every coordinate, the
  destination reference is rebound to it, and it is copied back into the tensor object
  passed in, each coordinate of which then reads what the buffer holds at a coordinate of
  the same offset; when the destination does not overlap, the kernel runs on it directly
  and nothing is copied.
\<close>

theorem destination_guard:
  fixes tensor src :: "'a Tensor" and atensor asrc :: "('b::comm_monoid_add) Tensor"
  shows
  "(fst (Gather cfg tensor src dim index) = None
      \<longrightarrow> guarded (Gather_kernel (nat dim) index src) tensor
            (snd (Gather cfg tensor src dim index))) \<and>
   (fst (Scatter cfg tensor dim index src) = None \<and> nDimensionLegacyAll index \<noteq> 0
      \<longrightarrow> guarded (Scatter_kernel (nat dim) index src) tensor
            (snd (Scatter cfg tensor dim index src))) \<and>
   (fst (ScatterFill cfg to tensor dim index v) = None \<and> nDimensionLegacyAll index \<noteq> 0 \<and>
      to v = Some x
      \<longrightarrow> guarded (ScatterFill_kernel (nat dim) index x) tensor
            (snd (ScatterFill cfg to tensor dim index v))) \<and>
   (fst (ScatterAdd cfg st atensor dim index asrc) = None \<and> nDimensionLegacyAll index \<noteq> 0 \<and>
      (IS_FLOAT32 cfg st \<or> IS_INT cfg st)
      \<longrightarrow> guarded (ScatterAdd_kernel (nat dim) index asrc) atensor
            (snd (ScatterAdd cfg st atensor dim index asrc)))"
  by (simp add: Gather_None Scatter_None ScatterFill_None ScatterAdd_None run_guarded_guarded)

text \<open>
  At concrete inputs: the destination of stride 0 from above, on which the guard fires, and
  a row-major destination \<open>[9, 9]\<close>, on which the kernel runs directly.
\<close>

theorem destination_guard_witness:
  "self (snd (Scatter sample_config
       \<lparr>sizes = [2], strides = [0], storage = (\<lambda>k. 9 :: int), scalar_type = kFloat\<rparr> 0
       (tensor_of kLong [1] [1] [1]) (tensor_of kFloat [1] [1] [5])))
     = Scatter_kernel 0 (tensor_of kLong [1] [1] [1]) (tensor_of kFloat [1] [1] [5])
         (contiguous \<lparr>sizes = [2], strides = [0], storage = (\<lambda>k. 9 :: int), scalar_type = kFloat\<rparr>) \<and>
   passed (snd (Scatter sample_config
       \<lparr>sizes = [2], strides = [0], storage = (\<lambda>k. 9 :: int), scalar_type = kFloat\<rparr> 0
       (tensor_of kLong [1] [1] [1]) (tensor_of kFloat [1] [1] [5])))
     = copy_tensor \<lparr>sizes = [2], strides = [0], storage = (\<lambda>k. 9 :: int), scalar_type = kFloat\<rparr>
         (self (snd (Scatter sample_config
            \<lparr>sizes = [2], strides = [0], storage = (\<lambda>k. 9 :: int), scalar_type = kFloat\<rparr> 0
            (tensor_of kLong [1] [1] [1]) (tensor_of kFloat [1] [1] [5])))) \<and>
   passed (snd (Scatter sample_config (tensor_of kFloat [2] [1] [9, 9 :: int]) 0
       (tensor_of kLong [1] [1] [1]) (tensor_of kFloat [1] [1] [5])))
     = Scatter_kernel 0 (tensor_of kLong [1] [1] [1]) (tensor_of kFloat [1] [1] [5])
         (tensor_of kFloat [2] [1] [9, 9 :: int])"
proof -
  define T where "T = \<lparr>sizes = [2], strides = [0], storage = (\<lambda>k. 9 :: int), scalar_type = kFloat\<rparr>"
  define T2 where "T2 = tensor_of kFloat [2] [1] [9, 9 :: int]"
  define I where "I = tensor_of kLong [1] [1] [1 :: int]"
  define S where "S = tensor_of kFloat [1] [1] [5 :: int]"
  have o: "maybeOverlappingIndices T"
    by (simp add: maybeOverlappingIndices_def T_def upt_rec)
  have o2: "\<not> maybeOverlappingIndices T2"
    by (intro row_major_no_overlap) (simp add: T2_def tensor_of_def)
  have ne: "nDimensionLegacyAll I \<noteq> 0"
    by (simp add: nDimensionLegacyAll_def numel_def I_def tensor_of_def)
  have run: "fst (Scatter sample_config T 0 I S) = None"
    by (simp add: Scatter_def Let_def
        nDimensionLegacyNoScalars_def nDimensionLegacyAll_def numel_def sizeLegacyNoScalars_def
        sample_config_def T_def I_def S_def tensor_of_def)
  have run2: "fst (Scatter sample_config T2 0 I S) = None"
    by (simp add: Scatter_def Let_def
        nDimensionLegacyNoScalars_def nDimensionLegacyAll_def numel_def sizeLegacyNoScalars_def
        sample_config_def T2_def I_def S_def tensor_of_def)
  have "guarded (Scatter_kernel (nat 0) I S) T (snd (Scatter sample_config T 0 I S))"
    using destination_guard [where cfg = sample_config and tensor = T and dim = 0 and index = I
        and src = S and atensor = T and asrc = S and st = kInt and to = Some and v = 0 and x = 0]
      run ne by blast
  moreover have "guarded (Scatter_kernel (nat 0) I S) T2 (snd (Scatter sample_config T2 0 I S))"
    using destination_guard [where cfg = sample_config and tensor = T2 and dim = 0 and index = I
        and src = S and atensor = T and asrc = S and st = kInt and to = Some and v = 0 and x = 0]
      run2 ne by blast
  ultimately show ?thesis
    using o o2 unfolding guarded_def T_def T2_def I_def S_def by simp
qed

end
